(* ===== verification/Prelude.thy ===== *)
theory Prelude
  imports Main "HOL-Library.Sublist"
begin

text \<open>
  Shared vocabulary of the development: the Python exceptions the two scripts
  raise or catch, timestamps, and the Python string builtins that
  \<open>src/test_api.py\<close> applies to a channel handle (\<open>str.replace\<close>,
  \<open>str.strip\<close>, \<open>str.lower\<close>, the substring test \<open>in\<close>). Strings are
  \<open>char list\<close>; the builtins are modelled on the ASCII range, where a
  character is one \<open>char\<close>. The lemmas here are the generic facts the
  component theories use, collected in \<open>py_simps\<close> for evaluation.
\<close>

named_theorems py_simps "evaluation rules of the Python string builtins"

type_synonym timestamp = int \<comment> \<open>seconds since the epoch, UTC\<close>

text \<open>
  Exceptions, by the class the code or the library raises. \<open>HttpError\<close>
  carries \<open>e.resp.status\<close>, which \<open>src/test_api.py\<close> inspects.
\<close>

datatype exc =
    FileNotFoundError   \<comment> \<open>\<open>open\<close> of a missing file\<close>
  | ValueError          \<comment> \<open>malformed authorized-user info\<close>
  | JSONDecodeError     \<comment> \<open>token file is not JSON\<close>
  | RefreshError        \<comment> \<open>refresh impossible or refused\<close>
  | TransportError      \<comment> \<open>network failure\<close>
  | FlowError           \<comment> \<open>interactive login could not complete\<close>
  | HttpError nat       \<comment> \<open>API call answered with an error status\<close>
  | IndexError
  | KeyError
  | TypeError           \<comment> \<open>an operand of the wrong type\<close>
  | OverflowError       \<comment> \<open>date arithmetic out of range\<close>
  | OtherError

text \<open>Exception propagation through a sequence of stateful steps: a step
  that raised stops the sequence, keeping the state it reached, as an
  uncaught exception leaves a \<open>try\<close> block.\<close>

definition bind_exc :: "(exc + 'a) \<times> 's \<Rightarrow> ('a \<Rightarrow> 's \<Rightarrow> (exc + 'b) \<times> 's) \<Rightarrow> (exc + 'b) \<times> 's" where
  "bind_exc m f = (case m of (Inl e, s) \<Rightarrow> (Inl e, s) | (Inr a, s) \<Rightarrow> f a s)"

subsection \<open>Python string builtins\<close>

text \<open>\<open>str.isspace\<close> on one ASCII character: \<open>\t \n \v \f \r\<close>, the
  separators \<open>\x1c\<close>..\<open>\x1f\<close> and the space.\<close>

definition py_isspace :: "char \<Rightarrow> bool" where
  "py_isspace c \<longleftrightarrow>
     (let n = (of_char c :: nat) in (9 \<le> n \<and> n \<le> 13) \<or> (28 \<le> n \<and> n \<le> 32))"

text \<open>\<open>s.strip()\<close>: whitespace removed at both ends.\<close>

definition py_strip :: "string \<Rightarrow> string" where
  "py_strip s = rev (dropWhile py_isspace (rev (dropWhile py_isspace s)))"

text \<open>\<open>s.lower()\<close>: ASCII capitals mapped to small letters.\<close>

definition py_isupper :: "char \<Rightarrow> bool" where
  "py_isupper c \<longleftrightarrow> 65 \<le> (of_char c :: nat) \<and> (of_char c :: nat) \<le> 90"

definition py_lower_char :: "char \<Rightarrow> char" where
  "py_lower_char c = (if py_isupper c then char_of (of_char c + (32 :: nat)) else c)"

definition py_lower :: "string \<Rightarrow> string" where
  "py_lower s = map py_lower_char s"

text \<open>\<open>s.replace(c, new)\<close> for a one-character pattern \<open>c\<close>.\<close>

definition py_replace_char :: "char \<Rightarrow> string \<Rightarrow> string \<Rightarrow> string" where
  "py_replace_char c new s = concat (map (\<lambda>x. if x = c then new else [x]) s)"

text \<open>\<open>a in b\<close> for strings: \<open>a\<close> is a contiguous substring of \<open>b\<close>.\<close>

definition py_in :: "string \<Rightarrow> string \<Rightarrow> bool" where
  "py_in a b \<longleftrightarrow> sublist a b"

text \<open>Truthiness of a string: \<open>if s:\<close> holds for a non-empty string.\<close>

definition py_truthy :: "string \<Rightarrow> bool" where
  "py_truthy s \<longleftrightarrow> s \<noteq> []"

subsection \<open>Evaluation rules\<close>

lemma py_in_code [py_simps]:
  "py_in [] b"
  "py_in (x # xs) [] \<longleftrightarrow> False"
  "py_in (x # xs) (y # ys) \<longleftrightarrow> prefix (x # xs) (y # ys) \<or> py_in (x # xs) ys"
  by (simp_all add: py_in_def sublist_code)

lemmas py_eval [py_simps] =
  py_strip_def py_lower_def py_lower_char_def py_isupper_def py_isspace_def
  py_replace_char_def py_truthy_def char_of_eq_iff

subsection \<open>Generic facts\<close>

lemma bind_exc_Inl [simp]: "bind_exc (Inl e, s) f = (Inl e, s)"
  by (simp add: bind_exc_def)

lemma bind_exc_Inr [simp]: "bind_exc (Inr a, s) f = f a s"
  by (simp add: bind_exc_def)

lemma bind_exc_cong [fundef_cong]:
  "m = m' \<Longrightarrow> (\<And>a s. m' = (Inr a, s) \<Longrightarrow> f a s = g a s) \<Longrightarrow> bind_exc m f = bind_exc m' g"
  by (auto simp: bind_exc_def split: prod.splits sum.splits)

lemma bind_exc_Inr_iff:
  "bind_exc m f = (Inr b, s') \<longleftrightarrow> (\<exists>a s. m = (Inr a, s) \<and> f a s = (Inr b, s'))"
  by (auto simp: bind_exc_def split: prod.splits sum.splits)

lemma py_lower_char_nonupper [simp]: "\<not> py_isupper c \<Longrightarrow> py_lower_char c = c"
  by (simp add: py_lower_char_def)

lemma py_lower_char_not_upper: "\<not> py_isupper (py_lower_char c)"
proof (cases "py_isupper c")
  case True
  then have "of_char c + 32 < (256 :: nat)" by (simp add: py_isupper_def)
  then have "(of_char (py_lower_char c) :: nat) = of_char c + 32"
    using True by (simp add: py_lower_char_def)
  with True show ?thesis by (simp add: py_isupper_def)
next
  case False
  then show ?thesis by simp
qed

lemma py_lower_char_idem [simp]: "py_lower_char (py_lower_char c) = py_lower_char c"
  by (simp add: py_lower_char_not_upper)

lemma py_lower_idem [simp]: "py_lower (py_lower s) = py_lower s"
  by (simp add: py_lower_def comp_def)

lemma length_py_lower [simp]: "length (py_lower s) = length s"
  by (simp add: py_lower_def)

lemma py_lower_append [simp]: "py_lower (xs @ ys) = py_lower xs @ py_lower ys"
  by (simp add: py_lower_def)

lemma py_replace_char_del_notin: "c \<notin> set (py_replace_char c [] s)"
  by (induction s) (auto simp: py_replace_char_def)

lemma py_strip_nospace: "\<forall>c \<in> set s. \<not> py_isspace c \<Longrightarrow> py_strip s = s"
proof -
  assume ns: "\<forall>c \<in> set s. \<not> py_isspace c"
  then have "dropWhile py_isspace s = s" by (simp add: dropWhile_eq_self_iff)
  moreover have "dropWhile py_isspace (rev s) = rev s"
    using ns by (cases "rev s") auto
  ultimately show ?thesis by (simp add: py_strip_def)
qed

lemma set_py_strip: "set (py_strip s) \<subseteq> set s"
proof
  fix x
  assume "x \<in> set (py_strip s)"
  then have "x \<in> set (dropWhile py_isspace (rev (dropWhile py_isspace s)))"
    by (simp add: py_strip_def)
  then have "x \<in> set (rev (dropWhile py_isspace s))" by (rule set_dropWhileD)
  then have "x \<in> set (dropWhile py_isspace s)" by simp
  then show "x \<in> set s" by (rule set_dropWhileD)
qed

lemma py_in_refl [simp]: "py_in s s"
  by (simp add: py_in_def)

lemma py_in_append: "py_in a b \<Longrightarrow> py_in a (p @ b @ q)"
  unfolding py_in_def by (metis sublist_appendI sublist_order.order.trans)

lemma py_in_trans: "py_in a b \<Longrightarrow> py_in b c \<Longrightarrow> py_in a c"
  unfolding py_in_def by (rule sublist_order.order.trans)

lemma py_in_lower: "py_in a b \<Longrightarrow> py_in (py_lower a) (py_lower b)"
  unfolding py_in_def sublist_def by (metis py_lower_append)

end
