(* ===== verification/PyFormat.thy ===== *)
theory PyFormat
  imports Prelude
begin

text \<open>
  Python's conversions between integers and decimal text, as the scripts
  use them: the \<open>%d\<close> and \<open>%0Nd\<close> conversions (\<open>str(v)\<close> of an
  integer is \<open>%d\<close>), \<open>sep.join(xs)\<close>, and, on the reading side,
  \<open>int(s)\<close> and \<open>s.split(sep)\<close> as a consumer of the printed text
  applies them. The lemmas show that the printed forms read back: an
  integer through \<open>str\<close> and \<open>int\<close>, a zero-padded field through its
  digits, and a list of cells through \<open>join\<close> and \<open>split\<close>.
\<close>

subsection \<open>Printing integers\<close>

text \<open>The \<open>%0Nd\<close> conversion: the decimal digits of the magnitude, padded
  with zeros to width \<open>N\<close> (the sign counting towards the width).\<close>

fun dec_digits :: "nat \<Rightarrow> string" where
  "dec_digits n = (if n < 10 then [char_of (48 + n)] else dec_digits (n div 10) @ [char_of (48 + n mod 10)])"

declare dec_digits.simps [simp del]

definition zero_pad :: "nat \<Rightarrow> string \<Rightarrow> string" where
  "zero_pad w s = replicate (w - length s) CHR ''0'' @ s"

definition fmt_0d :: "nat \<Rightarrow> int \<Rightarrow> string" where
  "fmt_0d w i = (if i < 0 then CHR ''-'' # zero_pad (w - 1) (dec_digits (nat (- i)))
                 else zero_pad w (dec_digits (nat i)))"

text \<open>\<open>str(v)\<close> of an \<open>int\<close>: the \<open>%d\<close> conversion, width 0.\<close>

definition py_str_int :: "int \<Rightarrow> string" where
  "py_str_int v = fmt_0d 0 v"

text \<open>\<open>sep.join(xs)\<close>.\<close>

fun py_join :: "string \<Rightarrow> string list \<Rightarrow> string" where
  "py_join sep [] = []"
| "py_join sep [x] = x"
| "py_join sep (x # xs) = x @ sep @ py_join sep xs"

subsection \<open>Reading them back\<close>

definition is_dec_digit :: "char \<Rightarrow> bool" where
  "is_dec_digit c \<longleftrightarrow> (48::nat) \<le> of_char c \<and> of_char c \<le> (57::nat)"

definition read_digits :: "string \<Rightarrow> nat" where
  "read_digits s = foldl (\<lambda>acc c. 10 * acc + (of_char c - 48)) 0 s"

text \<open>\<open>int(s)\<close> on an optionally signed run of decimal digits.\<close>

definition py_int :: "string \<Rightarrow> int option" where
  "py_int s =
     (if s \<noteq> [] \<and> hd s = CHR ''-'' then
        (if tl s \<noteq> [] \<and> list_all is_dec_digit (tl s) then Some (- int (read_digits (tl s))) else None)
      else if s \<noteq> [] \<and> list_all is_dec_digit s then Some (int (read_digits s)) else None)"

text \<open>\<open>s.split(sep)\<close> for a non-empty separator: the pieces between the
  occurrences of \<open>sep\<close>, scanned from the left.\<close>

function py_split :: "string \<Rightarrow> string \<Rightarrow> string list" where
  "py_split sep s =
     (if s = [] then [[]]
      else if sep \<noteq> [] \<and> prefix sep s then [] # py_split sep (drop (length sep) s)
      else (case py_split sep (tl s) of
              w # ws \<Rightarrow> (hd s # w) # ws
            | [] \<Rightarrow> [[hd s]]))"
  by pat_completeness auto
termination
  by (relation "measure (\<lambda>(sep, s). length s)") auto

declare py_split.simps [simp del]

subsection \<open>Facts\<close>

lemma read_digits_snoc: "read_digits (xs @ [c]) = 10 * read_digits xs + (of_char c - 48)"
  by (simp add: read_digits_def)

lemma of_char_digit: "k < 10 \<Longrightarrow> (of_char (char_of (48 + k)) :: nat) = 48 + k"
  by (simp add: of_char_of)

lemma dec_digits_props:
  "list_all is_dec_digit (dec_digits n) \<and> read_digits (dec_digits n) = n \<and> dec_digits n \<noteq> []"
proof (induction n rule: dec_digits.induct)
  case (1 n)
  show ?case
  proof (cases "n < 10")
    case True
    then show ?thesis
      by (simp add: dec_digits.simps [of n] is_dec_digit_def read_digits_def of_char_digit)
  next
    case False
    then have IH: "list_all is_dec_digit (dec_digits (n div 10)) \<and> read_digits (dec_digits (n div 10)) = n div 10"
      using "1.IH" by simp
    have "n mod 10 < 10" by simp
    then have "is_dec_digit (char_of (48 + n mod 10))"
      "(of_char (char_of (48 + n mod 10)) :: nat) = 48 + n mod 10"
      by (simp_all add: is_dec_digit_def of_char_digit)
    then show ?thesis using False IH
      by (simp add: dec_digits.simps [of n] read_digits_snoc)
  qed
qed

lemma length_dec_digits: "n < 10 ^ k \<Longrightarrow> 0 < k \<Longrightarrow> length (dec_digits n) \<le> k"
proof (induction n arbitrary: k rule: dec_digits.induct)
  case (1 n)
  show ?case
  proof (cases "n < 10")
    case True
    then show ?thesis using "1.prems" by (simp add: dec_digits.simps [of n])
  next
    case False
    obtain k' where k: "k = Suc k'" using "1.prems"(2) by (cases k) auto
    have "n div 10 < 10 ^ k'" using "1.prems"(1) k by (simp add: less_mult_imp_div_less mult.commute)
    moreover have "0 < k'" using False "1.prems"(1) k by (cases k') auto
    ultimately have "length (dec_digits (n div 10)) \<le> k'" using "1.IH" False by simp
    then show ?thesis using False k by (simp add: dec_digits.simps [of n])
  qed
qed

lemma read_digits_zeros: "read_digits (replicate k CHR ''0'' @ s) = read_digits s"
proof -
  have "foldl (\<lambda>acc c. 10 * acc + (of_char c - 48)) (0::nat) (replicate k CHR ''0'') = 0"
    by (induction k) simp_all
  then show ?thesis by (simp add: read_digits_def)
qed

lemma fmt_0d_props:
  assumes "0 \<le> i" "i < 10 ^ w" "0 < w"
  shows "length (fmt_0d w i) = w \<and> list_all is_dec_digit (fmt_0d w i) \<and> int (read_digits (fmt_0d w i)) = i"
proof -
  have "nat i < 10 ^ w" using assms(1,2) by (simp add: nat_less_iff)
  then have len: "length (dec_digits (nat i)) \<le> w" using assms(3) by (rule length_dec_digits)
  have f: "fmt_0d w i = replicate (w - length (dec_digits (nat i))) CHR ''0'' @ dec_digits (nat i)"
    using assms(1) by (simp add: fmt_0d_def zero_pad_def)
  have z: "is_dec_digit CHR ''0''" by (simp add: is_dec_digit_def)
  show ?thesis unfolding f using len z dec_digits_props [of "nat i"] assms(1)
    by (auto simp: read_digits_zeros list_all_iff)
qed

lemma py_int_py_str_int: "py_int (py_str_int v) = Some v"
proof (cases "v < 0")
  case True
  then show ?thesis using dec_digits_props [of "nat (- v)"]
    by (simp add: py_str_int_def fmt_0d_def zero_pad_def py_int_def)
next
  case False
  obtain c cs where dc: "dec_digits (nat v) = c # cs"
    using dec_digits_props [of "nat v"] by (cases "dec_digits (nat v)") auto
  then have "is_dec_digit c" using dec_digits_props [of "nat v"] by simp
  then have "c \<noteq> CHR ''-''" by (auto simp: is_dec_digit_def)
  then show ?thesis using False dc dec_digits_props [of "nat v"]
    by (simp add: py_str_int_def fmt_0d_def zero_pad_def py_int_def)
qed

lemma set_py_str_int: "set (py_str_int v) \<subseteq> insert CHR ''-'' {c. is_dec_digit c}"
  using dec_digits_props [of "nat (- v)"] dec_digits_props [of "nat v"]
  by (auto simp: py_str_int_def fmt_0d_def zero_pad_def list_all_iff)

lemma py_split_cell:
  assumes "sep \<noteq> []" "\<forall>i < length w. \<not> prefix sep (drop i w @ sep @ rest)"
  shows "py_split sep (w @ sep @ rest) = w # py_split sep rest"
  using assms(2)
proof (induction w)
  case Nil
  then show ?case using assms(1) by (subst py_split.simps) simp
next
  case (Cons c w)
  have "\<forall>i < length w. \<not> prefix sep (drop i w @ sep @ rest)"
    using Cons.prems by (metis Suc_mono drop_Suc_Cons length_Cons)
  moreover have "\<not> prefix sep (c # w @ sep @ rest)" using Cons.prems by fastforce
  ultimately show ?case using Cons.IH by (subst py_split.simps) simp
qed

lemma py_split_last:
  assumes "\<forall>i < length w. \<not> prefix sep (drop i w)"
  shows "py_split sep w = [w]"
  using assms
proof (induction w)
  case Nil
  then show ?case by (simp add: py_split.simps)
next
  case (Cons c w)
  have "\<forall>i < length w. \<not> prefix sep (drop i w)"
    using Cons.prems by (metis Suc_mono drop_Suc_Cons length_Cons)
  moreover have "\<not> prefix sep (c # w)" using Cons.prems by fastforce
  ultimately show ?case using Cons.IH by (subst py_split.simps) simp
qed

lemma bar_free_cell:
  assumes "CHR ''|'' \<notin> set w"
  shows "\<forall>i < length w. \<not> prefix '' | '' (drop i w @ '' | '' @ rest)"
proof (intro allI impI notI)
  fix i assume i: "i < length w" and "prefix '' | '' (drop i w @ '' | '' @ rest)"
  then obtain zs where e: "drop i w @ '' | '' @ rest = '' | '' @ zs" by (auto simp: prefix_def)
  have bar: "(drop i w @ '' | '' @ rest) ! 1 = CHR ''|''" unfolding e by simp
  consider "Suc i < length w" | "Suc i = length w" using i by linarith
  then show False
  proof cases
    case 1
    then have "Suc 0 < length (drop i w)" by simp
    then have "(drop i w @ '' | '' @ rest) ! 1 = w ! Suc i" using i by (simp add: nth_append)
    then show False using bar 1 assms nth_mem by metis
  next
    case 2
    then have "length (drop i w) = 1" by simp
    then have "(drop i w @ '' | '' @ rest) ! 1 = CHR '' ''" by (simp add: nth_append)
    then show False using bar by simp
  qed
qed

lemma bar_free_last:
  assumes "CHR ''|'' \<notin> set w"
  shows "\<forall>i < length w. \<not> prefix '' | '' (drop i w)"
proof (intro allI impI notI)
  fix i assume i: "i < length w" and "prefix '' | '' (drop i w)"
  then obtain zs where e: "drop i w = '' | '' @ zs" by (auto simp: prefix_def)
  have "length w - i = 3 + length zs" using arg_cong [OF e, of length] by simp
  moreover have "drop i w ! 1 = CHR ''|''" unfolding e by simp
  ultimately have "Suc i < length w" "w ! Suc i = CHR ''|''" using i by (simp_all add: nth_drop)
  then show False using assms nth_mem by metis
qed

lemma py_split_join_bar:
  "xs \<noteq> [] \<Longrightarrow> \<forall>x \<in> set xs. CHR ''|'' \<notin> set x \<Longrightarrow> py_split '' | '' (py_join '' | '' xs) = xs"
proof (induction xs)
  case Nil
  then show ?case by simp
next
  case (Cons x xs)
  show ?case
  proof (cases xs)
    case Nil
    then show ?thesis using py_split_last [OF bar_free_last] Cons.prems by simp
  next
    case (Cons y ys)
    then show ?thesis using py_split_cell [OF _ bar_free_cell] Cons.IH \<open>\<forall>x \<in> set (x # xs). _\<close> by simp
  qed
qed

end
