(* ===== verification/Dates.thy ===== *)
theory Dates
  imports PyFormat
begin

text \<open>
  The part of Python's \<open>datetime\<close> that the analytics checks use: a
  \<open>date\<close>, its proleptic Gregorian ordinal (\<open>toordinal\<close>,
  \<open>fromordinal\<close>), \<open>date - timedelta(days=k)\<close> with its
  \<open>OverflowError\<close>, and \<open>isoformat\<close>. The library is not part of the
  repository; the definitions follow the pure-Python implementation of the
  module (\<open>_ymd2ord\<close>, \<open>_ord2ymd\<close>, \<open>date.__add__\<close>,
  \<open>date.__sub__\<close>, \<open>date.isoformat\<close>), on Python's unbounded
  integers. \<open>parse_iso_date\<close> is how a receiver reads the
  \<open>YYYY-MM-DD\<close> strings the scripts send. The lemmas show that
  \<open>fromordinal\<close> produces a valid date and inverts \<open>toordinal\<close>, that
  \<open>toordinal\<close> of a valid date lies in \<open>1..MAXORDINAL\<close> and
  \<open>fromordinal\<close> maps it back, and that
  an ISO date string reads back as the date it was printed from; the month
  table of \<open>_ord2ymd\<close> is checked on all 365 days of both kinds of year.
\<close>

subsection \<open>Dates and ordinals\<close>

record date =
  year :: int
  month :: int
  day :: int

definition DAYS_IN_MONTH :: "int list" where
  "DAYS_IN_MONTH = [-1, 31, 28, 31, 30, 31, 30, 31, 31, 30, 31, 30, 31]"

definition DAYS_BEFORE_MONTH :: "int list" where
  "DAYS_BEFORE_MONTH = [-1, 0, 31, 59, 90, 120, 151, 181, 212, 243, 273, 304, 334]"

definition is_leap :: "int \<Rightarrow> bool" where
  "is_leap y \<longleftrightarrow> y mod 4 = 0 \<and> (y mod 100 \<noteq> 0 \<or> y mod 400 = 0)"

definition days_before_year :: "int \<Rightarrow> int" where
  "days_before_year y = (let y' = y - 1 in y' * 365 + y' div 4 - y' div 100 + y' div 400)"

definition days_in_month :: "int \<Rightarrow> int \<Rightarrow> int" where
  "days_in_month y m = (if m = 2 \<and> is_leap y then 29 else DAYS_IN_MONTH ! nat m)"

definition days_before_month :: "int \<Rightarrow> int \<Rightarrow> int" where
  "days_before_month y m = DAYS_BEFORE_MONTH ! nat m + of_bool (m > 2 \<and> is_leap y)"

definition ymd2ord :: "date \<Rightarrow> int" where
  "ymd2ord d = days_before_year (year d) + days_before_month (year d) (month d) + day d"

definition ord2ymd_month :: "int \<Rightarrow> bool \<Rightarrow> int \<times> int" where
  "ord2ymd_month n leapyear =
     (let mo = drop_bit 5 (n + 50);
          preceding = DAYS_BEFORE_MONTH ! nat mo + of_bool (mo > 2 \<and> leapyear)
      in if preceding > n
         then let mo' = mo - 1;
                  preceding' = preceding - (DAYS_IN_MONTH ! nat mo' + of_bool (mo' = 2 \<and> leapyear))
              in (mo', n - preceding' + 1)
         else (mo, n - preceding + 1))"

definition ord2ymd :: "int \<Rightarrow> date" where
  "ord2ymd n0 =
     (let n = n0 - 1;
          n400 = n div 146097; r400 = n mod 146097;
          n100 = r400 div 36524; r100 = r400 mod 36524;
          n4 = r100 div 1461; r4 = r100 mod 1461;
          n1 = r4 div 365; r = r4 mod 365;
          yr = n400 * 400 + 1 + n100 * 100 + n4 * 4 + n1
      in if n1 = 4 \<or> n100 = 4 then \<lparr>year = yr - 1, month = 12, day = 31\<rparr>
         else case ord2ymd_month r (n1 = 3 \<and> (n4 \<noteq> 24 \<or> n100 = 3)) of
                (mo, dd) \<Rightarrow> \<lparr>year = yr, month = mo, day = dd\<rparr>)"

definition MINYEAR :: int where "MINYEAR = 1"
definition MAXYEAR :: int where "MAXYEAR = 9999"
definition MAXORDINAL :: int where "MAXORDINAL = 3652059"

definition valid_date :: "date \<Rightarrow> bool" where
  "valid_date d \<longleftrightarrow> MINYEAR \<le> year d \<and> year d \<le> MAXYEAR \<and> 1 \<le> month d \<and> month d \<le> 12
     \<and> 1 \<le> day d \<and> day d \<le> days_in_month (year d) (month d)"

text \<open>\<open>date.__add__\<close> with a \<open>timedelta\<close> of whole days, and
  \<open>date.__sub__\<close>, which adds the negated delta.\<close>

definition date_add_days :: "date \<Rightarrow> int \<Rightarrow> exc + date" where
  "date_add_days d k =
     (let o2 = ymd2ord d + k in
      if 0 < o2 \<and> o2 \<le> MAXORDINAL then Inr (ord2ymd o2) else Inl OverflowError)"

definition date_sub_days :: "date \<Rightarrow> int \<Rightarrow> exc + date" where
  "date_sub_days d k = date_add_days d (- k)"

text \<open>\<open>date.isoformat\<close>: \<open>"%04d-%02d-%02d" % (year, month, day)\<close>.\<close>

definition isoformat :: "date \<Rightarrow> string" where
  "isoformat d = fmt_0d 4 (year d) @ ''-'' @ fmt_0d 2 (month d) @ ''-'' @ fmt_0d 2 (day d)"

text \<open>How a receiver reads a \<open>YYYY-MM-DD\<close> date (as \<open>date.fromisoformat\<close>
  does for this form): ten characters, dashes at positions 4 and 7, digits
  elsewhere, and a valid date.\<close>

definition parse_iso_date :: "string \<Rightarrow> date option" where
  "parse_iso_date s =
     (if length s = 10 \<and> s ! 4 = CHR ''-'' \<and> s ! 7 = CHR ''-''
         \<and> list_all is_dec_digit (take 4 s @ take 2 (drop 5 s) @ drop 8 s)
      then let d = \<lparr>year = int (read_digits (take 4 s)), month = int (read_digits (take 2 (drop 5 s))),
                    day = int (read_digits (drop 8 s))\<rparr>
           in if valid_date d then Some d else None
      else None)"

subsection \<open>Ordinals\<close>

lemma ord2ymd_month_table:
  "list_all (\<lambda>r. \<forall>L \<in> {True, False}. case ord2ymd_month r L of (mo, dd) \<Rightarrow>
      1 \<le> mo \<and> mo \<le> 12 \<and> 1 \<le> dd
      \<and> dd \<le> (if mo = 2 \<and> L then 29 else DAYS_IN_MONTH ! nat mo)
      \<and> DAYS_BEFORE_MONTH ! nat mo + of_bool (mo > 2 \<and> L) + dd = r + 1) [0..364]"
  by code_simp

lemma ord2ymd_month_ok:
  assumes "0 \<le> r" "r < 365" "ord2ymd_month r L = (mo, dd)"
  shows "1 \<le> mo \<and> mo \<le> 12 \<and> 1 \<le> dd \<and> dd \<le> (if mo = 2 \<and> L then 29 else DAYS_IN_MONTH ! nat mo)
      \<and> DAYS_BEFORE_MONTH ! nat mo + of_bool (mo > 2 \<and> L) + dd = r + 1"
proof -
  have "r \<in> set [0..364]" using assms(1,2) by simp
  with ord2ymd_month_table have "\<forall>L \<in> {True, False}. case ord2ymd_month r L of (mo, dd) \<Rightarrow>
      1 \<le> mo \<and> mo \<le> 12 \<and> 1 \<le> dd
      \<and> dd \<le> (if mo = 2 \<and> L then 29 else DAYS_IN_MONTH ! nat mo)
      \<and> DAYS_BEFORE_MONTH ! nat mo + of_bool (mo > 2 \<and> L) + dd = r + 1"
    by (simp add: list_all_iff)
  then show ?thesis using assms(3) by (cases L) auto
qed

lemma div_offset: "0 \<le> (r::int) \<Longrightarrow> r < k \<Longrightarrow> (r + q * k) div k = q"
  by simp

lemma mod_offset_zero: "0 < (r::int) \<Longrightarrow> r \<le> k \<Longrightarrow> (r + q * k) mod k = 0 \<longleftrightarrow> r = k"
  by (cases "r = k") simp_all

lemma days_before_year_closed:
  assumes "0 \<le> b" "b \<le> 3" "0 \<le> c" "c \<le> 24" "0 \<le> d" "d \<le> 3"
  shows "days_before_year (400 * a + 100 * b + 4 * c + d + 1) = 146097 * a + 36524 * b + 1461 * c + 365 * d"
proof -
  have 4: "(400 * a + 100 * b + 4 * c + d) div 4 = 100 * a + 25 * b + c"
    using div_offset [of d 4 "100 * a + 25 * b + c"] assms by (simp add: algebra_simps)
  have 100: "(400 * a + 100 * b + 4 * c + d) div 100 = 4 * a + b"
    using div_offset [of "4 * c + d" 100 "4 * a + b"] assms by (simp add: algebra_simps)
  have 400: "(400 * a + 100 * b + 4 * c + d) div 400 = a"
    using div_offset [of "100 * b + 4 * c + d" 400 a] assms by (simp add: algebra_simps)
  show ?thesis by (simp add: days_before_year_def 4 100 400)
qed

lemma is_leap_closed:
  assumes "0 \<le> b" "b \<le> 3" "0 \<le> c" "c \<le> 24" "0 \<le> d" "d \<le> 3"
  shows "is_leap (400 * a + 100 * b + 4 * c + d + 1) \<longleftrightarrow> d = 3 \<and> (c \<noteq> 24 \<or> b = 3)"
proof -
  have 4: "(400 * a + 100 * b + 4 * c + d + 1) mod 4 = 0 \<longleftrightarrow> d = 3"
    using mod_offset_zero [of "d + 1" 4 "100 * a + 25 * b + c"] assms by (simp add: algebra_simps)
  have 100: "(400 * a + 100 * b + 4 * c + d + 1) mod 100 = 0 \<longleftrightarrow> 4 * c + d + 1 = 100"
    using mod_offset_zero [of "4 * c + d + 1" 100 "4 * a + b"] assms by (simp add: algebra_simps)
  have 400: "(400 * a + 100 * b + 4 * c + d + 1) mod 400 = 0 \<longleftrightarrow> 100 * b + 4 * c + d + 1 = 400"
    using mod_offset_zero [of "100 * b + 4 * c + d + 1" 400 a] assms by (simp add: algebra_simps)
  show ?thesis unfolding is_leap_def 4 100 400 using assms by arith
qed

lemma divmod_parts:
  fixes m k :: int assumes "0 < k"
  shows "m = k * (m div k) + m mod k" "0 \<le> m mod k" "m mod k < k"
  using assms by simp_all

lemma ord2ymd_cases:
  assumes "1 \<le> n0"
  obtains (regular) a b c d r where
      "n0 - 1 = 146097 * a + 36524 * b + 1461 * c + 365 * d + r"
      "0 \<le> a" "0 \<le> b" "b \<le> 3" "0 \<le> c" "c \<le> 24" "0 \<le> d" "d \<le> 3" "0 \<le> r" "r < 365"
      "ord2ymd n0 = (case ord2ymd_month r (is_leap (400 * a + 100 * b + 4 * c + d + 1)) of
                       (mo, dd) \<Rightarrow> \<lparr>year = 400 * a + 100 * b + 4 * c + d + 1, month = mo, day = dd\<rparr>)"
  | (dec31) a b c where
      "n0 - 1 = 146097 * a + 36524 * b + 1461 * c + 1460"
      "0 \<le> a" "0 \<le> b" "b \<le> 3" "0 \<le> c" "c \<le> 24" "c \<noteq> 24 \<or> b = 3"
      "ord2ymd n0 = \<lparr>year = 400 * a + 100 * b + 4 * c + 3 + 1, month = 12, day = 31\<rparr>"
proof -
  define m where "m = n0 - 1"
  define a where "a = m div 146097"
  define r400 where "r400 = m mod 146097"
  define b where "b = r400 div 36524"
  define r100 where "r100 = r400 mod 36524"
  define c where "c = r100 div 1461"
  define r4 where "r4 = r100 mod 1461"
  define d where "d = r4 div 365"
  define r where "r = r4 mod 365"
  have m0: "0 \<le> m" using assms by (simp add: m_def)
  note p400 = divmod_parts [of 146097 m, folded a_def r400_def]
  note p100 = divmod_parts [of 36524 r400, folded b_def r100_def]
  note p4 = divmod_parts [of 1461 r100, folded c_def r4_def]
  note p1 = divmod_parts [of 365 r4, folded d_def r_def]
  have a0: "0 \<le> a" using m0 by (simp add: a_def)
  have b0: "0 \<le> b" "b \<le> 4" using p400 by (simp_all add: b_def zdiv_mono1 [of r400 146096 36524, simplified])
  have c0: "0 \<le> c" "c \<le> 24" using p100 by (simp_all add: c_def zdiv_mono1 [of r100 36523 1461, simplified])
  have d0: "0 \<le> d" "d \<le> 4" using p4 by (simp_all add: d_def zdiv_mono1 [of r4 1460 365, simplified])
  have def_unf: "ord2ymd n0 =
     (if d = 4 \<or> b = 4 then \<lparr>year = a * 400 + 1 + b * 100 + c * 4 + d - 1, month = 12, day = 31\<rparr>
      else case ord2ymd_month r (d = 3 \<and> (c \<noteq> 24 \<or> b = 3)) of
             (mo, dd) \<Rightarrow> \<lparr>year = a * 400 + 1 + b * 100 + c * 4 + d, month = mo, day = dd\<rparr>)"
    unfolding ord2ymd_def Let_def m_def [symmetric] a_def [symmetric] r400_def [symmetric]
      b_def [symmetric] r100_def [symmetric] c_def [symmetric] r4_def [symmetric]
      d_def [symmetric] r_def [symmetric]
    by (simp only:)
  show thesis
  proof (cases "d = 4 \<or> b = 4")
    case True
    show thesis
    proof (cases "b = 4")
      case True
      then have "r100 = 0" using p400(3) p100 by linarith
      then have "c = 0" "d = 0" by (simp_all add: c_def d_def r4_def)
      then show thesis using dec31 [of a 3 24] p400 p100 \<open>b = 4\<close> \<open>r100 = 0\<close> a0 def_unf
        by (simp add: m_def algebra_simps)
    next
      case False
      with True have "d = 4" by simp
      then have "r = 0" "c \<le> 23" using p1 p4 p100 by linarith+
      then show thesis using dec31 [of a b c] p400 p100 p4 p1 \<open>d = 4\<close> False a0 b0 c0 def_unf
        by (simp add: m_def algebra_simps)
    qed
  next
    case False
    then have "d \<le> 3" "b \<le> 3" using b0 d0 by auto
    moreover have "is_leap (400 * a + 100 * b + 4 * c + d + 1) \<longleftrightarrow> d = 3 \<and> (c \<noteq> 24 \<or> b = 3)"
      using is_leap_closed b0 c0 d0 \<open>d \<le> 3\<close> \<open>b \<le> 3\<close> by simp
    ultimately show thesis using regular [of a b c d r] p400 p100 p4 p1 a0 b0 c0 d0 def_unf False
      by (simp add: m_def algebra_simps)
  qed
qed

theorem ymd2ord_ord2ymd:
  assumes "1 \<le> n" shows "ymd2ord (ord2ymd n) = n"
proof (cases rule: ord2ymd_cases [OF assms, case_names regular dec31])
  case (regular a b c d r)
  let ?Y = "400 * a + 100 * b + 4 * c + d + 1"
  obtain mo dd where md: "ord2ymd_month r (is_leap ?Y) = (mo, dd)" by (metis prod.exhaust)
  from ord2ymd_month_ok [OF regular(9,10) md]
  have "DAYS_BEFORE_MONTH ! nat mo + of_bool (mo > 2 \<and> is_leap ?Y) + dd = r + 1" by simp
  moreover have "days_before_year ?Y = 146097 * a + 36524 * b + 1461 * c + 365 * d"
    using days_before_year_closed regular(3-8) by simp
  ultimately show ?thesis using regular(1,11) md
    by (simp add: ymd2ord_def days_before_month_def)
next
  case (dec31 a b c)
  have "is_leap (400 * a + 100 * b + 4 * c + 3 + 1)"
    using is_leap_closed [of b c 3 a] dec31(3-7) by simp
  moreover have "days_before_year (400 * a + 100 * b + 4 * c + 3 + 1) = 146097 * a + 36524 * b + 1461 * c + 1095"
    using days_before_year_closed [of b c 3 a] dec31(3-6) by simp
  ultimately show ?thesis using dec31(1,8)
    by (simp add: ymd2ord_def days_before_month_def DAYS_BEFORE_MONTH_def)
qed

theorem ord2ymd_valid:
  assumes "1 \<le> n" "n \<le> MAXORDINAL" shows "valid_date (ord2ymd n)"
proof (cases rule: ord2ymd_cases [OF assms(1), case_names regular dec31])
  case (regular a b c d r)
  let ?Y = "400 * a + 100 * b + 4 * c + d + 1"
  obtain mo dd where md: "ord2ymd_month r (is_leap ?Y) = (mo, dd)" by (metis prod.exhaust)
  have "?Y \<le> 9999"
  proof -
    have n: "146097 * a + 36524 * b + 1461 * c + 365 * d + r \<le> 3652058"
      using regular(1) assms(2) by (simp add: MAXORDINAL_def)
    show ?thesis
    proof (cases "a \<le> 23")
      case False
      then have "a = 24" using n regular(3-10) by linarith
      show ?thesis using n regular(3-10) \<open>a = 24\<close>
        by (cases "b \<le> 2"; cases "c \<le> 23"; linarith)
    qed (use regular(3-8) in linarith)
  qed
  then show ?thesis using ord2ymd_month_ok [OF regular(9,10) md] regular(2-8,11) md
    by (simp add: valid_date_def days_in_month_def MINYEAR_def MAXYEAR_def)
next
  case (dec31 a b c)
  have "400 * a + 100 * b + 4 * c + 3 + 1 \<le> 9999"
  proof -
    have n: "146097 * a + 36524 * b + 1461 * c + 1460 \<le> 3652058"
      using dec31(1) assms(2) by (simp add: MAXORDINAL_def)
    show ?thesis
    proof (cases "a \<le> 23")
      case False
      then have "a = 24" using n dec31(2-6) by linarith
      show ?thesis using n dec31(2-6) \<open>a = 24\<close> by (cases "b \<le> 2"; linarith)
    qed (use dec31(2-6) in linarith)
  qed
  then show ?thesis using dec31(2-6,8)
    by (simp add: valid_date_def days_in_month_def MINYEAR_def MAXYEAR_def DAYS_IN_MONTH_def)
qed

subsection \<open>Dates as day numbers\<close>

text \<open>The converse direction: the day number of a valid date converts back to
  that date, so \<open>ymd2ord\<close> is a bijection from valid dates onto
  \<open>1..MAXORDINAL\<close>. The year is fixed by the monotonicity of
  \<open>days_before_year\<close>, the month and day by the month tables.\<close>

lemma div_step: "0 < (k::int) \<Longrightarrow> y div k - (y - 1) div k = of_bool (y mod k = 0)"
proof -
  assume k: "0 < k"
  define q where "q = (y - 1) div k"
  define r where "r = (y - 1) mod k"
  have y: "y = (r + 1) + q * k" and r: "0 \<le> r" "r < k"
    using k by (simp_all add: q_def r_def algebra_simps)
  show ?thesis
  proof (cases "r + 1 = k")
    case True
    then have "y = 0 + (q + 1) * k" using y by (simp add: algebra_simps)
    then have "y div k = q + 1" "y mod k = 0" using k by simp_all
    then show ?thesis by (simp add: q_def)
  next
    case False
    then have "r + 1 < k" using r by simp
    then have "y div k = q" "y mod k = r + 1" using y r k by (simp_all add: div_offset)
    then show ?thesis using r by (simp add: q_def)
  qed
qed

lemma days_before_year_step:
  "days_before_year (y + 1) = days_before_year y + 365 + of_bool (is_leap y)"
proof -
  have "(100::int) dvd 400" "(4::int) dvd 100" by simp_all
  then have m: "y mod 400 = 0 \<Longrightarrow> y mod 100 = 0" "y mod 100 = 0 \<Longrightarrow> y mod 4 = 0"
    unfolding mod_eq_0_iff_dvd by (blast intro: dvd_trans)+
  have lp: "of_bool (y mod 4 = 0) - of_bool (y mod 100 = 0) + of_bool (y mod 400 = 0)
              = (of_bool (is_leap y) :: int)"
    using m by (cases "y mod 4 = 0"; cases "y mod 100 = 0"; cases "y mod 400 = 0") (simp_all add: is_leap_def)
  have e1: "days_before_year (y + 1) = y * 365 + y div 4 - y div 100 + y div 400"
    by (simp add: days_before_year_def)
  have e0: "days_before_year y = y * 365 - 365 + (y - 1) div 4 - (y - 1) div 100 + (y - 1) div 400"
    by (simp add: days_before_year_def Let_def algebra_simps)
  have "y div 4 - (y - 1) div 4 = of_bool (y mod 4 = 0)" "y div 100 - (y - 1) div 100 = of_bool (y mod 100 = 0)"
    "y div 400 - (y - 1) div 400 = of_bool (y mod 400 = 0)" by (simp_all add: div_step)
  then show ?thesis using e1 e0 lp by linarith
qed

lemma days_before_year_mono:
  assumes "y1 < y2"
  shows "days_before_year y1 + 365 + of_bool (is_leap y1) \<le> days_before_year y2"
  using assms
proof (induction y2 rule: int_gr_induct)
  case base
  show ?case by (simp add: days_before_year_step)
next
  case (step y)
  then show ?case by (simp add: days_before_year_step)
qed

lemma month_table_bounds_all:
  "\<forall>L. list_all (\<lambda>m. 1 \<le> DAYS_BEFORE_MONTH ! nat m + of_bool (m > 2 \<and> L) + 1
      \<and> DAYS_BEFORE_MONTH ! nat m + of_bool (m > 2 \<and> L) + (if m = 2 \<and> L then 29 else DAYS_IN_MONTH ! nat m)
          \<le> 365 + of_bool L
      \<and> list_all (\<lambda>m'. m < m' \<longrightarrow>
            DAYS_BEFORE_MONTH ! nat m + of_bool (m > 2 \<and> L) + (if m = 2 \<and> L then 29 else DAYS_IN_MONTH ! nat m)
              \<le> DAYS_BEFORE_MONTH ! nat m' + of_bool (m' > 2 \<and> L)) [1..12]) [1..12]"
  by code_simp

lemmas month_table_bounds = month_table_bounds_all [rule_format]

lemma month_bounds:
  assumes "1 \<le> m" "m \<le> 12"
  shows "days_before_month y m + days_in_month y m \<le> 365 + of_bool (is_leap y)"
    and "m < m' \<Longrightarrow> m' \<le> 12 \<Longrightarrow> days_before_month y m + days_in_month y m \<le> days_before_month y m'"
proof -
  have "m \<in> set [1..12]" using assms by simp
  then show "days_before_month y m + days_in_month y m \<le> 365 + of_bool (is_leap y)"
    using month_table_bounds [of "is_leap y"]
    by (auto simp: list_all_iff days_before_month_def days_in_month_def)
next
  assume "m < m'" "m' \<le> 12"
  then have "m \<in> set [1..12]" "m' \<in> set [1..12]" using assms by simp_all
  then show "days_before_month y m + days_in_month y m \<le> days_before_month y m'"
    using month_table_bounds [of "is_leap y"] \<open>m < m'\<close>
    by (auto simp: list_all_iff days_before_month_def days_in_month_def)
qed

lemma valid_ord_in_year:
  assumes "valid_date d"
  shows "days_before_year (year d) < ymd2ord d"
    and "ymd2ord d \<le> days_before_year (year d) + 365 + of_bool (is_leap (year d))"
proof -
  have m: "1 \<le> month d" "month d \<le> 12" and dd: "1 \<le> day d" "day d \<le> days_in_month (year d) (month d)"
    using assms by (simp_all add: valid_date_def)
  have "0 \<le> days_before_month (year d) (month d)"
  proof -
    have "month d \<in> set [1..12]" using m by simp
    then show ?thesis
      using month_table_bounds [of "is_leap (year d)"]
      by (auto simp: list_all_iff days_before_month_def)
  qed
  then show "days_before_year (year d) < ymd2ord d" using dd by (simp add: ymd2ord_def)
  show "ymd2ord d \<le> days_before_year (year d) + 365 + of_bool (is_leap (year d))"
    using month_bounds(1) [OF m, of "year d"] dd by (simp add: ymd2ord_def)
qed

lemma ymd2ord_inj:
  assumes "valid_date d1" "valid_date d2" "ymd2ord d1 = ymd2ord d2"
  shows "d1 = d2"
proof -
  have y: "year d1 = year d2"
  proof (rule ccontr)
    assume "year d1 \<noteq> year d2"
    then consider "year d1 < year d2" | "year d2 < year d1" by linarith
    then show False
    proof cases
      case 1
      from days_before_year_mono [OF 1] valid_ord_in_year [OF assms(1)] valid_ord_in_year [OF assms(2)]
      show False using assms(3) by linarith
    next
      case 2
      from days_before_year_mono [OF 2] valid_ord_in_year [OF assms(1)] valid_ord_in_year [OF assms(2)]
      show False using assms(3) by linarith
    qed
  qed
  have v1: "1 \<le> month d1" "month d1 \<le> 12" "1 \<le> day d1" "day d1 \<le> days_in_month (year d1) (month d1)"
    and v2: "1 \<le> month d2" "month d2 \<le> 12" "1 \<le> day d2" "day d2 \<le> days_in_month (year d2) (month d2)"
    using assms(1,2) by (simp_all add: valid_date_def)
  have o: "days_before_month (year d1) (month d1) + day d1 = days_before_month (year d1) (month d2) + day d2"
    using assms(3) y by (simp add: ymd2ord_def)
  have m: "month d1 = month d2"
  proof (rule ccontr)
    assume "month d1 \<noteq> month d2"
    then consider "month d1 < month d2" | "month d2 < month d1" by linarith
    then show False
    proof cases
      case 1
      show False using month_bounds(2) [OF v1(1,2) 1 v2(2), of "year d1"] o v1 v2 y by linarith
    next
      case 2
      have "day d2 \<le> days_in_month (year d1) (month d2)" using v2(4) y by simp
      then show False using month_bounds(2) [OF v2(1,2) 2 v1(2), of "year d1"] o v1 by linarith
    qed
  qed
  then have "day d1 = day d2" using o by simp
  then show ?thesis using y m by simp
qed

lemma valid_ord_range:
  assumes "valid_date d"
  shows "1 \<le> ymd2ord d" and "ymd2ord d \<le> MAXORDINAL"
proof -
  have y: "1 \<le> year d" "year d \<le> 9999" using assms by (simp_all add: valid_date_def MINYEAR_def MAXYEAR_def)
  have "0 \<le> days_before_year (year d)"
  proof (cases "year d = 1")
    case False
    then have "1 < year d" using y by simp
    have "days_before_year 1 = 0" by (simp add: days_before_year_def)
    with days_before_year_mono [OF \<open>1 < year d\<close>] show ?thesis by (cases "is_leap 1") simp_all
  qed (simp add: days_before_year_def)
  then show "1 \<le> ymd2ord d" using valid_ord_in_year(1) [OF assms] by linarith
  have "year d < 10000" using y by simp
  from days_before_year_mono [OF this] valid_ord_in_year(2) [OF assms]
  show "ymd2ord d \<le> MAXORDINAL" by (simp add: days_before_year_def MAXORDINAL_def)
qed

theorem ord2ymd_ymd2ord:
  assumes "valid_date d" shows "ord2ymd (ymd2ord d) = d"
  using ymd2ord_inj [OF ord2ymd_valid [OF valid_ord_range [OF assms]] assms]
        ymd2ord_ord2ymd [OF valid_ord_range(1) [OF assms]] by simp

subsection \<open>The ISO format\<close>

lemma parse_iso_date_split:
  assumes "length y = 4" "length m = 2" "length d = 2" "list_all is_dec_digit (y @ m @ d)"
  shows "parse_iso_date (y @ CHR ''-'' # m @ CHR ''-'' # d) =
    (let dt = \<lparr>year = int (read_digits y), month = int (read_digits m), day = int (read_digits d)\<rparr>
     in if valid_date dt then Some dt else None)"
proof -
  let ?s = "y @ CHR ''-'' # m @ CHR ''-'' # d"
  have "length ?s = 10" "?s ! 4 = CHR ''-''" "?s ! 7 = CHR ''-''" "take 4 ?s = y"
    "take 2 (drop 5 ?s) = m" "drop 8 ?s = d"
    using assms(1-3) by (simp_all add: nth_append)
  then show ?thesis using assms(4) unfolding parse_iso_date_def by presburger
qed

lemma days_in_month_le: "1 \<le> m \<Longrightarrow> m \<le> 12 \<Longrightarrow> days_in_month y m \<le> 31"
proof -
  assume "1 \<le> m" "m \<le> 12"
  then have "nat m < length DAYS_IN_MONTH" by (simp add: DAYS_IN_MONTH_def)
  then have "DAYS_IN_MONTH ! nat m \<in> set DAYS_IN_MONTH" by (rule nth_mem)
  moreover have "\<forall>x \<in> set DAYS_IN_MONTH. x \<le> 31" by (simp add: DAYS_IN_MONTH_def)
  ultimately have "DAYS_IN_MONTH ! nat m \<le> 31" by blast
  then show ?thesis by (simp add: days_in_month_def)
qed

theorem isoformat_roundtrip:
  assumes "valid_date d"
  shows "parse_iso_date (isoformat d) = Some d"
proof -
  have b: "0 \<le> year d" "year d < 10 ^ 4" "0 \<le> month d" "month d < 10 ^ 2" "0 \<le> day d" "day d < 10 ^ 2"
    using assms days_in_month_le [of "month d" "year d"] by (auto simp: valid_date_def MINYEAR_def MAXYEAR_def)
  note y = fmt_0d_props [OF b(1,2)] and m = fmt_0d_props [OF b(3,4)] and dd = fmt_0d_props [OF b(5,6)]
  have iso: "isoformat d = fmt_0d 4 (year d) @ CHR ''-'' # fmt_0d 2 (month d) @ CHR ''-'' # fmt_0d 2 (day d)"
    by (simp add: isoformat_def)
  have eta: "\<lparr>year = year d, month = month d, day = day d\<rparr> = d" by simp
  have r: "int (read_digits (fmt_0d 4 (year d))) = year d" "int (read_digits (fmt_0d 2 (month d))) = month d"
    "int (read_digits (fmt_0d 2 (day d))) = day d" using y m dd by simp_all
  have dg: "list_all is_dec_digit (fmt_0d 4 (year d) @ fmt_0d 2 (month d) @ fmt_0d 2 (day d))"
    using y m dd by simp
  show ?thesis unfolding iso
    by (subst parse_iso_date_split) (use y m dd assms in \<open>simp_all add: r eta Let_def\<close>)
qed

subsection \<open>Date arithmetic\<close>

theorem date_sub_days_ord:
  assumes "1 \<le> e" "e \<le> MAXORDINAL"
  shows "date_sub_days (ord2ymd e) k =
           (if 0 < e - k \<and> e - k \<le> MAXORDINAL then Inr (ord2ymd (e - k)) else Inl OverflowError)"
  using assms by (simp add: date_sub_days_def date_add_days_def ymd2ord_ord2ymd Let_def)

subsection \<open>Day numbers as ISO dates\<close>

theorem fromordinal_iso:
  assumes "1 \<le> n" "n \<le> MAXORDINAL"
  shows "valid_date (ord2ymd n) \<and> ymd2ord (ord2ymd n) = n
       \<and> parse_iso_date (isoformat (ord2ymd n)) = Some (ord2ymd n)"
  using ord2ymd_valid [OF assms] ymd2ord_ord2ymd [OF assms(1)] isoformat_roundtrip [OF ord2ymd_valid [OF assms]]
  by simp

subsection \<open>Witnesses\<close>

theorem fromordinal_iso_witness:
  "isoformat (ord2ymd 730179) = ''2000-02-29''
   \<and> parse_iso_date ''2000-02-29'' = Some (ord2ymd 730179) \<and> ymd2ord (ord2ymd 730179) = 730179"
proof -
  have "ord2ymd 730179 = \<lparr>year = 2000, month = 2, day = 29\<rparr>"
    by (simp add: ord2ymd_def ord2ymd_month_def Let_def DAYS_BEFORE_MONTH_def DAYS_IN_MONTH_def)
  moreover have "isoformat \<lparr>year = 2000, month = 2, day = 29\<rparr> = ''2000-02-29''"
    by code_simp
  ultimately show ?thesis using fromordinal_iso [of 730179] by (simp add: MAXORDINAL_def)
qed

theorem date_sub_days_ord_witness:
  "date_sub_days (ord2ymd 739000) 7 = Inr (ord2ymd 738993) \<and> date_sub_days (ord2ymd 3) 7 = Inl OverflowError"
  using date_sub_days_ord [of 739000 7] date_sub_days_ord [of 3 7] by (simp add: MAXORDINAL_def)

end
