(* ===== verification/YouTubeApi.thy ===== *)
theory YouTubeApi
  imports Dates
begin

text \<open>
  The boundary to the external services that \<open>src/test_api.py\<close> calls
  through \<open>googleapiclient\<close>: the requests it builds (with the literal
  parameters of the source), the parts of the responses it reads, and the
  services themselves as a record of functions from request to response or
  exception. A probe run threads a \<open>probe_state\<close>: the requests issued, in
  order, and the diagnostics printed. Each \<open>call_*\<close> is one
  \<open>.execute()\<close>: it logs its request and returns the service's answer.
\<close>

text \<open>A channel resource as the code reads it: \<open>item["id"]\<close>,
  \<open>snippet.title\<close>, \<open>snippet.customUrl\<close>, and the
  \<open>statistics\<close> part, \<open>None\<close> when the key is absent, else its
  counters (\<open>subscriberCount\<close>, \<open>viewCount\<close>, \<open>videoCount\<close>; the
  API sends them as strings and leaves out a hidden subscriber count).\<close>

record channel_item =
  ch_id :: string
  ch_title :: "string option"
  ch_custom_url :: "string option"
  ch_statistics :: "(string \<times> string) list option"

abbreviation ch_has_statistics :: "channel_item \<Rightarrow> bool" where
  "ch_has_statistics it \<equiv> ch_statistics it \<noteq> None"

datatype chan_filter = ById string | Mine | ForUsername string

record channels_req =
  cr_part :: string
  cr_filter :: chan_filter

record search_req =
  sr_part :: string
  sr_q :: "string option"
  sr_channel_id :: "string option"
  sr_type :: string
  sr_max_results :: nat
  sr_order :: "string option"

text \<open>An Analytics query, with its start and end dates as \<open>date\<close> values.\<close>

record report_query =
  q_ids :: string
  q_start :: date
  q_end :: date
  q_metrics :: string
  q_dimensions :: "string option"
  q_sort :: "string option"

text \<open>A report as the JSON the Analytics service answers: each entry of
  \<open>columnHeaders\<close> by its \<open>name\<close> key (\<open>None\<close> when the key is absent),
  and the rows, whose cells are JSON values: the \<open>day\<close> dimension a string,
  the metrics numbers.\<close>

datatype cell = NUMBER int | STRING string

record report =
  column_headers :: "string option list"
  report_rows :: "cell list list"

datatype request = Search search_req | Channels channels_req | Reports report_query

text \<open>The services, and \<open>datetime.utcnow().date()\<close>.\<close>

record api =
  search_list :: "search_req \<Rightarrow> exc + string list"
  channels_list :: "channels_req \<Rightarrow> exc + channel_item list"
  reports_query :: "report_query \<Rightarrow> exc + report"
  today :: date

text \<open>What the probe prints: the diagnostics of spec section 7 (the
  classification of a failed call, and the soft warnings), the lines that
  carry data (the daily table, the aggregate figures, the channel to query),
  and the final summary. Fixed banners and step titles are left out.\<close>

datatype diag =
    Forbidden               \<comment> \<open>HTTP 403: permission or quota\<close>
  | Unauthorized            \<comment> \<open>HTTP 401\<close>
  | HttpFailure nat         \<comment> \<open>any other HTTP status\<close>
  | Unclassified            \<comment> \<open>any other exception\<close>
  | ResolveFailed           \<comment> \<open>exception while resolving the handle\<close>
  | NoChannel               \<comment> \<open>a channel lookup returned no items\<close>
  | NoRows                  \<comment> \<open>the daily report returned no rows\<close>
  | RowsFound nat           \<comment> \<open>the number of daily rows\<close>
  | Columns string          \<comment> \<open>the column names, joined\<close>
  | RowLine string          \<comment> \<open>one printed row\<close>
  | MoreRows nat            \<comment> \<open>the number of rows not printed\<close>
  | OverallViews int        \<comment> \<open>total views of the window\<close>
  | WatchMinutes int        \<comment> \<open>watch time, in minutes\<close>
  | NewSubscribers "string option" \<comment> \<open>subscribers gained as printed, \<open>N/A\<close> as \<open>None\<close>\<close>
  | ChannelToQuery string   \<comment> \<open>the channel id handed to the analytics check\<close>
  | Summary bool bool       \<comment> \<open>the final verdicts for the two APIs\<close>
  | AllOk                   \<comment> \<open>the closing line of a passing run\<close>
  | SomeFailed              \<comment> \<open>the closing line of a failing run\<close>
  | ChannelIdFound string   \<comment> \<open>the id resolved from the handle\<close>
  | ChannelTitle string     \<comment> \<open>a looked-up channel's title\<close>
  | SubscriberCount string  \<comment> \<open>its counters, \<open>N/A\<close> when hidden\<close>
  | ViewCount string
  | VideoTotal string
  | VideosFound nat         \<comment> \<open>the number of recent videos listed\<close>

record probe_state =
  issued :: "request list"
  diags :: "diag list"

text \<open>The keyword arguments of \<open>reports().query(...)\<close>: the dates go out as
  \<open>isoformat()\<close> strings, dimensions and sort only when given.\<close>

definition report_params :: "report_query \<Rightarrow> (string \<times> string) list" where
  "report_params q =
     [(''ids'', q_ids q), (''startDate'', isoformat (q_start q)), (''endDate'', isoformat (q_end q)),
      (''metrics'', q_metrics q)]
     @ (case q_dimensions q of None \<Rightarrow> [] | Some d \<Rightarrow> [(''dimensions'', d)])
     @ (case q_sort q of None \<Rightarrow> [] | Some srt \<Rightarrow> [(''sort'', srt)])"

definition add_diag :: "diag \<Rightarrow> probe_state \<Rightarrow> probe_state" where
  "add_diag n s = s\<lparr>diags := diags s @ [n]\<rparr>"

definition add_diags :: "diag list \<Rightarrow> probe_state \<Rightarrow> probe_state" where
  "add_diags ns s = s\<lparr>diags := diags s @ ns\<rparr>"

text \<open>An item both scripts print without raising: \<open>item["snippet"]["title"]\<close>
  and \<open>item["statistics"]\<close> exist.\<close>

definition item_ok :: "channel_item \<Rightarrow> bool" where
  "item_ok it \<longleftrightarrow> ch_title it \<noteq> None \<and> ch_has_statistics it"

text \<open>\<open>[h["name"] for h in response.get("columnHeaders", [])]\<close>: a
  header without a name raises \<open>KeyError\<close>.\<close>

definition header_names :: "string option list \<Rightarrow> exc + string list" where
  "header_names hs = (if None \<in> set hs then Inl KeyError else Inr (map the hs))"

text \<open>\<open>str(v)\<close> of a cell: a string prints as itself.\<close>

fun py_str_cell :: "cell \<Rightarrow> string" where
  "py_str_cell (NUMBER v) = py_str_int v"
| "py_str_cell (STRING t) = t"

text \<open>A report row as both scripts print it, \<open>" | ".join(str(v) for v in row)\<close>.\<close>

definition row_line :: "cell list \<Rightarrow> string" where
  "row_line row = py_join '' | '' (map py_str_cell row)"

definition call_search :: "api \<Rightarrow> search_req \<Rightarrow> 'a probe_state_scheme \<Rightarrow> (exc + string list) \<times> 'a probe_state_scheme" where
  "call_search A rq s = (search_list A rq, s\<lparr>issued := issued s @ [Search rq]\<rparr>)"

definition call_channels ::
  "api \<Rightarrow> channels_req \<Rightarrow> 'a probe_state_scheme \<Rightarrow> (exc + channel_item list) \<times> 'a probe_state_scheme" where
  "call_channels A rq s = (channels_list A rq, s\<lparr>issued := issued s @ [Channels rq]\<rparr>)"

definition call_reports ::
  "api \<Rightarrow> report_query \<Rightarrow> 'a probe_state_scheme \<Rightarrow> (exc + report) \<times> 'a probe_state_scheme" where
  "call_reports A rq s = (reports_query A rq, s\<lparr>issued := issued s @ [Reports rq]\<rparr>)"

text \<open>The \<open>except HttpError\<close> / \<open>except Exception\<close> pair of the probe:
  403 and 401 are told apart, other statuses and other exceptions are not.\<close>

definition classify :: "exc \<Rightarrow> diag" where
  "classify e =
     (case e of
        HttpError st \<Rightarrow> if st = 403 then Forbidden else if st = 401 then Unauthorized
                        else HttpFailure st
      | _ \<Rightarrow> Unclassified)"

subsection \<open>Fixtures\<close>

text \<open>A channel resource with a given id and custom URL, and a service that
  answers a channel search with \<open>results\<close>, a lookup by id with
  \<open>lookup\<close>, \<open>mine=True\<close> with one channel, \<open>forUsername\<close> with
  nothing, a video search with two videos and every report with \<open>rep\<close>.\<close>

definition demo_item :: "string \<Rightarrow> string \<Rightarrow> channel_item" where
  "demo_item cid url = \<lparr>ch_id = cid, ch_title = Some ''Some channel'',
     ch_custom_url = Some url,
     ch_statistics = Some [(''subscriberCount'', ''1200''), (''viewCount'', ''34000''), (''videoCount'', ''56'')]\<rparr>"

definition demo_api ::
  "string list \<Rightarrow> (string \<Rightarrow> channel_item list) \<Rightarrow> (exc + report) \<Rightarrow> api" where
  "demo_api results lookup rep =
     \<lparr>search_list = (\<lambda>rq. if sr_type rq = ''channel'' then Inr results else Inr [''v1'', ''v2'']),
      channels_list = (\<lambda>rq. case cr_filter rq of
          ById c \<Rightarrow> Inr (lookup c)
        | Mine \<Rightarrow> Inr [demo_item ''UCmine'' ''@me'']
        | ForUsername _ \<Rightarrow> Inr []),
      reports_query = (\<lambda>_. rep),
      today = \<lparr>year = 2024, month = 4, day = 24\<rparr>\<rparr>"

subsection \<open>Facts\<close>

lemma issued_add_diag [simp]: "issued (add_diag d s) = issued s"
  by (simp add: add_diag_def)

lemma diags_add_diag [simp]: "diags (add_diag d s) = diags s @ [d]"
  by (simp add: add_diag_def)

lemma add_diags_simps [simp]:
  "issued (add_diags ds s) = issued s" "diags (add_diags ds s) = diags s @ ds"
  "add_diags [] s = s" "add_diags ds (add_diags es s) = add_diags (es @ ds) s"
  by (simp_all add: add_diags_def)

lemma header_names_Inr: "header_names hs = Inr ns \<longleftrightarrow> None \<notin> set hs \<and> ns = map the hs"
  by (auto simp: header_names_def)

lemma header_names_Inl: "header_names hs = Inl e \<longleftrightarrow> None \<in> set hs \<and> e = KeyError"
  by (auto simp: header_names_def)

lemmas api_calls = call_search_def call_channels_def call_reports_def

end
