(* ===== verification/ChannelResolve.thy ===== *)
theory ChannelResolve
  imports YouTubeApi
begin

text \<open>
  \<open>get_channel_id_from_handle\<close> of \<open>src/test_api.py\<close>: clean the handle,
  search channels for \<open>@handle\<close>, look each result up by id and take the
  first whose custom URL or title contains the handle (case-insensitively);
  failing that, the first search result if its lookup returns an item;
  failing that, the legacy \<open>forUsername\<close> lookup. Any exception in the
  body is caught and yields \<open>None\<close>.
\<close>

text \<open>\<open>handle.replace("@", "").strip()\<close>\<close>

definition handle_clean :: "string \<Rightarrow> string" where
  "handle_clean h = py_strip (py_replace_char CHR ''@'' [] h)"

definition channel_search_req :: "string \<Rightarrow> search_req" where
  "channel_search_req hc = \<lparr>sr_part = ''snippet'', sr_q = Some (''@'' @ hc),
     sr_channel_id = None, sr_type = ''channel'', sr_max_results = 10, sr_order = None\<rparr>"

definition by_id_req :: "string \<Rightarrow> channels_req" where
  "by_id_req cid = \<lparr>cr_part = ''snippet'', cr_filter = ById cid\<rparr>"

definition username_req :: "string \<Rightarrow> channels_req" where
  "username_req hc = \<lparr>cr_part = ''id,snippet'', cr_filter = ForUsername hc\<rparr>"

text \<open>Lines 53--64: \<open>snippet.get("customUrl", "")\<close> non-empty and containing
  the cleaned handle, or \<open>snippet.get("title", "")\<close> containing it, both
  compared in lower case.\<close>

definition handle_matches :: "string \<Rightarrow> channel_item \<Rightarrow> bool" where
  "handle_matches hc it \<longleftrightarrow>
     (let custom_url = (case ch_custom_url it of None \<Rightarrow> [] | Some u \<Rightarrow> u);
          title = (case ch_title it of None \<Rightarrow> [] | Some t \<Rightarrow> t)
      in (py_truthy custom_url \<and> py_in (py_lower hc) (py_lower custom_url))
         \<or> py_in (py_lower hc) (py_lower title))"

text \<open>Lines 43--64: the loop over the search results, one lookup by id each;
  \<open>Inr None\<close> when it runs out without a match.\<close>

fun match_loop ::
  "api \<Rightarrow> string \<Rightarrow> string list \<Rightarrow> probe_state \<Rightarrow> (exc + string option) \<times> probe_state" where
  "match_loop A hc [] s = (Inr None, s)"
| "match_loop A hc (cid # rest) s =
     bind_exc (call_channels A (by_id_req cid) s)
       (\<lambda>items s1. case items of
           [] \<Rightarrow> match_loop A hc rest s1
         | it # _ \<Rightarrow> if handle_matches hc it then (Inr (Some cid), s1)
                    else match_loop A hc rest s1)"

text \<open>Lines 66--76: the first search result, if its lookup returns an item.\<close>

definition first_result_fallback ::
  "api \<Rightarrow> string list \<Rightarrow> probe_state \<Rightarrow> (exc + string option) \<times> probe_state" where
  "first_result_fallback A items s =
     (case items of
        [] \<Rightarrow> (Inr None, s)
      | cid # _ \<Rightarrow>
          bind_exc (call_channels A (by_id_req cid) s)
            (\<lambda>info s1. if info \<noteq> [] then (Inr (Some cid), s1) else (Inr None, s1)))"

text \<open>Lines 79--87: \<open>channels().list(part="id,snippet", forUsername=...)\<close>.\<close>

definition for_username_lookup ::
  "api \<Rightarrow> string \<Rightarrow> probe_state \<Rightarrow> (exc + string option) \<times> probe_state" where
  "for_username_lookup A hc s =
     bind_exc (call_channels A (username_req hc) s)
       (\<lambda>items s1. case items of [] \<Rightarrow> (Inr None, s1) | it # _ \<Rightarrow> (Inr (Some (ch_id it)), s1))"

text \<open>The body of the \<open>try\<close> block, lines 31--87.\<close>

definition resolve_body ::
  "api \<Rightarrow> string \<Rightarrow> probe_state \<Rightarrow> (exc + string option) \<times> probe_state" where
  "resolve_body A hc s =
     bind_exc (call_search A (channel_search_req hc) s)
       (\<lambda>items s1.
          if items \<noteq> [] then
            bind_exc (match_loop A hc items s1)
              (\<lambda>found s2. case found of
                  Some cid \<Rightarrow> (Inr (Some cid), s2)
                | None \<Rightarrow>
                    bind_exc (first_result_fallback A items s2)
                      (\<lambda>first s3. case first of
                          Some cid \<Rightarrow> (Inr (Some cid), s3)
                        | None \<Rightarrow> for_username_lookup A hc s3))
          else for_username_lookup A hc s1)"

text \<open>Lines 88--90: an exception is printed and turned into \<open>None\<close>.\<close>

definition get_channel_id_from_handle ::
  "api \<Rightarrow> string \<Rightarrow> probe_state \<Rightarrow> string option \<times> probe_state" where
  "get_channel_id_from_handle A handle s =
     (case resolve_body A (handle_clean handle) s of
        (Inl e, s') \<Rightarrow> (None, add_diag ResolveFailed s')
      | (Inr co, s') \<Rightarrow> (co, s'))"

subsection \<open>Specification of the result\<close>

text \<open>The most requests one resolution issues after its search: one lookup
  per search result, the repeated lookup of the first result, and the
  \<open>forUsername\<close> lookup. A resolved id is sound when it is one of the
  search results or the id of the \<open>forUsername\<close> answer.\<close>

definition resolve_bound :: "api \<Rightarrow> string \<Rightarrow> nat" where
  "resolve_bound A hc =
     (case search_list A (channel_search_req hc) of Inl _ \<Rightarrow> 0 | Inr items \<Rightarrow> length items + 2)"

definition resolve_sound :: "api \<Rightarrow> string \<Rightarrow> string \<Rightarrow> bool" where
  "resolve_sound A hc cid \<longleftrightarrow>
     (\<exists>items. search_list A (channel_search_req hc) = Inr items \<and> cid \<in> set items)
     \<or> (\<exists>it its. channels_list A (username_req hc) = Inr (it # its) \<and> cid = ch_id it)"

text \<open>The pure view of the loop: a result matches when its lookup answers
  with a first item that matches the handle.\<close>

definition lookup_matches :: "api \<Rightarrow> string \<Rightarrow> string \<Rightarrow> bool" where
  "lookup_matches A hc cid =
     (case channels_list A (by_id_req cid) of Inr (it # _) \<Rightarrow> handle_matches hc it | _ \<Rightarrow> False)"

subsection \<open>Stages\<close>

lemma match_loop_found:
  assumes "match_loop A hc items s = (Inr (Some cid), s')"
  shows "\<exists>pre post it its. items = pre @ cid # post
           \<and> channels_list A (by_id_req cid) = Inr (it # its) \<and> handle_matches hc it
           \<and> (\<forall>c \<in> set pre. \<exists>r. channels_list A (by_id_req c) = Inr r
                                 \<and> (r = [] \<or> \<not> handle_matches hc (hd r)))"
  using assms
proof (induction items arbitrary: s)
  case Nil
  then show ?case by simp
next
  case (Cons c rest)
  show ?case
  proof (cases "channels_list A (by_id_req c)")
    case (Inl e)
    with Cons.prems show ?thesis by (simp add: call_channels_def)
  next
    case (Inr r)
    show ?thesis
    proof (cases "r \<noteq> [] \<and> handle_matches hc (hd r)")
      case True
      with Inr Cons.prems have "cid = c"
        by (auto simp: call_channels_def neq_Nil_conv)
      with True Inr show ?thesis
        by (intro exI [of _ "[]"] exI [of _ rest] exI [of _ "hd r"] exI [of _ "tl r"]) simp
    next
      case False
      with Inr Cons.prems have "match_loop A hc rest
          (s\<lparr>issued := issued s @ [Channels (by_id_req c)]\<rparr>) = (Inr (Some cid), s')"
        by (auto simp: call_channels_def neq_Nil_conv split: list.splits if_splits)
      from Cons.IH [OF this] obtain pre post it its where
        "rest = pre @ cid # post" "channels_list A (by_id_req cid) = Inr (it # its)"
        "handle_matches hc it"
        "\<forall>c \<in> set pre. \<exists>r. channels_list A (by_id_req c) = Inr r \<and> (r = [] \<or> \<not> handle_matches hc (hd r))"
        by blast
      with False Inr show ?thesis
        by (intro exI [of _ "c # pre"] exI [of _ post] exI [of _ it] exI [of _ its]) auto
    qed
  qed
qed

lemma match_loop_issued:
  assumes "match_loop A hc items s = (r, s')"
  shows "\<exists>k \<le> length items. s' = s\<lparr>issued := issued s @ map (\<lambda>c. Channels (by_id_req c)) (take k items)\<rparr>"
  using assms
proof (induction items arbitrary: s)
  case Nil
  then show ?case by simp
next
  case (Cons c rest)
  let ?s1 = "s\<lparr>issued := issued s @ [Channels (by_id_req c)]\<rparr>"
  consider "s' = ?s1" | "match_loop A hc rest ?s1 = (r, s')"
    using Cons.prems
    by (auto simp: call_channels_def bind_exc_def split: sum.splits list.splits if_splits)
  then show ?case
  proof cases
    case 1
    then show ?thesis by (intro exI [of _ 1]) simp
  next
    case 2
    from Cons.IH [OF 2] obtain k where "k \<le> length rest"
      "s' = ?s1\<lparr>issued := issued ?s1 @ map (\<lambda>c. Channels (by_id_req c)) (take k rest)\<rparr>"
      by blast
    then show ?thesis by (intro exI [of _ "Suc k"]) simp
  qed
qed

lemma first_result_fallback_stage:
  assumes "first_result_fallback A items s = (r, s')"
  shows "\<exists>rqs. s' = s\<lparr>issued := issued s @ rqs\<rparr> \<and> length rqs \<le> 1
           \<and> (\<forall>cid. r = Inr (Some cid) \<longrightarrow> items \<noteq> [] \<and> cid = hd items)"
  using assms
  by (auto simp: first_result_fallback_def call_channels_def bind_exc_def
      split: list.splits sum.splits if_splits intro: exI [of _ "[]"])

lemma for_username_lookup_stage:
  assumes "for_username_lookup A hc s = (r, s')"
  shows "s' = s\<lparr>issued := issued s @ [Channels (username_req hc)]\<rparr>
       \<and> (\<forall>cid. r = Inr (Some cid) \<longrightarrow>
             (\<exists>it its. channels_list A (username_req hc) = Inr (it # its) \<and> cid = ch_id it))"
  using assms
  by (auto simp: for_username_lookup_def call_channels_def bind_exc_def
      split: list.splits sum.splits)

lemma resolve_body_stage:
  assumes "resolve_body A hc s = (r, s')"
  shows "\<exists>rqs. s' = s\<lparr>issued := issued s @ Search (channel_search_req hc) # rqs\<rparr>
           \<and> length rqs \<le> resolve_bound A hc
           \<and> (\<forall>cid. r = Inr (Some cid) \<longrightarrow> resolve_sound A hc cid)"
proof -
  let ?s1 = "s\<lparr>issued := issued s @ [Search (channel_search_req hc)]\<rparr>"
  show ?thesis
  proof (cases "search_list A (channel_search_req hc)")
    case (Inl e)
    with assms show ?thesis
      by (auto simp: resolve_body_def call_search_def resolve_bound_def)
  next
    case srch: (Inr items)
    show ?thesis
    proof (cases "items = []")
      case True
      with srch assms have "for_username_lookup A hc ?s1 = (r, s')"
        by (simp add: resolve_body_def call_search_def)
      from for_username_lookup_stage [OF this] True srch show ?thesis
        by (auto simp: resolve_bound_def resolve_sound_def)
    next
      case False
      obtain r1 s2 where loop: "match_loop A hc items ?s1 = (r1, s2)" by fastforce
      from match_loop_issued [OF loop] obtain k where k: "k \<le> length items"
        and s2: "s2 = ?s1\<lparr>issued := issued ?s1 @ map (\<lambda>c. Channels (by_id_req c)) (take k items)\<rparr>"
        by blast
      have rest: "bind_exc (r1, s2) (\<lambda>found s2. case found of
                    Some cid \<Rightarrow> (Inr (Some cid), s2)
                  | None \<Rightarrow> bind_exc (first_result_fallback A items s2)
                      (\<lambda>first s3. case first of Some cid \<Rightarrow> (Inr (Some cid), s3)
                                 | None \<Rightarrow> for_username_lookup A hc s3)) = (r, s')"
        using assms srch False loop by (simp add: resolve_body_def call_search_def)
      show ?thesis
      proof (cases r1)
        case (Inl e)
        with rest s2 k srch show ?thesis
          by (auto simp: resolve_bound_def)
      next
        case found: (Inr found)
        show ?thesis
        proof (cases found)
          case (Some cid)
          with found rest loop match_loop_found [of A hc items ?s1 cid s2] s2 k srch
          show ?thesis
            by (auto simp: resolve_bound_def resolve_sound_def)
        next
          case None
          obtain r2 s3 where fb: "first_result_fallback A items s2 = (r2, s3)" by fastforce
          from first_result_fallback_stage [OF fb] obtain rqs where
            s3: "s3 = s2\<lparr>issued := issued s2 @ rqs\<rparr>" "length rqs \<le> 1"
            and fb_sound: "\<forall>cid. r2 = Inr (Some cid) \<longrightarrow> items \<noteq> [] \<and> cid = hd items"
            by blast
          have rest2: "bind_exc (r2, s3) (\<lambda>first s3. case first of Some cid \<Rightarrow> (Inr (Some cid), s3)
                         | None \<Rightarrow> for_username_lookup A hc s3) = (r, s')"
            using rest found None fb by simp
          show ?thesis
          proof (cases r2)
            case (Inl e)
            with rest2 s3 s2 k srch show ?thesis
              by (auto simp: resolve_bound_def)
          next
            case r2: (Inr first)
            show ?thesis
            proof (cases first)
              case (Some cid)
              with r2 rest2 s3 s2 k srch fb_sound False show ?thesis
                by (auto simp: resolve_bound_def resolve_sound_def)
            next
              case None
              with r2 rest2 have "for_username_lookup A hc s3 = (r, s')" by simp
              from for_username_lookup_stage [OF this] s3 s2 k srch show ?thesis
                by (auto simp: resolve_bound_def resolve_sound_def)
            qed
          qed
        qed
      qed
    qed
  qed
qed

subsection \<open>Resolution\<close>

text \<open>C9: When the channel search's first result, looked up by id, has a custom URL or title containing the cleaned handle case-insensitively, get_channel_id_from_handle returns that result's id after exactly the search and that one lookup.\<close>

theorem resolve_first_match:
  assumes "search_list A (channel_search_req (handle_clean h)) = Inr (cid # rest)"
    and "channels_list A (by_id_req cid) = Inr (it # its)"
    and "handle_matches (handle_clean h) it"
  shows "get_channel_id_from_handle A h s =
           (Some cid, s\<lparr>issued := issued s @ [Search (channel_search_req (handle_clean h)),
                                              Channels (by_id_req cid)]\<rparr>)"
  using assms by (simp add: get_channel_id_from_handle_def resolve_body_def api_calls)

theorem resolve_first_match_witness:
  "get_channel_id_from_handle (demo_api [''UCfoo'', ''UCbar''] (\<lambda>c. [demo_item c ''@foo_ai''])
     (Inl OtherError)) ''foo'' \<lparr>issued = [], diags = []\<rparr>
   = (Some ''UCfoo'', \<lparr>issued = [Search (channel_search_req ''foo''), Channels (by_id_req ''UCfoo'')],
                       diags = []\<rparr>)"
proof -
  have hc: "handle_clean ''foo'' = ''foo''" by (simp add: handle_clean_def py_simps)
  have "get_channel_id_from_handle (demo_api [''UCfoo'', ''UCbar''] (\<lambda>c. [demo_item c ''@foo_ai''])
     (Inl OtherError)) ''foo'' \<lparr>issued = [], diags = []\<rparr>
   = (Some ''UCfoo'', \<lparr>issued = [], diags = []\<rparr>\<lparr>issued := issued \<lparr>issued = [], diags = []\<rparr>
        @ [Search (channel_search_req (handle_clean ''foo'')), Channels (by_id_req ''UCfoo'')]\<rparr>)"
    by (rule resolve_first_match [where rest = "[''UCbar'']" and it = "demo_item ''UCfoo'' ''@foo_ai''"
          and its = "[]"])
       (simp_all add: hc demo_api_def channel_search_req_def by_id_req_def handle_matches_def
          demo_item_def py_simps)
  then show ?thesis by (simp add: hc)
qed

text \<open>C10: When the channel search returns no items, get_channel_id_from_handle does not raise: it issues the forUsername lookup and returns its first item's id, or None.\<close>

theorem resolve_empty_search:
  assumes "search_list A (channel_search_req (handle_clean h)) = Inr []"
  shows "get_channel_id_from_handle A h s =
     (case channels_list A (username_req (handle_clean h)) of
        Inl e \<Rightarrow> None | Inr [] \<Rightarrow> None | Inr (it # _) \<Rightarrow> Some (ch_id it),
      s\<lparr>issued := issued s @ [Search (channel_search_req (handle_clean h)),
                              Channels (username_req (handle_clean h))],
        diags := diags s @ (case channels_list A (username_req (handle_clean h)) of
                              Inl e \<Rightarrow> [ResolveFailed] | Inr _ \<Rightarrow> [])\<rparr>)"
  using assms
  by (simp add: get_channel_id_from_handle_def resolve_body_def for_username_lookup_def
      api_calls bind_exc_def split: sum.splits list.splits)

theorem resolve_empty_search_witness:
  "get_channel_id_from_handle (demo_api [] (\<lambda>c. []) (Inl OtherError)) ''foo''
     \<lparr>issued = [], diags = []\<rparr>
   = (None, \<lparr>issued = [Search (channel_search_req ''foo''), Channels (username_req ''foo'')],
             diags = []\<rparr>)"
proof -
  have hc: "handle_clean ''foo'' = ''foo''" by (simp add: handle_clean_def py_simps)
  have "search_list (demo_api [] (\<lambda>c. []) (Inl OtherError)) (channel_search_req (handle_clean ''foo'')) = Inr []"
    by (simp add: demo_api_def channel_search_req_def)
  from resolve_empty_search [OF this, of "\<lparr>issued = [], diags = []\<rparr>"] show ?thesis
    by (simp add: hc demo_api_def username_req_def)
qed

text \<open>C33: An id returned by get_channel_id_from_handle is one of the channel search results or the id of the forUsername lookup's first item.\<close>

theorem get_channel_id_sound:
  assumes "get_channel_id_from_handle A h s = (Some cid, s')"
  shows "resolve_sound A (handle_clean h) cid"
proof -
  from assms have "resolve_body A (handle_clean h) s = (Inr (Some cid), s')"
    by (auto simp: get_channel_id_from_handle_def split: prod.splits sum.splits)
  from resolve_body_stage [OF this] show ?thesis by blast
qed

theorem get_channel_id_sound_witness:
  "resolve_sound (demo_api [''UCfoo'', ''UCbar''] (\<lambda>c. [demo_item c ''@foo_ai'']) (Inl OtherError))
     (handle_clean ''foo'') ''UCfoo''"
proof -
  have hc: "handle_clean ''foo'' = ''foo''" by (simp add: handle_clean_def py_simps)
  have "get_channel_id_from_handle (demo_api [''UCfoo'', ''UCbar''] (\<lambda>c. [demo_item c ''@foo_ai''])
     (Inl OtherError)) ''foo'' \<lparr>issued = [], diags = []\<rparr>
   = (Some ''UCfoo'', \<lparr>issued = [Search (channel_search_req ''foo''), Channels (by_id_req ''UCfoo'')],
                       diags = []\<rparr>)"
    by (simp add: get_channel_id_from_handle_def resolve_body_def api_calls hc demo_api_def
        channel_search_req_def by_id_req_def handle_matches_def demo_item_def py_simps)
  then show ?thesis by (rule get_channel_id_sound)
qed

text \<open>C34: get_channel_id_from_handle issues the channel search first and at most (number of search results + 2) further requests.\<close>

theorem get_channel_id_requests:
  assumes "get_channel_id_from_handle A h s = (r, s')"
  shows "\<exists>rqs. issued s' = issued s @ Search (channel_search_req (handle_clean h)) # rqs
           \<and> length rqs \<le> resolve_bound A (handle_clean h)"
proof -
  obtain r0 s0 where body: "resolve_body A (handle_clean h) s = (r0, s0)" by fastforce
  with assms have "issued s' = issued s0"
    by (auto simp: get_channel_id_from_handle_def add_diag_def split: sum.splits)
  with resolve_body_stage [OF body] show ?thesis by auto
qed

theorem get_channel_id_requests_witness:
  "\<exists>rqs. [Search (channel_search_req ''foo''), Channels (username_req ''foo'')]
          = Search (channel_search_req (handle_clean ''foo'')) # rqs
        \<and> length rqs \<le> resolve_bound (demo_api [] (\<lambda>c. []) (Inl OtherError)) (handle_clean ''foo'')"
proof -
  have hc: "handle_clean ''foo'' = ''foo''" by (simp add: handle_clean_def py_simps)
  have "get_channel_id_from_handle (demo_api [] (\<lambda>c. []) (Inl OtherError)) ''foo''
     \<lparr>issued = [], diags = []\<rparr>
   = (None, \<lparr>issued = [Search (channel_search_req ''foo''), Channels (username_req ''foo'')],
             diags = []\<rparr>)"
    by (simp add: get_channel_id_from_handle_def resolve_body_def for_username_lookup_def
        api_calls hc demo_api_def channel_search_req_def username_req_def)
  from get_channel_id_requests [OF this] show ?thesis by simp
qed

subsection \<open>The loop as a search, and the query\<close>

text \<open>C35: When no by-id lookup raises, the handle-matching loop returns the first search result whose lookup matches the handle (by custom URL or title, case-insensitively), as List.find over the results would.\<close>

theorem match_loop_find:
  assumes "list_all (\<lambda>c. \<not> isl (channels_list A (by_id_req c))) items"
  shows "fst (match_loop A hc items s) = Inr (find (lookup_matches A hc) items)"
  using assms
proof (induction items arbitrary: s)
  case Nil
  then show ?case by simp
next
  case (Cons c rest)
  then obtain r where r: "channels_list A (by_id_req c) = Inr r"
    by (cases "channels_list A (by_id_req c)") simp_all
  let ?s1 = "s\<lparr>issued := issued s @ [Channels (by_id_req c)]\<rparr>"
  have IH: "fst (match_loop A hc rest ?s1) = Inr (find (lookup_matches A hc) rest)"
    using Cons by simp
  have lm: "lookup_matches A hc c \<longleftrightarrow> r \<noteq> [] \<and> handle_matches hc (hd r)"
    by (simp add: lookup_matches_def r split: list.splits)
  show ?case
  proof (cases r)
    case Nil
    with r IH lm show ?thesis by (simp add: call_channels_def)
  next
    case (Cons it its)
    with r IH lm show ?thesis by (simp add: call_channels_def)
  qed
qed

theorem match_loop_find_witness:
  "fst (match_loop (demo_api [''UCa'', ''UCb'', ''UCc''] (\<lambda>c. [demo_item c (if c = ''UCa'' then ''@x'' else ''@foo'')]) (Inl OtherError))
        ''foo'' [''UCa'', ''UCb'', ''UCc''] \<lparr>issued = [], diags = []\<rparr>) = Inr (Some ''UCb'')"
proof -
  let ?A = "demo_api [''UCa'', ''UCb'', ''UCc''] (\<lambda>c. [demo_item c (if c = ''UCa'' then ''@x'' else ''@foo'')]) (Inl OtherError)"
  have "fst (match_loop ?A ''foo'' [''UCa'', ''UCb'', ''UCc''] \<lparr>issued = [], diags = []\<rparr>)
        = Inr (find (lookup_matches ?A ''foo'') [''UCa'', ''UCb'', ''UCc''])"
    by (rule match_loop_find) (simp add: demo_api_def by_id_req_def)
  then show ?thesis
    by (simp add: lookup_matches_def demo_api_def by_id_req_def demo_item_def handle_matches_def py_simps)
qed

theorem search_query_clean:
  "\<exists>x. sr_q (channel_search_req (handle_clean h)) = Some (CHR ''@'' # x) \<and> CHR ''@'' \<notin> set x"
proof -
  have "CHR ''@'' \<notin> set (handle_clean h)"
    using set_py_strip [of "py_replace_char CHR ''@'' [] h"] py_replace_char_del_notin [of "CHR ''@''" h]
    by (auto simp: handle_clean_def)
  then show ?thesis by (simp add: channel_search_req_def)
qed

end
