(* ===== verification/GoogleCreds.thy ===== *)
theory GoogleCreds
  imports Prelude
begin

text \<open>
  The part of \<open>google.oauth2.credentials.Credentials\<close> (google-auth 2.x) that
  \<open>src/yt_auth.py\<close> and \<open>src/test_api.py\<close> rely on: the credential object,
  its JSON form in \<open>token.json\<close>, \<open>expired\<close>, \<open>valid\<close>,
  \<open>from_authorized_user_info\<close>/\<open>from_authorized_user_file\<close>,
  \<open>to_json\<close> and \<open>refresh\<close>. The library is not part of the repository;
  these definitions follow its documented behaviour. The token endpoint is a
  parameter: a function from the credential to the grant it answers with.
  Timestamps are whole seconds, the resolution at which the library reads
  the \<open>expiry\<close> field back (it drops the fraction when parsing).
\<close>

record credentials =
  token :: "string option"
  refresh_token :: "string option"
  client_id :: "string option"
  client_secret :: "string option"
  scopes :: "string list option"
  expiry :: "timestamp option"

text \<open>The persisted token record: one field per JSON key, \<open>None\<close> when the key
  is absent.\<close>

record token_record =
  rec_token :: "string option"
  rec_refresh_token :: "string option"
  rec_client_id :: "string option"
  rec_client_secret :: "string option"
  rec_scopes :: "string list option"
  rec_expiry :: "timestamp option"

text \<open>The token file on disk: missing, not JSON, or a JSON object.\<close>

datatype token_file = Absent | Unparsable | Stored token_record

text \<open>\<open>_helpers.REFRESH_THRESHOLD\<close>: 3 minutes 45 seconds.\<close>

definition REFRESH_THRESHOLD :: int where
  "REFRESH_THRESHOLD = 225"

definition expired :: "timestamp \<Rightarrow> credentials \<Rightarrow> bool" where
  "expired now c =
     (case expiry c of None \<Rightarrow> False | Some e \<Rightarrow> e - REFRESH_THRESHOLD \<le> now)"

definition valid :: "timestamp \<Rightarrow> credentials \<Rightarrow> bool" where
  "valid now c \<longleftrightarrow> token c \<noteq> None \<and> \<not> expired now c"

text \<open>\<open>Credentials.from_authorized_user_info(info, scopes)\<close>: the keys
  \<open>refresh_token\<close>, \<open>client_id\<close>, \<open>client_secret\<close> are required; a
  missing expiry is read as already expired (\<open>utcnow() - REFRESH_THRESHOLD\<close>);
  the \<open>scopes\<close> argument, when given, replaces the stored scopes.\<close>

definition from_authorized_user_info ::
  "timestamp \<Rightarrow> token_record \<Rightarrow> string list option \<Rightarrow> exc + credentials" where
  "from_authorized_user_info now r sc =
     (if rec_refresh_token r = None \<or> rec_client_id r = None \<or> rec_client_secret r = None
      then Inl ValueError
      else Inr \<lparr>token = rec_token r, refresh_token = rec_refresh_token r,
                client_id = rec_client_id r, client_secret = rec_client_secret r,
                scopes = (case sc of None \<Rightarrow> rec_scopes r | Some s \<Rightarrow> Some s),
                expiry = (case rec_expiry r of None \<Rightarrow> Some (now - REFRESH_THRESHOLD)
                          | Some e \<Rightarrow> Some e)\<rparr>)"

definition from_authorized_user_file ::
  "timestamp \<Rightarrow> token_file \<Rightarrow> string list option \<Rightarrow> exc + credentials" where
  "from_authorized_user_file now f sc =
     (case f of Absent \<Rightarrow> Inl FileNotFoundError
      | Unparsable \<Rightarrow> Inl JSONDecodeError
      | Stored r \<Rightarrow> from_authorized_user_info now r sc)"

text \<open>\<open>Credentials.to_json()\<close>: every field, entries that are \<open>None\<close> dropped.\<close>

definition to_json :: "credentials \<Rightarrow> token_record" where
  "to_json c = \<lparr>rec_token = token c, rec_refresh_token = refresh_token c,
     rec_client_id = client_id c, rec_client_secret = client_secret c,
     rec_scopes = scopes c, rec_expiry = expiry c\<rparr>"

text \<open>The token endpoint's answer to a refresh grant: a new access token, its
  lifetime \<open>expires_in\<close>, and possibly a rotated refresh token.\<close>

record grant =
  g_access_token :: string
  g_expires_in :: "int option"
  g_refresh_token :: "string option"

text \<open>\<open>Credentials.refresh(request)\<close>: refuses without a refresh token or
  client, otherwise overwrites the access token, the expiry and the refresh
  token from the grant; scopes and client are kept.\<close>

definition refresh ::
  "timestamp \<Rightarrow> (credentials \<Rightarrow> exc + grant) \<Rightarrow> credentials \<Rightarrow> exc + credentials" where
  "refresh now ep c =
     (case refresh_token c of
        None \<Rightarrow> Inl RefreshError
      | Some rt \<Rightarrow>
          if client_id c = None \<or> client_secret c = None then Inl RefreshError
          else (case ep c of
                  Inl e \<Rightarrow> Inl e
                | Inr g \<Rightarrow> Inr (c\<lparr>token := Some (g_access_token g),
                      expiry := map_option (\<lambda>s. now + s) (g_expires_in g),
                      refresh_token := Some (case g_refresh_token g of None \<Rightarrow> rt
                                             | Some rt' \<Rightarrow> rt')\<rparr>)))"

subsection \<open>Facts\<close>

text \<open>Expiry is monotone in time: once expired, a credential stays expired.\<close>

lemma expired_mono: "expired t c \<Longrightarrow> t \<le> t' \<Longrightarrow> expired t' c"
  by (auto simp: expired_def split: option.splits)

lemma from_info_Inl:
  "from_authorized_user_info now r sc = Inl e \<longleftrightarrow>
     e = ValueError \<and>
     (rec_refresh_token r = None \<or> rec_client_id r = None \<or> rec_client_secret r = None)"
  by (auto simp: from_authorized_user_info_def)

lemma from_info_Inr_fields:
  assumes "from_authorized_user_info now r sc = Inr c"
  shows "refresh_token c \<noteq> None \<and> client_id c \<noteq> None \<and> client_secret c \<noteq> None
    \<and> expiry c \<noteq> None \<and> token c = rec_token r
    \<and> scopes c = (case sc of None \<Rightarrow> rec_scopes r | Some s \<Rightarrow> Some s)"
  using assms by (auto simp: from_authorized_user_info_def split: if_splits option.splits)

lemma to_json_roundtrip:
  assumes "refresh_token c \<noteq> None" "client_id c \<noteq> None" "client_secret c \<noteq> None"
    "expiry c \<noteq> None"
  shows "from_authorized_user_info now (to_json c) sc =
           Inr (c\<lparr>scopes := (case sc of None \<Rightarrow> scopes c | Some s \<Rightarrow> Some s)\<rparr>)"
  using assms by (auto simp: from_authorized_user_info_def to_json_def split: option.splits)

lemma to_json_no_refresh_token:
  "refresh_token c = None \<Longrightarrow> from_authorized_user_info now (to_json c) sc = Inl ValueError"
  by (simp add: from_authorized_user_info_def to_json_def)

lemma to_json_no_expiry_expired:
  "expiry c = None \<Longrightarrow> from_authorized_user_info now (to_json c) sc = Inr c' \<Longrightarrow> expired now c'"
  by (auto simp: from_authorized_user_info_def to_json_def expired_def REFRESH_THRESHOLD_def
      split: if_splits)

lemma refresh_Inr:
  assumes "refresh now ep c = Inr c'"
  shows "\<exists>g. ep c = Inr g \<and> token c' = Some (g_access_token g)
    \<and> expiry c' = map_option (\<lambda>s. now + s) (g_expires_in g)
    \<and> refresh_token c' \<noteq> None \<and> scopes c' = scopes c
    \<and> client_id c' = client_id c \<and> client_secret c' = client_secret c"
  using assms by (auto simp: refresh_def split: option.splits if_splits sum.splits)

lemma refresh_Inl:
  "refresh now ep c = Inl e \<longleftrightarrow>
     (refresh_token c = None \<or> client_id c = None \<or> client_secret c = None) \<and> e = RefreshError
     \<or> refresh_token c \<noteq> None \<and> client_id c \<noteq> None \<and> client_secret c \<noteq> None \<and> ep c = Inl e"
  by (auto simp: refresh_def split: option.splits if_splits sum.splits)

lemma refresh_valid:
  assumes "refresh now ep c = Inr c'" "ep c = Inr g"
    "\<forall>s. g_expires_in g = Some s \<longrightarrow> REFRESH_THRESHOLD < s"
  shows "valid now c'"
  using assms refresh_Inr [OF assms(1)] by (auto simp: valid_def expired_def split: option.splits)

end
