(* ===== verification/CredManager.thy ===== *)
theory CredManager
  imports GoogleCreds
begin

text \<open>
  The credential manager of the repository, in its two variants:
  \<open>get_credentials\<close> of \<open>src/yt_auth.py\<close> (load, else refresh, else the
  browser login, then save) and \<open>load_credentials\<close> of \<open>src/test_api.py\<close>
  (load, refresh if expired, never log in, exit on any failure). The state is
  the token file \<open>token.json\<close> and a log of the external exchanges and
  writes; the environment gives the clock, the token endpoint and the result
  of the interactive login (\<open>InstalledAppFlow.run_local_server\<close>).
\<close>

definition SCOPES :: "string list" where
  "SCOPES = [''https://www.googleapis.com/auth/youtube.readonly'',
             ''https://www.googleapis.com/auth/yt-analytics.readonly'']"

text \<open>Line 18: the token file's name, which line 45 prints.\<close>

definition TOKEN_FILE :: string where
  "TOKEN_FILE = ''token.json''"

text \<open>The events of a run, in order: a refresh (line 33, after the message
  of line 32), a browser login (lines 36--40, after the message of line 35),
  a write of the token file (lines 43--44, followed by the message of
  line 45).\<close>

datatype cm_event = RefreshCall | LoginFlow | TokenWritten

record cm_state =
  token_file :: token_file
  cm_log :: "cm_event list"

record auth_env =
  now :: timestamp
  token_endpoint :: "credentials \<Rightarrow> exc + grant"
  login_flow :: "exc + credentials"

definition log_event :: "cm_event \<Rightarrow> cm_state \<Rightarrow> cm_state" where
  "log_event ev st = st\<lparr>cm_log := cm_log st @ [ev]\<rparr>"

text \<open>\<open>with open(TOKEN_FILE, "w") as token: token.write(creds.to_json())\<close>\<close>

definition save_token :: "credentials \<Rightarrow> cm_state \<Rightarrow> cm_state" where
  "save_token c st = st\<lparr>token_file := Stored (to_json c), cm_log := cm_log st @ [TokenWritten]\<rparr>"

text \<open>Truthiness of \<open>creds.refresh_token\<close>: present and non-empty.\<close>

definition has_refresh_token :: "credentials \<Rightarrow> bool" where
  "has_refresh_token c \<longleftrightarrow> (case refresh_token c of None \<Rightarrow> False | Some rt \<Rightarrow> py_truthy rt)"

subsection \<open>\<open>yt_auth.get_credentials\<close>\<close>

text \<open>The exchange chosen in the body of \<open>if not creds or not creds.valid:\<close>:
  refresh when the loaded credential is expired and has a refresh token, the
  browser login otherwise; its result and the event it logs.\<close>

definition renew_exchange ::
  "auth_env \<Rightarrow> credentials option \<Rightarrow> (exc + credentials) \<times> cm_event" where
  "renew_exchange E co =
     (case co of
        Some c \<Rightarrow>
          if expired (now E) c \<and> has_refresh_token c
          then (refresh (now E) (token_endpoint E) c, RefreshCall)
          else (login_flow E, LoginFlow)
      | None \<Rightarrow> (login_flow E, LoginFlow))"

text \<open>An exception of the exchange propagates; on success the token is saved.\<close>

definition renew_credentials ::
  "auth_env \<Rightarrow> credentials option \<Rightarrow> cm_state \<Rightarrow> (exc + credentials) \<times> cm_state" where
  "renew_credentials E co st =
     (case renew_exchange E co of
        (Inl e, ev) \<Rightarrow> (Inl e, log_event ev st)
      | (Inr c, ev) \<Rightarrow> (Inr c, save_token c (log_event ev st)))"

definition get_credentials :: "auth_env \<Rightarrow> cm_state \<Rightarrow> (exc + credentials) \<times> cm_state" where
  "get_credentials E st =
     (if token_file st = Absent then renew_credentials E None st
      else case from_authorized_user_file (now E) (token_file st) (Some SCOPES) of
             Inl e \<Rightarrow> (Inl e, st)
           | Inr c \<Rightarrow> if valid (now E) c then (Inr c, st)
                      else renew_credentials E (Some c) st)"

subsection \<open>\<open>test_api.load_credentials\<close>\<close>

text \<open>Each \<open>sys.exit(1)\<close> of the function, by the message it prints.\<close>

datatype load_error =
    NoTokenFile            \<comment> \<open>the file does not exist\<close>
  | LoadFailed exc         \<comment> \<open>the outer \<open>except Exception\<close>\<close>
  | RefreshFailed exc      \<comment> \<open>the inner \<open>except Exception\<close> around the refresh\<close>
  | InvalidCredentials     \<comment> \<open>\<open>not creds.valid\<close> after the refresh step\<close>

text \<open>Lines 103--113: when the loaded credential is expired and has a refresh
  token, refresh it and save it; a failure of either is \<open>RefreshFailed\<close>.\<close>

definition load_refresh_step ::
  "auth_env \<Rightarrow> credentials \<Rightarrow> cm_state \<Rightarrow> (load_error + credentials) \<times> cm_state" where
  "load_refresh_step E c st =
     (if expired (now E) c \<and> has_refresh_token c
      then (case refresh (now E) (token_endpoint E) c of
              Inl e \<Rightarrow> (Inl (RefreshFailed e), log_event RefreshCall st)
            | Inr c' \<Rightarrow> (Inr c', save_token c' (log_event RefreshCall st)))
      else (Inr c, st))"

definition load_credentials ::
  "auth_env \<Rightarrow> cm_state \<Rightarrow> (load_error + credentials) \<times> cm_state" where
  "load_credentials E st =
     (if token_file st = Absent then (Inl NoTokenFile, st)
      else case from_authorized_user_file (now E) (token_file st) (Some SCOPES) of
        Inl e \<Rightarrow> (Inl (LoadFailed e), st)
      | Inr c \<Rightarrow>
          (case load_refresh_step E c st of
             (Inl e, st1) \<Rightarrow> (Inl e, st1)
           | (Inr c', st1) \<Rightarrow> if valid (now E) c' then (Inr c', st1)
                             else (Inl InvalidCredentials, st1)))"

subsection \<open>Fixtures\<close>

text \<open>A credential and its stored record expiring at time \<open>e\<close>, a grant valid for an hour, and
  an environment at time 1000 with a given token endpoint and login result.\<close>

definition demo_cred :: "string \<Rightarrow> timestamp \<Rightarrow> credentials" where
  "demo_cred tok e = \<lparr>token = Some tok, refresh_token = Some ''1//refresh'',
     client_id = Some ''client'', client_secret = Some ''secret'',
     scopes = Some SCOPES, expiry = Some e\<rparr>"

definition demo_record :: "timestamp \<Rightarrow> token_record" where
  "demo_record e = to_json (demo_cred ''ya29.old'' e)"

definition demo_grant :: grant where
  "demo_grant = \<lparr>g_access_token = ''ya29.new'', g_expires_in = Some 3599, g_refresh_token = None\<rparr>"

definition demo_env :: "exc + grant \<Rightarrow> exc + credentials \<Rightarrow> auth_env" where
  "demo_env g fl = \<lparr>now = 1000, token_endpoint = (\<lambda>_. g), login_flow = fl\<rparr>"

subsection \<open>Facts about \<open>get_credentials\<close>\<close>

lemmas cm_defs = renew_credentials_def renew_exchange_def save_token_def log_event_def

lemmas demo_simps = demo_env_def demo_record_def demo_cred_def demo_grant_def to_json_def
  from_authorized_user_file_def from_authorized_user_info_def valid_def expired_def
  REFRESH_THRESHOLD_def has_refresh_token_def py_truthy_def refresh_def

lemma from_file_stored:
  "token_file st = Stored r \<Longrightarrow>
   from_authorized_user_file t (token_file st) sc = from_authorized_user_info t r sc"
  by (simp add: from_authorized_user_file_def)

lemma get_credentials_stored:
  "from_authorized_user_file (now E) (token_file st) (Some SCOPES) = Inr c \<Longrightarrow>
   get_credentials E st = (if valid (now E) c then (Inr c, st) else renew_credentials E (Some c) st)"
  by (auto simp: get_credentials_def from_authorized_user_file_def)

lemma renew_credentials_login:
  "renew_credentials E None st =
     (case login_flow E of
        Inl e \<Rightarrow> (Inl e, log_event LoginFlow st)
      | Inr c \<Rightarrow> (Inr c, save_token c (log_event LoginFlow st)))"
  by (simp add: renew_credentials_def renew_exchange_def split: sum.splits)

lemma renew_credentials_stored_login:
  "\<not> (expired (now E) c \<and> has_refresh_token c) \<Longrightarrow>
   renew_credentials E (Some c) st = renew_credentials E None st"
  by (auto simp: renew_credentials_def renew_exchange_def)

lemma renew_credentials_refresh:
  "expired (now E) c \<Longrightarrow> has_refresh_token c \<Longrightarrow>
   renew_credentials E (Some c) st =
     (case refresh (now E) (token_endpoint E) c of
        Inl e \<Rightarrow> (Inl e, log_event RefreshCall st)
      | Inr c' \<Rightarrow> (Inr c', save_token c' (log_event RefreshCall st)))"
  by (simp add: renew_credentials_def renew_exchange_def split: sum.splits)

text \<open>C6: get_credentials on a token file whose credential is valid returns that credential and leaves the state alone: no refresh, no login, no write.\<close>

lemma get_credentials_cached:
  assumes "token_file st \<noteq> Absent"
    and "from_authorized_user_file (now E) (token_file st) (Some SCOPES) = Inr c"
    and "valid (now E) c"
  shows "get_credentials E st = (Inr c, st)"
  using assms by (simp add: get_credentials_def)

lemma from_file_Inr:
  "from_authorized_user_file t f sc = Inr c \<Longrightarrow>
   \<exists>r. f = Stored r \<and> from_authorized_user_info t r sc = Inr c"
  by (cases f) (simp_all add: from_authorized_user_file_def)

text \<open>C7: get_credentials on an expired credential with a refresh token and a successful refresh returns the refreshed credential after exactly one refresh and one write of it to the token file, and the scopes written are the requested SCOPES.\<close>

lemma get_credentials_refresh:
  assumes "token_file st \<noteq> Absent"
    and "from_authorized_user_file (now E) (token_file st) (Some SCOPES) = Inr c"
    and "expired (now E) c" and "has_refresh_token c"
    and "refresh (now E) (token_endpoint E) c = Inr c'"
  shows "get_credentials E st =
           (Inr c', st\<lparr>token_file := Stored (to_json c'),
                       cm_log := cm_log st @ [RefreshCall, TokenWritten]\<rparr>)
         \<and> rec_scopes (to_json c') = Some SCOPES"
proof -
  from from_file_Inr [OF assms(2)] obtain r
    where "from_authorized_user_info (now E) r (Some SCOPES) = Inr c" by blast
  then have "scopes c = Some SCOPES" by (auto dest: from_info_Inr_fields)
  with refresh_Inr [OF assms(5)] have "rec_scopes (to_json c') = Some SCOPES"
    by (auto simp: to_json_def)
  moreover have "get_credentials E st =
           (Inr c', st\<lparr>token_file := Stored (to_json c'),
                       cm_log := cm_log st @ [RefreshCall, TokenWritten]\<rparr>)"
    using assms by (simp add: get_credentials_def valid_def cm_defs)
  ultimately show ?thesis by simp
qed

text \<open>C25: When the refresh of an expired credential fails, get_credentials fails with that exception after the refresh attempt: it does not fall back to the browser login, and the token file is unchanged.\<close>

lemma get_credentials_refresh_fails:
  assumes "token_file st \<noteq> Absent"
    and "from_authorized_user_file (now E) (token_file st) (Some SCOPES) = Inr c"
    and "expired (now E) c" and "has_refresh_token c"
    and "refresh (now E) (token_endpoint E) c = Inl e"
  shows "get_credentials E st = (Inl e, log_event RefreshCall st)"
  using assms by (simp add: get_credentials_def valid_def cm_defs)

text \<open>C8: get_credentials without a token file, when the browser login fails, fails with the login's exception after one login attempt and creates no token file.\<close>

lemma get_credentials_no_file_login_fails:
  assumes "token_file st = Absent" and "login_flow E = Inl e"
  shows "get_credentials E st = (Inl e, log_event LoginFlow st)"
  using assms by (simp add: get_credentials_def cm_defs)

lemma renew_exchange_event: "snd (renew_exchange E co) \<in> {RefreshCall, LoginFlow}"
  by (simp add: renew_exchange_def split: option.splits)

lemma renew_credentials_log:
  assumes "renew_credentials E co st = (r, st')"
  shows "\<exists>ev \<in> {RefreshCall, LoginFlow}.
           cm_log st' = cm_log st @ [ev] \<and> token_file st' = token_file st \<and> isl r
         \<or> cm_log st' = cm_log st @ [ev, TokenWritten] \<and> (\<exists>c. r = Inr c \<and> token_file st' = Stored (to_json c))"
proof -
  obtain r0 ev where ex: "renew_exchange E co = (r0, ev)" by fastforce
  then have ev: "ev \<in> {RefreshCall, LoginFlow}" using renew_exchange_event [of E co] by simp
  show ?thesis
  proof (cases r0)
    case (Inl e)
    with ex assms have "r = Inl e \<and> st' = log_event ev st" by (simp add: renew_credentials_def)
    with ev show ?thesis by (auto simp: log_event_def)
  next
    case (Inr c)
    with ex assms have "r = Inr c \<and> st' = save_token c (log_event ev st)"
      by (simp add: renew_credentials_def)
    with ev show ?thesis by (auto simp: log_event_def save_token_def)
  qed
qed

text \<open>C27: A run of get_credentials either leaves the log and the file alone, or logs one refresh or login attempt; in the second case it either fails with the file unchanged, or succeeds, logs one write, and the file holds the returned credential.\<close>

lemma get_credentials_log:
  assumes "get_credentials E st = (r, st')"
  shows "cm_log st' = cm_log st \<and> token_file st' = token_file st
       \<or> (\<exists>ev \<in> {RefreshCall, LoginFlow}.
           cm_log st' = cm_log st @ [ev] \<and> token_file st' = token_file st \<and> isl r
         \<or> cm_log st' = cm_log st @ [ev, TokenWritten]
           \<and> (\<exists>c. r = Inr c \<and> token_file st' = Stored (to_json c)))"
proof -
  consider "st' = st" | co where "renew_credentials E co st = (r, st')"
    using assms by (auto simp: get_credentials_def split: if_splits sum.splits)
  then show ?thesis
  proof cases
    case 1
    then show ?thesis by simp
  next
    case (2 co)
    then show ?thesis using renew_credentials_log by blast
  qed
qed

text \<open>C26: A token file whose record lacks the refresh_token key makes get_credentials fail with ValueError without touching the state, instead of starting the login.\<close>

lemma get_credentials_missing_refresh_key:
  assumes "token_file st = Stored r" and "rec_refresh_token r = None"
  shows "get_credentials E st = (Inl ValueError, st)"
  using assms
  by (simp add: get_credentials_def from_authorized_user_file_def from_authorized_user_info_def)

subsection \<open>Facts about \<open>load_credentials\<close>\<close>

lemma load_refresh_step_log:
  assumes "load_refresh_step E c st = (r, st')"
  shows "st' = st \<and> r = Inr c
       \<or> st' = log_event RefreshCall st \<and> isl r
       \<or> (\<exists>c'. r = Inr c' \<and> st' = save_token c' (log_event RefreshCall st))"
  using assms by (auto simp: load_refresh_step_def split: if_splits sum.splits)

lemma load_credentials_valid:
  assumes "load_credentials E st = (Inr c, st')"
  shows "valid (now E) c"
  using assms by (auto simp: load_credentials_def split: if_splits sum.splits prod.splits)

text \<open>C28: load_credentials never starts the browser login: its log grows by nothing, by one refresh, or by one refresh followed by one write.\<close>

lemma load_credentials_log:
  assumes "load_credentials E st = (r, st')"
  shows "cm_log st' \<in> {cm_log st, cm_log st @ [RefreshCall], cm_log st @ [RefreshCall, TokenWritten]}"
proof (cases "token_file st = Absent")
  case True
  with assms show ?thesis by (simp add: load_credentials_def)
next
  case False
  show ?thesis
  proof (cases "from_authorized_user_file (now E) (token_file st) (Some SCOPES)")
    case (Inl e)
    with False assms show ?thesis by (simp add: load_credentials_def)
  next
    case (Inr c)
    obtain r0 st1 where step: "load_refresh_step E c st = (r0, st1)" by fastforce
    with False Inr assms have "st' = st1"
      by (auto simp: load_credentials_def split: sum.splits if_splits)
    with load_refresh_step_log [OF step] show ?thesis
      by (auto simp: log_event_def save_token_def)
  qed
qed

subsection \<open>Persistence across runs and time\<close>

text \<open>C29: When get_credentials saves a credential without a refresh token (a login that returned none), every later run of get_credentials on that token file fails with ValueError and changes nothing: the saved file locks the script out until it is deleted.\<close>

theorem next_run_without_refresh_token:
  assumes "refresh_token c = None"
  shows "get_credentials E (save_token c st) = (Inl ValueError, save_token c st)"
  using to_json_no_refresh_token [OF assms]
  by (simp add: get_credentials_def save_token_def from_authorized_user_file_def)

text \<open>C30: When get_credentials saves a credential without an expiry, the next run reads it back as expired and, given a refresh token and client, starts with a refresh exchange although the access token may still be good.\<close>

theorem next_run_without_expiry:
  assumes "expiry c = None" and "has_refresh_token c"
    and "client_id c \<noteq> None" and "client_secret c \<noteq> None"
  shows "\<exists>evs. cm_log (snd (get_credentials E (save_token c st)))
                = cm_log st @ TokenWritten # RefreshCall # evs"
proof -
  obtain rt where rt: "refresh_token c = Some rt" using assms(2)
    by (auto simp: has_refresh_token_def split: option.splits)
  let ?c' = "c\<lparr>scopes := Some SCOPES, expiry := Some (now E - REFRESH_THRESHOLD)\<rparr>"
  have load: "from_authorized_user_file (now E) (token_file (save_token c st)) (Some SCOPES) = Inr ?c'"
    using assms rt by (simp add: save_token_def from_authorized_user_file_def
        from_authorized_user_info_def to_json_def)
  have exp: "expired (now E) ?c'" by (simp add: expired_def REFRESH_THRESHOLD_def)
  have hr: "has_refresh_token ?c'" using assms(2) by (simp add: has_refresh_token_def)
  have "get_credentials E (save_token c st) = renew_credentials E (Some ?c') (save_token c st)"
    using load exp by (simp add: get_credentials_def valid_def save_token_def)
  moreover have "snd (renew_exchange E (Some ?c')) = RefreshCall"
    using exp hr by (simp add: renew_exchange_def)
  ultimately show ?thesis
    by (auto simp: renew_credentials_def log_event_def save_token_def
        split: prod.splits sum.splits)
qed

text \<open>C31: load_credentials on an expired stored credential with a refresh token, when the token endpoint grants an access token living longer than the refresh threshold, returns the refreshed credential with the granted token and the requested scopes, after exactly one refresh and one write of it.\<close>

theorem load_credentials_refresh:
  assumes "token_file st \<noteq> Absent"
    and "from_authorized_user_file (now E) (token_file st) (Some SCOPES) = Inr c"
    and "expired (now E) c" and "has_refresh_token c"
    and "token_endpoint E c = Inr g"
    and "\<forall>s. g_expires_in g = Some s \<longrightarrow> REFRESH_THRESHOLD < s"
  shows "\<exists>c'. load_credentials E st =
           (Inr c', st\<lparr>token_file := Stored (to_json c'),
                       cm_log := cm_log st @ [RefreshCall, TokenWritten]\<rparr>)
         \<and> token c' = Some (g_access_token g) \<and> scopes c' = Some SCOPES"
proof -
  from from_file_Inr [OF assms(2)] obtain r
    where "from_authorized_user_info (now E) r (Some SCOPES) = Inr c" by blast
  then have fields: "client_id c \<noteq> None" "client_secret c \<noteq> None" "scopes c = Some SCOPES"
    by (auto dest: from_info_Inr_fields)
  from assms(4) obtain rt where rt: "refresh_token c = Some rt"
    by (auto simp: has_refresh_token_def split: option.splits)
  let ?c' = "c\<lparr>token := Some (g_access_token g),
                 expiry := map_option (\<lambda>s. now E + s) (g_expires_in g),
                 refresh_token := Some (case g_refresh_token g of None \<Rightarrow> rt | Some rt' \<Rightarrow> rt')\<rparr>"
  have ref: "refresh (now E) (token_endpoint E) c = Inr ?c'"
    using rt fields assms(5) by (simp add: refresh_def)
  have "valid (now E) ?c'" by (rule refresh_valid [OF ref assms(5,6)])
  with ref assms(1-4) fields show ?thesis
    by (simp add: load_credentials_def load_refresh_step_def save_token_def log_event_def)
qed

lemma from_info_expiry_time:
  "rec_expiry r \<noteq> None \<Longrightarrow> from_authorized_user_info t r sc = from_authorized_user_info t' r sc"
  by (auto simp: from_authorized_user_info_def)

lemma from_info_valid_expiry:
  assumes "from_authorized_user_info t r sc = Inr c" and "valid t c"
  shows "rec_expiry r \<noteq> None"
proof
  assume "rec_expiry r = None"
  with assms(1) have "expired t c"
    by (auto simp: from_authorized_user_info_def expired_def REFRESH_THRESHOLD_def split: if_splits)
  with assms(2) show False by (simp add: valid_def)
qed

text \<open>A credential returned by \<open>get_credentials\<close> is either the cached one,
  read from a record with an expiry, or the one it has just written.\<close>

lemma get_credentials_Inr_file:
  assumes "get_credentials E st = (Inr c, st')"
  shows "st' = st \<and> (\<exists>r. token_file st = Stored r \<and> rec_expiry r \<noteq> None
                        \<and> from_authorized_user_info (now E) r (Some SCOPES) = Inr c)
         \<or> token_file st' = Stored (to_json c)"
proof -
  consider "st' = st" "from_authorized_user_file (now E) (token_file st) (Some SCOPES) = Inr c" "valid (now E) c"
    | co where "renew_credentials E co st = (Inr c, st')"
    using assms by (auto simp: get_credentials_def split: if_splits sum.splits)
  then show ?thesis
  proof cases
    case 1
    from from_file_Inr [OF 1(2)] obtain r where "token_file st = Stored r"
      and "from_authorized_user_info (now E) r (Some SCOPES) = Inr c" by blast
    with 1 show ?thesis using from_info_valid_expiry by blast
  next
    case (2 co)
    from renew_credentials_log [OF 2] show ?thesis by auto
  qed
qed

lemma renew_credentials_changes_state:
  assumes "renew_credentials E co st = (r, st')"
  shows "st' \<noteq> st"
proof
  assume "st' = st"
  moreover from renew_credentials_log [OF assms] have "cm_log st' \<noteq> cm_log st" by auto
  ultimately show False by simp
qed

theorem get_credentials_cache_monotone:
  assumes "get_credentials E st = (Inr c, st)" and "t \<le> now E"
  shows "get_credentials (E\<lparr>now := t\<rparr>) st = (Inr c, st)"
proof -
  have ren: "renew_credentials E co st \<noteq> (Inr c, st)" for co
    using renew_credentials_changes_state by blast
  have ne: "token_file st \<noteq> Absent"
    using assms(1) ren by (auto simp: get_credentials_def)
  from assms(1) ne ren obtain c0 where
    ld: "from_authorized_user_file (now E) (token_file st) (Some SCOPES) = Inr c0"
    and v: "valid (now E) c0" and cc: "c = c0"
    by (auto simp: get_credentials_def split: sum.splits if_splits)
  from from_file_Inr [OF ld] obtain r where f: "token_file st = Stored r"
    and info: "from_authorized_user_info (now E) r (Some SCOPES) = Inr c0" by blast
  obtain e where e: "rec_expiry r = Some e"
  proof (cases "rec_expiry r")
    case None
    with info have "expired (now E) c0"
      by (auto simp: from_authorized_user_info_def expired_def REFRESH_THRESHOLD_def split: if_splits)
    with v show ?thesis by (simp add: valid_def)
  next
    case (Some e)
    then show ?thesis by (rule that)
  qed
  with info have info_t: "from_authorized_user_info t r (Some SCOPES) = Inr c0"
    by (auto simp: from_authorized_user_info_def split: if_splits)
  have "valid t c0" using v assms(2) by (auto simp: valid_def dest: expired_mono)
  with f info_t cc show ?thesis
    by (simp add: get_credentials_def from_authorized_user_file_def)
qed

theorem get_credentials_tokenless_logs_in:
  assumes "token_file st \<noteq> Absent"
    and "from_authorized_user_file (now E) (token_file st) (Some SCOPES) = Inr c"
    and "token c = None" and "\<not> expired (now E) c"
  shows "snd (get_credentials E st) = (case login_flow E of
            Inl e \<Rightarrow> log_event LoginFlow st
          | Inr c' \<Rightarrow> save_token c' (log_event LoginFlow st))"
  using assms
  by (simp add: get_credentials_def valid_def renew_credentials_def renew_exchange_def
      split: sum.splits)

subsection \<open>Witnesses\<close>

theorem get_credentials_cached_witness:
  "get_credentials (demo_env (Inl TransportError) (Inl FlowError))
     \<lparr>token_file = Stored (demo_record 5000), cm_log = []\<rparr>
   = (Inr (demo_cred ''ya29.old'' 5000), \<lparr>token_file = Stored (demo_record 5000), cm_log = []\<rparr>)"
  by (rule get_credentials_cached [where c = "demo_cred ''ya29.old'' 5000"])
    (simp_all add: demo_simps)

theorem get_credentials_refresh_witness:
  "get_credentials (demo_env (Inr demo_grant) (Inl FlowError))
     \<lparr>token_file = Stored (demo_record 1100), cm_log = []\<rparr>
   = (Inr (demo_cred ''ya29.new'' 4599),
      \<lparr>token_file = Stored (to_json (demo_cred ''ya29.new'' 4599)),
       cm_log = [RefreshCall, TokenWritten]\<rparr>)
   \<and> rec_scopes (to_json (demo_cred ''ya29.new'' 4599)) = Some SCOPES"
proof -
  have "get_credentials (demo_env (Inr demo_grant) (Inl FlowError))
     \<lparr>token_file = Stored (demo_record 1100), cm_log = []\<rparr>
   = (Inr (demo_cred ''ya29.new'' 4599),
      \<lparr>token_file = Stored (demo_record 1100), cm_log = []\<rparr>\<lparr>
        token_file := Stored (to_json (demo_cred ''ya29.new'' 4599)),
        cm_log := cm_log \<lparr>token_file = Stored (demo_record 1100), cm_log = []\<rparr>
                  @ [RefreshCall, TokenWritten]\<rparr>)
   \<and> rec_scopes (to_json (demo_cred ''ya29.new'' 4599)) = Some SCOPES"
    by (rule get_credentials_refresh [where c = "demo_cred ''ya29.old'' 1100"])
      (simp_all add: demo_simps)
  then show ?thesis by simp
qed

theorem get_credentials_refresh_fails_witness:
  "get_credentials (demo_env (Inl RefreshError) (Inr (demo_cred ''ya29.login'' 9999)))
     \<lparr>token_file = Stored (demo_record 1100), cm_log = []\<rparr>
   = (Inl RefreshError, \<lparr>token_file = Stored (demo_record 1100), cm_log = [RefreshCall]\<rparr>)"
proof -
  have "get_credentials (demo_env (Inl RefreshError) (Inr (demo_cred ''ya29.login'' 9999)))
     \<lparr>token_file = Stored (demo_record 1100), cm_log = []\<rparr>
   = (Inl RefreshError, log_event RefreshCall \<lparr>token_file = Stored (demo_record 1100), cm_log = []\<rparr>)"
    by (rule get_credentials_refresh_fails [where c = "demo_cred ''ya29.old'' 1100"])
      (simp_all add: demo_simps)
  then show ?thesis by (simp add: log_event_def)
qed

theorem get_credentials_no_file_login_fails_witness:
  "get_credentials (demo_env (Inl RefreshError) (Inl FlowError)) \<lparr>token_file = Absent, cm_log = []\<rparr>
   = (Inl FlowError, \<lparr>token_file = Absent, cm_log = [LoginFlow]\<rparr>)"
proof -
  have "get_credentials (demo_env (Inl RefreshError) (Inl FlowError)) \<lparr>token_file = Absent, cm_log = []\<rparr>
     = (Inl FlowError, log_event LoginFlow \<lparr>token_file = Absent, cm_log = []\<rparr>)"
    by (rule get_credentials_no_file_login_fails) (simp_all add: demo_env_def)
  then show ?thesis by (simp add: log_event_def)
qed

theorem get_credentials_missing_refresh_key_witness:
  "get_credentials (demo_env (Inl RefreshError) (Inr (demo_cred ''ya29.login'' 9999)))
     \<lparr>token_file = Stored ((demo_record 5000)\<lparr>rec_refresh_token := None\<rparr>), cm_log = []\<rparr>
   = (Inl ValueError,
      \<lparr>token_file = Stored ((demo_record 5000)\<lparr>rec_refresh_token := None\<rparr>), cm_log = []\<rparr>)"
  by (rule get_credentials_missing_refresh_key
        [where r = "(demo_record 5000)\<lparr>rec_refresh_token := None\<rparr>"]) simp_all

theorem get_credentials_log_witness:
  "cm_log (snd (get_credentials (demo_env (Inr demo_grant) (Inl FlowError))
                 \<lparr>token_file = Stored (demo_record 1100), cm_log = []\<rparr>)) = [RefreshCall, TokenWritten]
   \<and> (\<exists>c. fst (get_credentials (demo_env (Inr demo_grant) (Inl FlowError))
                 \<lparr>token_file = Stored (demo_record 1100), cm_log = []\<rparr>) = Inr c
        \<and> token_file (snd (get_credentials (demo_env (Inr demo_grant) (Inl FlowError))
                 \<lparr>token_file = Stored (demo_record 1100), cm_log = []\<rparr>)) = Stored (to_json c))"
proof -
  let ?E = "demo_env (Inr demo_grant) (Inl FlowError)"
  let ?st = "\<lparr>token_file = Stored (demo_record 1100), cm_log = []\<rparr>"
  have run: "get_credentials ?E ?st = (Inr (demo_cred ''ya29.new'' 4599),
      \<lparr>token_file = Stored (to_json (demo_cred ''ya29.new'' 4599)), cm_log = [RefreshCall, TokenWritten]\<rparr>)"
    by (simp add: get_credentials_def cm_defs demo_simps)
  from get_credentials_log [OF run] show ?thesis by (simp add: run)
qed

theorem load_credentials_log_witness:
  "cm_log (snd (load_credentials (demo_env (Inl TransportError) (Inl FlowError))
                 \<lparr>token_file = Stored (demo_record 1100), cm_log = []\<rparr>)) = [RefreshCall]"
proof -
  let ?E = "demo_env (Inl TransportError) (Inl FlowError)"
  let ?st = "\<lparr>token_file = Stored (demo_record 1100), cm_log = []\<rparr>"
  have run: "load_credentials ?E ?st = (Inl (RefreshFailed TransportError),
      \<lparr>token_file = Stored (demo_record 1100), cm_log = [RefreshCall]\<rparr>)"
    by (simp add: load_credentials_def load_refresh_step_def log_event_def demo_simps)
  from load_credentials_log [OF run] show ?thesis by (simp add: run)
qed

theorem next_run_without_refresh_token_witness:
  "get_credentials (demo_env (Inr demo_grant) (Inr (demo_cred ''ya29.login'' 9999)))
     (save_token ((demo_cred ''ya29.login'' 9999)\<lparr>refresh_token := None\<rparr>) \<lparr>token_file = Absent, cm_log = []\<rparr>)
   = (Inl ValueError,
      save_token ((demo_cred ''ya29.login'' 9999)\<lparr>refresh_token := None\<rparr>) \<lparr>token_file = Absent, cm_log = []\<rparr>)"
  by (rule next_run_without_refresh_token) simp

theorem next_run_without_expiry_witness:
  "\<exists>evs. cm_log (snd (get_credentials (demo_env (Inr demo_grant) (Inl FlowError))
            (save_token ((demo_cred ''ya29.login'' 9999)\<lparr>expiry := None\<rparr>) \<lparr>token_file = Absent, cm_log = []\<rparr>)))
        = TokenWritten # RefreshCall # evs"
  using next_run_without_expiry [of "(demo_cred ''ya29.login'' 9999)\<lparr>expiry := None\<rparr>"
      "demo_env (Inr demo_grant) (Inl FlowError)" "\<lparr>token_file = Absent, cm_log = []\<rparr>"]
  by (simp add: demo_cred_def has_refresh_token_def py_truthy_def)

theorem load_credentials_refresh_witness:
  "\<exists>c'. load_credentials (demo_env (Inr demo_grant) (Inl FlowError))
          \<lparr>token_file = Stored (demo_record 1100), cm_log = []\<rparr>
        = (Inr c', \<lparr>token_file = Stored (to_json c'), cm_log = [RefreshCall, TokenWritten]\<rparr>)
      \<and> token c' = Some ''ya29.new'' \<and> scopes c' = Some SCOPES"
proof -
  have "\<exists>c'. load_credentials (demo_env (Inr demo_grant) (Inl FlowError))
          \<lparr>token_file = Stored (demo_record 1100), cm_log = []\<rparr>
        = (Inr c', \<lparr>token_file = Stored (demo_record 1100), cm_log = []\<rparr>\<lparr>token_file := Stored (to_json c'),
              cm_log := cm_log \<lparr>token_file = Stored (demo_record 1100), cm_log = []\<rparr> @ [RefreshCall, TokenWritten]\<rparr>)
      \<and> token c' = Some (g_access_token demo_grant) \<and> scopes c' = Some SCOPES"
    by (rule load_credentials_refresh [where c = "demo_cred ''ya29.old'' 1100"])
       (simp_all add: demo_simps)
  then show ?thesis by (simp add: demo_grant_def)
qed

theorem get_credentials_cache_monotone_witness:
  "get_credentials ((demo_env (Inl RefreshError) (Inl FlowError))\<lparr>now := 500\<rparr>)
     \<lparr>token_file = Stored (demo_record 5000), cm_log = []\<rparr>
   = (Inr (demo_cred ''ya29.old'' 5000), \<lparr>token_file = Stored (demo_record 5000), cm_log = []\<rparr>)"
proof -
  have "get_credentials (demo_env (Inl RefreshError) (Inl FlowError))
     \<lparr>token_file = Stored (demo_record 5000), cm_log = []\<rparr>
   = (Inr (demo_cred ''ya29.old'' 5000), \<lparr>token_file = Stored (demo_record 5000), cm_log = []\<rparr>)"
    by (simp add: get_credentials_def demo_simps)
  then show ?thesis
    by (rule get_credentials_cache_monotone) (simp add: demo_env_def)
qed

theorem get_credentials_tokenless_logs_in_witness:
  "snd (get_credentials (demo_env (Inr demo_grant) (Inr (demo_cred ''ya29.login'' 9999)))
          \<lparr>token_file = Stored ((demo_record 5000)\<lparr>rec_token := None\<rparr>), cm_log = []\<rparr>)
   = save_token (demo_cred ''ya29.login'' 9999)
       (log_event LoginFlow \<lparr>token_file = Stored ((demo_record 5000)\<lparr>rec_token := None\<rparr>), cm_log = []\<rparr>)"
proof -
  have "snd (get_credentials (demo_env (Inr demo_grant) (Inr (demo_cred ''ya29.login'' 9999)))
          \<lparr>token_file = Stored ((demo_record 5000)\<lparr>rec_token := None\<rparr>), cm_log = []\<rparr>)
   = (case login_flow (demo_env (Inr demo_grant) (Inr (demo_cred ''ya29.login'' 9999))) of
            Inl e \<Rightarrow> log_event LoginFlow \<lparr>token_file = Stored ((demo_record 5000)\<lparr>rec_token := None\<rparr>), cm_log = []\<rparr>
          | Inr c' \<Rightarrow> save_token c' (log_event LoginFlow
                \<lparr>token_file = Stored ((demo_record 5000)\<lparr>rec_token := None\<rparr>), cm_log = []\<rparr>))"
    by (rule get_credentials_tokenless_logs_in [where c = "(demo_cred ''ya29.old'' 5000)\<lparr>token := None\<rparr>"])
       (simp_all add: demo_simps)
  then show ?thesis by (simp add: demo_env_def)
qed

end
