(* ===== verification/Probe.thy ===== *)
theory Probe
  imports ChannelResolve CredManager
begin

text \<open>
  The probe of \<open>src/test_api.py\<close>: \<open>test_youtube_data_api\<close> (resolve the
  channel, read its snippet and statistics, list its five latest videos),
  \<open>test_youtube_analytics_api\<close> (a daily and an aggregate report over the
  trailing window) and \<open>main\<close>, which loads the credential, runs both
  checks on the API as seen with that credential and computes the exit code.
\<close>

definition CHANNEL_HANDLE :: string where
  "CHANNEL_HANDLE = ''Daepa_ai''"

text \<open>What \<open>test_youtube_data_api\<close> returns: the channel id, \<open>False\<close>
  (lines 149 and 162) or \<open>None\<close> (the exception handlers).\<close>

datatype data_result = DChannel string | DFalse | DNone

definition mine_req :: channels_req where
  "mine_req = \<lparr>cr_part = ''snippet,statistics'', cr_filter = Mine\<rparr>"

definition stats_req :: "string \<Rightarrow> channels_req" where
  "stats_req cid = \<lparr>cr_part = ''snippet,statistics'', cr_filter = ById cid\<rparr>"

definition videos_req :: "string \<Rightarrow> search_req" where
  "videos_req cid = \<lparr>sr_part = ''snippet'', sr_q = None, sr_channel_id = Some cid,
     sr_type = ''video'', sr_max_results = 5, sr_order = Some ''date''\<rparr>"

definition opt_truthy :: "string option \<Rightarrow> bool" where
  "opt_truthy co = (case co of None \<Rightarrow> False | Some c \<Rightarrow> py_truthy c)"

subsection \<open>\<open>test_youtube_data_api\<close>\<close>

text \<open>Lines 135--151: the channel to probe. \<open>Inr None\<close> is the early
  \<open>return False\<close> when neither the handle nor \<open>mine=True\<close> gives one.\<close>

definition data_channel ::
  "api \<Rightarrow> string option \<Rightarrow> probe_state \<Rightarrow> (exc + string option) \<times> probe_state" where
  "data_channel A channel_id s =
     (if opt_truthy channel_id then (Inr channel_id, s)
      else (case get_channel_id_from_handle A CHANNEL_HANDLE s of
        (co, s1) \<Rightarrow>
          if opt_truthy co then (Inr co, add_diag (ChannelIdFound (the co)) s1)
          else bind_exc (call_channels A mine_req s1)
                 (\<lambda>items s2. case items of
                     [] \<Rightarrow> (Inr None, add_diag NoChannel s2)
                   | it # _ \<Rightarrow> (Inr (Some (ch_id it)), s2))))"

text \<open>Lines 168--171: what the loop prints for one item, a hidden counter as
  \<open>N/A\<close>.\<close>

definition stat_or_na :: "(string \<times> string) list \<Rightarrow> string \<Rightarrow> string" where
  "stat_or_na stats k = (case map_of stats k of None \<Rightarrow> ''N/A'' | Some v \<Rightarrow> v)"

definition stats_lines :: "string \<Rightarrow> (string \<times> string) list \<Rightarrow> diag list" where
  "stats_lines title stats =
     [ChannelTitle title, SubscriberCount (stat_or_na stats ''subscriberCount''),
      ViewCount (stat_or_na stats ''viewCount''), VideoTotal (stat_or_na stats ''videoCount'')]"

text \<open>Lines 165--171: the loop over the items; \<open>KeyError\<close> for an item
  without title or statistics, after the earlier items were printed.\<close>

fun stats_loop :: "channel_item list \<Rightarrow> probe_state \<Rightarrow> (exc + unit) \<times> probe_state" where
  "stats_loop [] s = (Inr (), s)"
| "stats_loop (it # its) s =
     (case ch_title it of
        None \<Rightarrow> (Inl KeyError, s)
      | Some title \<Rightarrow>
          (case ch_statistics it of
             None \<Rightarrow> (Inl KeyError, s)
           | Some stats \<Rightarrow> stats_loop its (add_diags (stats_lines title stats) s)))"

definition stats_out :: "channel_item \<Rightarrow> diag list" where
  "stats_out it = stats_lines (the (ch_title it)) (the (ch_statistics it))"

text \<open>Lines 153--187: the channel lookup (\<open>False\<close> on no items), the item
  loop, then the video search and the count of its items.\<close>

definition data_check_channel ::
  "api \<Rightarrow> string \<Rightarrow> probe_state \<Rightarrow> (exc + data_result) \<times> probe_state" where
  "data_check_channel A cid s =
     bind_exc (call_channels A (stats_req cid) s)
       (\<lambda>items s1.
          if items = [] then (Inr DFalse, add_diag NoChannel s1)
          else bind_exc (stats_loop items s1)
                 (\<lambda>_ s2. bind_exc (call_search A (videos_req cid) s2)
                    (\<lambda>videos s3. (Inr (DChannel cid), add_diag (VideosFound (length videos)) s3))))"

text \<open>Lines 131--187, the body of the \<open>try\<close> block.\<close>

definition data_api_body ::
  "api \<Rightarrow> string option \<Rightarrow> probe_state \<Rightarrow> (exc + data_result) \<times> probe_state" where
  "data_api_body A channel_id s =
     bind_exc (data_channel A channel_id s)
       (\<lambda>co s1. case co of None \<Rightarrow> (Inr DFalse, s1) | Some cid \<Rightarrow> data_check_channel A cid s1)"

text \<open>Lines 189--198: an exception is classified and the result is \<open>None\<close>.\<close>

definition test_youtube_data_api ::
  "api \<Rightarrow> string option \<Rightarrow> probe_state \<Rightarrow> data_result \<times> probe_state" where
  "test_youtube_data_api A channel_id s =
     (case data_api_body A channel_id s of
        (Inl e, s') \<Rightarrow> (DNone, add_diag (classify e) s')
      | (Inr r, s') \<Rightarrow> (r, s'))"

subsection \<open>\<open>test_youtube_analytics_api\<close>\<close>

text \<open>Line 222: \<open>channel=={channel_id}\<close> for a truthy id, else
  \<open>channel==MINE\<close>; the id is whatever the data check returned.\<close>

definition channel_param :: "data_result \<Rightarrow> string" where
  "channel_param r =
     (case r of
        DChannel c \<Rightarrow> if py_truthy c then ''channel=='' @ c else ''channel==MINE''
      | _ \<Rightarrow> ''channel==MINE'')"

text \<open>Lines 226--227: \<open>end_date = datetime.utcnow().date()\<close> and
  \<open>start_date = end_date - timedelta(days=7)\<close>, which raises
  \<open>OverflowError\<close> before the first day of the calendar.\<close>

definition analytics_window :: "api \<Rightarrow> exc + date \<times> date" where
  "analytics_window A =
     (let end_date = today A in
      case date_sub_days end_date 7 of
        Inl e \<Rightarrow> Inl e
      | Inr start_date \<Rightarrow> Inr (start_date, end_date))"

text \<open>Lines 229--236 and 254--259: the daily and the aggregate report.\<close>

definition daily_query :: "string \<Rightarrow> date \<Rightarrow> date \<Rightarrow> report_query" where
  "daily_query ids start_date end_date = \<lparr>q_ids = ids, q_start = start_date, q_end = end_date,
     q_metrics = ''views,estimatedMinutesWatched,averageViewDuration'',
     q_dimensions = Some ''day'', q_sort = Some ''day''\<rparr>"

definition overall_query :: "string \<Rightarrow> date \<Rightarrow> date \<Rightarrow> report_query" where
  "overall_query ids start_date end_date = \<lparr>q_ids = ids, q_start = start_date, q_end = end_date,
     q_metrics = ''views,estimatedMinutesWatched,subscribersGained'',
     q_dimensions = None, q_sort = None\<rparr>"

text \<open>Lines 241--250: what the check prints about the daily report, the
  warning for no rows, or the number of rows, the column names joined, the
  first five rows (\<open>rows[:5]\<close>) and the number of the others.\<close>

definition daily_table :: "string list \<Rightarrow> cell list list \<Rightarrow> diag list" where
  "daily_table names rows =
     (if rows = [] then [NoRows]
      else RowsFound (length rows) # Columns (py_join '' | '' names)
           # map (\<lambda>row. RowLine (row_line row)) (take 5 rows)
           @ (if 5 < length rows then [MoreRows (length rows - 5)] else []))"

text \<open>Lines 262--266 on the first aggregate row: \<open>overall_data[0]\<close>
  raises \<open>IndexError\<close> on an empty row and the format \<open>:,\<close>
  \<open>ValueError\<close> on a string; \<open>overall_data[1] / 60\<close> raises
  \<open>TypeError\<close> on a string, after the views were printed; the watch time
  and the new subscribers default to 0 and \<open>N/A\<close> on a shorter row, and
  the third cell is printed with \<open>str\<close>. Otherwise the check returns
  \<open>True\<close> (line 269).\<close>

fun overall_lines :: "cell list \<Rightarrow> probe_state \<Rightarrow> (exc + bool) \<times> probe_state" where
  "overall_lines [] s = (Inl IndexError, s)"
| "overall_lines (STRING _ # _) s = (Inl ValueError, s)"
| "overall_lines [NUMBER v] s = (Inr True, add_diags [OverallViews v, WatchMinutes 0, NewSubscribers None] s)"
| "overall_lines (NUMBER v # STRING _ # _) s = (Inl TypeError, add_diags [OverallViews v] s)"
| "overall_lines [NUMBER v, NUMBER m] s =
     (Inr True, add_diags [OverallViews v, WatchMinutes m, NewSubscribers None] s)"
| "overall_lines (NUMBER v # NUMBER m # c # _) s =
     (Inr True, add_diags [OverallViews v, WatchMinutes m, NewSubscribers (Some (py_str_cell c))] s)"

text \<open>Lines 218--269: the column names are read before the rows (line 238),
  no daily rows is only a warning, and the figures of the first aggregate
  row are printed when there is one.\<close>

definition analytics_body ::
  "api \<Rightarrow> data_result \<Rightarrow> probe_state \<Rightarrow> (exc + bool) \<times> probe_state" where
  "analytics_body A channel_id s =
     (let ids = channel_param channel_id in
      case analytics_window A of
        Inl e \<Rightarrow> (Inl e, s)
      | Inr (start_date, end_date) \<Rightarrow>
          bind_exc (call_reports A (daily_query ids start_date end_date) s)
            (\<lambda>r1 s1.
               case header_names (column_headers r1) of
                 Inl e \<Rightarrow> (Inl e, s1)
               | Inr names \<Rightarrow>
                   bind_exc (call_reports A (overall_query ids start_date end_date)
                               (add_diags (daily_table names (report_rows r1)) s1))
                     (\<lambda>r2 s2. case report_rows r2 of
                         [] \<Rightarrow> (Inr True, s2)
                       | row # _ \<Rightarrow> overall_lines row s2)))"

definition test_youtube_analytics_api ::
  "api \<Rightarrow> data_result \<Rightarrow> probe_state \<Rightarrow> bool \<times> probe_state" where
  "test_youtube_analytics_api A channel_id s =
     (case analytics_body A channel_id s of
        (Inl e, s') \<Rightarrow> (False, add_diag (classify e) s')
      | (Inr b, s') \<Rightarrow> (b, s'))"

subsection \<open>\<open>main\<close>\<close>

definition probe_init :: probe_state where
  "probe_init = \<lparr>issued = [], diags = []\<rparr>"

text \<open>Lines 295--296: the channel id is printed when it is truthy.\<close>

definition channel_note :: "data_result \<Rightarrow> diag list" where
  "channel_note r = (case r of DChannel c \<Rightarrow> if py_truthy c then [ChannelToQuery c] else [] | _ \<Rightarrow> [])"

text \<open>Lines 283--311. A failed load is \<open>sys.exit(1)\<close> before any probe.
  \<open>data_api_result = channel_id is not None\<close>; the summary of lines
  300--310 prints both verdicts and a closing line that agrees with the exit
  code.\<close>

definition test_api_main ::
  "auth_env \<Rightarrow> (credentials \<Rightarrow> api) \<Rightarrow> cm_state \<Rightarrow> nat \<times> cm_state \<times> probe_state" where
  "test_api_main E api_for st =
     (case load_credentials E st of
        (Inl _, st') \<Rightarrow> (1, st', probe_init)
      | (Inr creds, st') \<Rightarrow>
          (case test_youtube_data_api (api_for creds) None probe_init of
             (channel_id, s1) \<Rightarrow>
               (case test_youtube_analytics_api (api_for creds) channel_id
                       (add_diags (channel_note channel_id) s1) of
                  (analytics_api_result, s2) \<Rightarrow>
                    (let data_api_result = channel_id \<noteq> DNone;
                         ok = data_api_result \<and> analytics_api_result
                     in (if ok then 0 else 1, st',
                         add_diags [Summary data_api_result analytics_api_result,
                                    if ok then AllOk else SomeFailed] s2)))))"

subsection \<open>Analytics check\<close>

text \<open>What the aggregate figures decide: the outcome of \<open>overall_lines\<close>,
  which does not depend on what was printed before.\<close>

definition overall_result :: "cell list \<Rightarrow> exc + bool" where
  "overall_result row =
     (case row of
        [] \<Rightarrow> Inl IndexError
      | STRING _ # _ \<Rightarrow> Inl ValueError
      | NUMBER _ # rest \<Rightarrow> (case take 1 rest of [STRING _] \<Rightarrow> Inl TypeError | _ \<Rightarrow> Inr True))"

lemma overall_lines_result: "fst (overall_lines row s) = overall_result row"
  by (induction row s rule: overall_lines.induct) (simp_all add: overall_result_def)

lemma overall_lines_prints: "overall_lines row s = (r, s') \<Longrightarrow> \<exists>ds. s' = add_diags ds s"
  by (induction row s rule: overall_lines.induct) (auto intro: exI [of _ "[]"])

lemma overall_result_ok:
  "overall_result row = Inr True \<longleftrightarrow>
     (case row of NUMBER _ # rest \<Rightarrow> (\<forall>t. take 1 rest \<noteq> [STRING t]) | _ \<Rightarrow> False)"
  by (auto simp: overall_result_def split: list.splits cell.splits)

lemma analytics_body_result:
  "fst (analytics_body A cid s) =
     (case analytics_window A of
        Inl e \<Rightarrow> Inl e
      | Inr (sd, ed) \<Rightarrow>
     (case reports_query A (daily_query (channel_param cid) sd ed) of
        Inl e \<Rightarrow> Inl e
      | Inr r1 \<Rightarrow> (case header_names (column_headers r1) of
           Inl e \<Rightarrow> Inl e
         | Inr _ \<Rightarrow> (case reports_query A (overall_query (channel_param cid) sd ed) of
           Inl e \<Rightarrow> Inl e
         | Inr r2 \<Rightarrow> (case report_rows r2 of
              [] \<Rightarrow> Inr True
            | row # _ \<Rightarrow> overall_result row)))))"
  by (simp add: analytics_body_def api_calls Let_def bind_exc_def overall_lines_result
      split: sum.splits list.splits prod.splits)

lemma analytics_window_valid:
  assumes "valid_date (today A)"
  shows "analytics_window A =
     (if 8 \<le> ymd2ord (today A) then Inr (ord2ymd (ymd2ord (today A) - 7), today A)
      else Inl OverflowError)"
  using valid_ord_range(2) [OF assms]
  by (simp add: analytics_window_def date_sub_days_def date_add_days_def Let_def)

lemma date_2024_04_24:
  "valid_date \<lparr>year = 2024, month = 4, day = 24\<rparr> \<and> ymd2ord \<lparr>year = 2024, month = 4, day = 24\<rparr> = 739000"
  by (simp add: valid_date_def days_in_month_def DAYS_IN_MONTH_def MINYEAR_def MAXYEAR_def
      ymd2ord_def days_before_year_def days_before_month_def DAYS_BEFORE_MONTH_def is_leap_def)

lemma window_2024_04_24:
  assumes "today A = \<lparr>year = 2024, month = 4, day = 24\<rparr>"
  shows "analytics_window A =
     Inr (\<lparr>year = 2024, month = 4, day = 17\<rparr>, \<lparr>year = 2024, month = 4, day = 24\<rparr>)"
proof -
  have "ord2ymd (739000 - 7) = \<lparr>year = 2024, month = 4, day = 17\<rparr>"
    by (simp add: ord2ymd_def ord2ymd_month_def Let_def DAYS_BEFORE_MONTH_def DAYS_IN_MONTH_def)
  then show ?thesis using analytics_window_valid [of A] date_2024_04_24 assms by simp
qed

lemma demo_api_today: "today (demo_api rs lk rep) = \<lparr>year = 2024, month = 4, day = 24\<rparr>"
  by (simp add: demo_api_def)

lemmas demo_window = window_2024_04_24 [OF demo_api_today]

lemma channel_note_simps [simp]: "channel_note DFalse = []" "channel_note DNone = []"
  by (simp_all add: channel_note_def)

lemma test_youtube_analytics_api_fst:
  "fst (test_youtube_analytics_api A cid s) \<longleftrightarrow> fst (analytics_body A cid s) = Inr True"
  by (cases "analytics_body A cid s") (auto simp: test_youtube_analytics_api_def split: sum.splits)

text \<open>C11: test_youtube_analytics_api succeeds exactly when the date window (today and 7 days earlier) is computed without OverflowError, the daily report for that window is answered with a name for every column header, the aggregate report is answered, and its first row, if any, starts with a number not followed by a string; the daily report's rows never decide it.\<close>

theorem analytics_ok_iff:
  "fst (test_youtube_analytics_api A cid s) \<longleftrightarrow>
     (\<exists>sd ed r1 r2. analytics_window A = Inr (sd, ed)
            \<and> reports_query A (daily_query (channel_param cid) sd ed) = Inr r1
            \<and> None \<notin> set (column_headers r1)
            \<and> reports_query A (overall_query (channel_param cid) sd ed) = Inr r2
            \<and> (case report_rows r2 of [] \<Rightarrow> True
               | row # _ \<Rightarrow> (case row of NUMBER _ # rest \<Rightarrow> (\<forall>t. take 1 rest \<noteq> [STRING t]) | _ \<Rightarrow> False)))"
proof -
  have "fst (test_youtube_analytics_api A cid s) \<longleftrightarrow> fst (analytics_body A cid s) = Inr True"
    by (rule test_youtube_analytics_api_fst)
  also have "\<dots> \<longleftrightarrow> (\<exists>sd ed r1 r2. analytics_window A = Inr (sd, ed)
            \<and> reports_query A (daily_query (channel_param cid) sd ed) = Inr r1
            \<and> None \<notin> set (column_headers r1)
            \<and> reports_query A (overall_query (channel_param cid) sd ed) = Inr r2
            \<and> (case report_rows r2 of [] \<Rightarrow> True | row # _ \<Rightarrow> overall_result row = Inr True))"
    by (auto simp: analytics_body_result header_names_def split: sum.splits list.splits prod.splits)
  also have "\<dots> \<longleftrightarrow> (\<exists>sd ed r1 r2. analytics_window A = Inr (sd, ed)
            \<and> reports_query A (daily_query (channel_param cid) sd ed) = Inr r1
            \<and> None \<notin> set (column_headers r1)
            \<and> reports_query A (overall_query (channel_param cid) sd ed) = Inr r2
            \<and> (case report_rows r2 of [] \<Rightarrow> True
               | row # _ \<Rightarrow> (case row of NUMBER _ # rest \<Rightarrow> (\<forall>t. take 1 rest \<noteq> [STRING t]) | _ \<Rightarrow> False)))"
    by (simp only: overall_result_ok)
  finally show ?thesis .
qed

theorem analytics_requests:
  assumes "test_youtube_analytics_api A cid s = (b, s')"
  shows "isl (analytics_window A) \<and> issued s' = issued s
       \<or> (\<exists>sd ed. analytics_window A = Inr (sd, ed)
           \<and> (issued s' = issued s @ [Reports (daily_query (channel_param cid) sd ed)]
            \<or> issued s' = issued s @ [Reports (daily_query (channel_param cid) sd ed),
                                     Reports (overall_query (channel_param cid) sd ed)]))"
  using assms
  by (auto simp: test_youtube_analytics_api_def analytics_body_def api_calls Let_def bind_exc_def
      dest: overall_lines_prints split: sum.splits list.splits prod.splits if_splits)

text \<open>C15: When today's date is a valid date on or after 0001-01-08 (day number at least 8), the analytics window is (today - 7 days, today) as datetime computes it, the daily report is sent startDate and endDate as their isoformat strings, which read back as those dates, and the two dates are 7 days apart, so the inclusive window spans 8 days.\<close>

theorem daily_report_dates:
  assumes "valid_date (today A)" "8 \<le> ymd2ord (today A)"
  shows "\<exists>sd. analytics_window A = Inr (sd, today A)
     \<and> map_of (report_params (daily_query ids sd (today A))) ''startDate'' = Some (isoformat sd)
     \<and> map_of (report_params (daily_query ids sd (today A))) ''endDate'' = Some (isoformat (today A))
     \<and> parse_iso_date (isoformat sd) = Some sd
     \<and> parse_iso_date (isoformat (today A)) = Some (today A)
     \<and> ymd2ord (today A) - ymd2ord sd = 7"
proof (intro exI conjI)
  let ?t = "ymd2ord (today A)"
  let ?sd = "ord2ymd (?t - 7)"
  have r: "1 \<le> ?t - 7" "?t - 7 \<le> MAXORDINAL"
    using assms(2) valid_ord_range(2) [OF assms(1)] by simp_all
  show "analytics_window A = Inr (?sd, today A)"
    using analytics_window_valid [OF assms(1)] assms(2) by simp
  show "map_of (report_params (daily_query ids ?sd (today A))) ''startDate'' = Some (isoformat ?sd)"
    "map_of (report_params (daily_query ids ?sd (today A))) ''endDate'' = Some (isoformat (today A))"
    by (simp_all add: report_params_def daily_query_def)
  show "parse_iso_date (isoformat ?sd) = Some ?sd"
    by (rule isoformat_roundtrip [OF ord2ymd_valid [OF r]])
  show "parse_iso_date (isoformat (today A)) = Some (today A)"
    by (rule isoformat_roundtrip [OF assms(1)])
  show "?t - ymd2ord ?sd = 7"
    using ymd2ord_ord2ymd [OF r(1)] by simp
qed

text \<open>C18: When the window is computed and the daily report is answered with a name for every column header, test_youtube_analytics_api prints its table right after what was printed before: the warning for no rows, or the row count, the joined column names, exactly the first five rows in order, and, only when there are more than five, the number of rows left out.\<close>

theorem analytics_rows_printed:
  assumes "analytics_window A = Inr (sd, ed)"
    and "reports_query A (daily_query (channel_param cid) sd ed) = Inr rep"
    and "header_names (column_headers rep) = Inr names"
  shows "(\<exists>ds. diags (snd (test_youtube_analytics_api A cid s)) = diags s @ daily_table names (report_rows rep) @ ds)
     \<and> filter (\<lambda>d. case d of RowLine _ \<Rightarrow> True | _ \<Rightarrow> False) (daily_table names (report_rows rep))
         = map (\<lambda>row. RowLine (row_line row)) (take 5 (report_rows rep))
     \<and> (MoreRows (length (report_rows rep) - 5) \<in> set (daily_table names (report_rows rep))
         \<longleftrightarrow> 5 < length (report_rows rep))"
proof (intro conjI)
  show "\<exists>ds. diags (snd (test_youtube_analytics_api A cid s)) = diags s @ daily_table names (report_rows rep) @ ds"
    using assms
    by (auto simp: test_youtube_analytics_api_def analytics_body_def api_calls Let_def bind_exc_def
        dest: overall_lines_prints split: prod.splits sum.splits list.splits)
  show "filter (\<lambda>d. case d of RowLine _ \<Rightarrow> True | _ \<Rightarrow> False) (daily_table names (report_rows rep))
         = map (\<lambda>row. RowLine (row_line row)) (take 5 (report_rows rep))"
    by (simp add: daily_table_def filter_map comp_def)
  show "MoreRows (length (report_rows rep) - 5) \<in> set (daily_table names (report_rows rep))
         \<longleftrightarrow> 5 < length (report_rows rep)"
    by (auto simp: daily_table_def)
qed

text \<open>C16: When today is a valid date among the first seven days of the calendar (0001-01-01 to 0001-01-07, day number below 8), start_date = end_date - timedelta(days=7) raises OverflowError inside the try block: test_youtube_analytics_api issues no request, reports an unclassified failure and returns False.\<close>

theorem analytics_window_overflow:
  assumes "valid_date (today A)" "ymd2ord (today A) < 8"
  shows "test_youtube_analytics_api A cid s = (False, add_diag Unclassified s)"
proof -
  have "analytics_window A = Inl OverflowError"
    using analytics_window_valid [OF assms(1)] assms(2) by simp
  then show ?thesis by (simp add: test_youtube_analytics_api_def analytics_body_def classify_def)
qed

text \<open>C17: When the daily report is answered with a column header that has no name, h["name"] raises KeyError before anything of the report is printed: test_youtube_analytics_api reports an unclassified failure and returns False after sending only the daily request, without asking for the aggregate report.\<close>

theorem analytics_header_keyerror:
  assumes "analytics_window A = Inr (sd, ed)"
    and "reports_query A (daily_query (channel_param cid) sd ed) = Inr rep"
    and "None \<in> set (column_headers rep)"
  shows "test_youtube_analytics_api A cid s =
           (False, add_diag Unclassified (s\<lparr>issued := issued s @ [Reports (daily_query (channel_param cid) sd ed)]\<rparr>))"
  using assms
  by (simp add: test_youtube_analytics_api_def analytics_body_def api_calls bind_exc_def header_names_def classify_def)

theorem classify_status:
  "(classify e = Forbidden \<longleftrightarrow> e = HttpError 403)
   \<and> (classify e = Unauthorized \<longleftrightarrow> e = HttpError 401)"
  by (auto simp: classify_def split: exc.splits)

lemma analytics_diags_extend:
  assumes "test_youtube_analytics_api A cid s = (b, s')"
  shows "\<exists>ds. diags s' = diags s @ ds"
  using assms
  by (auto simp: test_youtube_analytics_api_def analytics_body_def api_calls Let_def bind_exc_def
      dest: overall_lines_prints split: sum.splits list.splits prod.splits if_splits)

theorem analytics_depends_on_param:
  "channel_param c1 = channel_param c2 \<Longrightarrow>
   test_youtube_analytics_api A c1 s = test_youtube_analytics_api A c2 s"
  by (simp add: test_youtube_analytics_api_def analytics_body_def)

subsection \<open>Data check\<close>

lemma data_channel_mine_fallback:
  assumes "get_channel_id_from_handle A CHANNEL_HANDLE s = (co, s1)" and "\<not> opt_truthy co"
    and "channels_list A mine_req = Inr (it # its)"
  shows "data_channel A None s = (Inr (Some (ch_id it)), s1\<lparr>issued := issued s1 @ [Channels mine_req]\<rparr>)"
  using assms by (simp add: data_channel_def opt_truthy_def api_calls)

lemma data_channel_none:
  assumes "data_channel A co s = (Inr None, s1)"
  shows "NoChannel \<in> set (diags s1)"
  using assms
  by (auto simp: data_channel_def opt_truthy_def api_calls bind_exc_def
      split: if_splits prod.splits sum.splits list.splits option.splits)

lemma data_api_body_Inr:
  assumes "test_youtube_data_api A co s = (r, s')" and "r \<noteq> DNone"
  shows "\<exists>c s1. data_channel A co s = (Inr c, s1)
           \<and> (case c of None \<Rightarrow> (Inr DFalse, s1) | Some cid \<Rightarrow> data_check_channel A cid s1) = (Inr r, s')"
proof -
  from assms have "data_api_body A co s = (Inr r, s')"
    by (auto simp: test_youtube_data_api_def split: prod.splits sum.splits)
  then show ?thesis by (auto simp: data_api_body_def bind_exc_Inr_iff)
qed

lemma stats_loop_state:
  "snd (stats_loop items s) = add_diags (concat (map stats_out (takeWhile item_ok items))) s"
  by (induction items arbitrary: s) (auto simp: item_ok_def stats_out_def split: option.splits)

lemma stats_loop_result: "fst (stats_loop items s) = Inr () \<longleftrightarrow> list_all item_ok items"
  by (induction items arbitrary: s) (auto simp: item_ok_def split: option.splits)

lemma stats_loop_eq:
  "stats_loop items s = (r, s') \<Longrightarrow>
     s' = add_diags (concat (map stats_out (takeWhile item_ok items))) s \<and> (r = Inr () \<longleftrightarrow> list_all item_ok items)
     \<and> (r = Inr () \<longrightarrow> s' = add_diags (concat (map stats_out items)) s)"
  using stats_loop_state [of items s] stats_loop_result [of items s]
  by (auto simp: list_all_iff takeWhile_eq_all_conv [THEN iffD2])

lemma data_check_channel_DChannel:
  assumes "data_check_channel A cid s = (Inr (DChannel cid'), s')"
  shows "cid' = cid \<and> (\<exists>items vids. channels_list A (stats_req cid) = Inr items \<and> items \<noteq> []
           \<and> list_all item_ok items
           \<and> search_list A (videos_req cid) = Inr vids
           \<and> issued s' = issued s @ [Channels (stats_req cid), Search (videos_req cid)]
           \<and> diags s' = diags s @ concat (map stats_out items) @ [VideosFound (length vids)])"
  using assms
  by (auto simp: data_check_channel_def api_calls bind_exc_def dest!: stats_loop_eq
      split: sum.splits if_splits prod.splits)

text \<open>C36: When test_youtube_data_api returns a channel id, that channel's lookup returned items with titles and statistics and the video search for it succeeded, these two requests being the last issued, and the check last printed each item's title and counters in order and then the number of videos found.\<close>

theorem data_result_channel:
  assumes "test_youtube_data_api A co s = (DChannel cid, s')"
  shows "\<exists>items vids rqs pre. channels_list A (stats_req cid) = Inr items \<and> items \<noteq> []
           \<and> list_all item_ok items
           \<and> search_list A (videos_req cid) = Inr vids
           \<and> issued s' = rqs @ [Channels (stats_req cid), Search (videos_req cid)]
           \<and> diags s' = pre @ concat (map stats_out items) @ [VideosFound (length vids)]"
proof -
  from data_api_body_Inr [OF assms] obtain c s1 where
    rest: "(case c of None \<Rightarrow> (Inr DFalse, s1) | Some cid \<Rightarrow> data_check_channel A cid s1)
             = (Inr (DChannel cid), s')"
    by auto
  then obtain cid0 where "data_check_channel A cid0 s1 = (Inr (DChannel cid), s')"
    by (auto split: option.splits)
  from data_check_channel_DChannel [OF this] show ?thesis by auto
qed

theorem data_result_false:
  assumes "test_youtube_data_api A co s = (DFalse, s')"
  shows "NoChannel \<in> set (diags s')"
proof -
  from data_api_body_Inr [OF assms] obtain c s1 where ch: "data_channel A co s = (Inr c, s1)"
    and rest: "(case c of None \<Rightarrow> (Inr DFalse, s1) | Some cid \<Rightarrow> data_check_channel A cid s1)
                 = (Inr DFalse, s')"
    by auto
  show ?thesis
  proof (cases c)
    case None
    with ch rest show ?thesis by (auto dest: data_channel_none)
  next
    case (Some cid)
    with rest show ?thesis
      by (auto simp: data_check_channel_def api_calls bind_exc_def split: sum.splits if_splits prod.splits)
  qed
qed

subsection \<open>Witnesses\<close>

theorem analytics_requests_witness:
  "issued (snd (test_youtube_analytics_api (demo_api [] (\<lambda>c. []) (Inl (HttpError 403))) DFalse probe_init))
   = [Reports (daily_query ''channel==MINE'' \<lparr>year = 2024, month = 4, day = 17\<rparr>
                 \<lparr>year = 2024, month = 4, day = 24\<rparr>)]"
proof -
  let ?A = "demo_api [] (\<lambda>c. []) (Inl (HttpError 403))"
  let ?sd = "\<lparr>year = 2024, month = 4, day = 17\<rparr>" and ?ed = "\<lparr>year = 2024, month = 4, day = 24\<rparr>"
  obtain b s' where run: "test_youtube_analytics_api ?A DFalse probe_init = (b, s')" by fastforce
  from analytics_requests [OF run] have
    "issued s' = [Reports (daily_query ''channel==MINE'' ?sd ?ed)]
     \<or> issued s' = [Reports (daily_query ''channel==MINE'' ?sd ?ed),
                     Reports (overall_query ''channel==MINE'' ?sd ?ed)]"
    by (simp add: demo_window probe_init_def channel_param_def)
  moreover have "length (issued s') = 1"
  proof -
    have "snd (test_youtube_analytics_api ?A DFalse probe_init) = add_diag (classify (HttpError 403))
        \<lparr>issued = [Reports (daily_query (channel_param DFalse) ?sd ?ed)], diags = []\<rparr>"
      by (simp add: test_youtube_analytics_api_def analytics_body_def api_calls probe_init_def demo_window,
          simp add: demo_api_def window_2024_04_24)
    then show ?thesis using run by simp
  qed
  ultimately show ?thesis using run by auto
qed

theorem analytics_depends_on_param_witness:
  "test_youtube_analytics_api (demo_api [] (\<lambda>c. []) (Inl (HttpError 401))) DFalse probe_init
   = test_youtube_analytics_api (demo_api [] (\<lambda>c. []) (Inl (HttpError 401))) DNone probe_init"
  by (rule analytics_depends_on_param) (simp add: channel_param_def)

theorem data_result_channel_witness:
  "\<exists>items vids rqs.
     channels_list (demo_api [''UCfoo''] (\<lambda>c. [demo_item c ''@daepa_ai'']) (Inl OtherError))
       (stats_req ''UCfoo'') = Inr items \<and> items \<noteq> []
     \<and> list_all item_ok items
     \<and> search_list (demo_api [''UCfoo''] (\<lambda>c. [demo_item c ''@daepa_ai'']) (Inl OtherError))
         (videos_req ''UCfoo'') = Inr vids
     \<and> issued (snd (test_youtube_data_api
          (demo_api [''UCfoo''] (\<lambda>c. [demo_item c ''@daepa_ai'']) (Inl OtherError)) None probe_init))
        = rqs @ [Channels (stats_req ''UCfoo''), Search (videos_req ''UCfoo'')]
     \<and> (\<exists>pre. diags (snd (test_youtube_data_api
          (demo_api [''UCfoo''] (\<lambda>c. [demo_item c ''@daepa_ai'']) (Inl OtherError)) None probe_init))
        = pre @ [ChannelTitle ''Some channel'', SubscriberCount ''1200'', ViewCount ''34000'',
                 VideoTotal ''56'', VideosFound 2])"
proof -
  let ?A = "demo_api [''UCfoo''] (\<lambda>c. [demo_item c ''@daepa_ai'']) (Inl OtherError)"
  have hc: "handle_clean ''Daepa_ai'' = ''Daepa_ai''"
    by (simp add: handle_clean_def py_simps)
  have "fst (test_youtube_data_api ?A None probe_init) = DChannel ''UCfoo''"
    by (simp add: test_youtube_data_api_def data_api_body_def data_channel_def
        get_channel_id_from_handle_def hc resolve_body_def data_check_channel_def api_calls
        opt_truthy_def demo_api_def window_2024_04_24 channel_search_req_def by_id_req_def stats_req_def
        videos_req_def handle_matches_def demo_item_def CHANNEL_HANDLE_def py_simps)
  then obtain s' where run: "test_youtube_data_api ?A None probe_init = (DChannel ''UCfoo'', s')"
    by (metis prod.collapse)
  from data_result_channel [OF run] show ?thesis
    unfolding run snd_conv by (auto simp: demo_api_def stats_req_def videos_req_def stats_out_def stats_lines_def
        stat_or_na_def demo_item_def)
qed

theorem daily_report_dates_witness:
  "map_of (report_params (daily_query ''channel==MINE'' \<lparr>year = 2024, month = 4, day = 17\<rparr>
       \<lparr>year = 2024, month = 4, day = 24\<rparr>)) ''startDate'' = Some ''2024-04-17''
   \<and> map_of (report_params (daily_query ''channel==MINE'' \<lparr>year = 2024, month = 4, day = 17\<rparr>
       \<lparr>year = 2024, month = 4, day = 24\<rparr>)) ''endDate'' = Some ''2024-04-24''"
proof -
  let ?A = "demo_api [] (\<lambda>c. []) (Inl OtherError)"
  obtain sd where "analytics_window ?A = Inr (sd, today ?A)"
    "map_of (report_params (daily_query ''channel==MINE'' sd (today ?A))) ''startDate'' = Some (isoformat sd)"
    "map_of (report_params (daily_query ''channel==MINE'' sd (today ?A))) ''endDate'' = Some (isoformat (today ?A))"
    using daily_report_dates [of ?A "''channel==MINE''"] date_2024_04_24 by (auto simp: demo_api_today)
  moreover have "isoformat \<lparr>year = 2024, month = 4, day = 17\<rparr> = ''2024-04-17''"
    "isoformat \<lparr>year = 2024, month = 4, day = 24\<rparr> = ''2024-04-24''" by code_simp+
  ultimately show ?thesis using demo_window by (simp add: demo_api_today)
qed

theorem analytics_window_overflow_witness:
  "test_youtube_analytics_api ((demo_api [] (\<lambda>c. []) (Inl OtherError))\<lparr>today := \<lparr>year = 1, month = 1, day = 3\<rparr>\<rparr>)
     DFalse probe_init = (False, add_diag Unclassified probe_init)"
  by (rule analytics_window_overflow)
    (simp_all add: valid_date_def days_in_month_def DAYS_IN_MONTH_def MINYEAR_def MAXYEAR_def
      ymd2ord_def days_before_year_def days_before_month_def DAYS_BEFORE_MONTH_def is_leap_def)

theorem analytics_header_keyerror_witness:
  "test_youtube_analytics_api (demo_api [] (\<lambda>c. [])
       (Inr \<lparr>column_headers = [Some ''day'', None], report_rows = []\<rparr>)) DFalse probe_init
   = (False, add_diag Unclassified (probe_init\<lparr>issued := [Reports (daily_query ''channel==MINE''
        \<lparr>year = 2024, month = 4, day = 17\<rparr> \<lparr>year = 2024, month = 4, day = 24\<rparr>)]\<rparr>))"
proof -
  let ?rep = "\<lparr>column_headers = [Some ''day'', None], report_rows = ([] :: cell list list)\<rparr>"
  let ?A = "demo_api [] (\<lambda>c. []) (Inr ?rep)"
  have "reports_query ?A (daily_query (channel_param DFalse) \<lparr>year = 2024, month = 4, day = 17\<rparr>
          \<lparr>year = 2024, month = 4, day = 24\<rparr>) = Inr ?rep"
    by (simp add: demo_api_def)
  from analytics_header_keyerror [OF demo_window this, of probe_init] show ?thesis
    by (simp add: probe_init_def channel_param_def)
qed

text \<open>A week of daily rows as the service answers them, the day first.\<close>

lemma demo_rows7:
  "map row_line [[STRING ''2024-04-17'', NUMBER 10], [STRING ''2024-04-18'', NUMBER 20],
       [STRING ''2024-04-19'', NUMBER 30], [STRING ''2024-04-20'', NUMBER 40], [STRING ''2024-04-21'', NUMBER 50]]
     = [''2024-04-17 | 10'', ''2024-04-18 | 20'', ''2024-04-19 | 30'', ''2024-04-20 | 40'', ''2024-04-21 | 50'']"
  "py_join '' | '' [''day'', ''views''] = ''day | views''"
  by code_simp+

theorem analytics_rows_printed_witness:
  "\<exists>ds. diags (snd (test_youtube_analytics_api (demo_api [] (\<lambda>c. [])
          (Inr \<lparr>column_headers = [Some ''day'', Some ''views''],
                 report_rows = [[STRING ''2024-04-17'', NUMBER 10], [STRING ''2024-04-18'', NUMBER 20],
                   [STRING ''2024-04-19'', NUMBER 30], [STRING ''2024-04-20'', NUMBER 40],
                   [STRING ''2024-04-21'', NUMBER 50], [STRING ''2024-04-22'', NUMBER 60],
                   [STRING ''2024-04-23'', NUMBER 70]]\<rparr>))
          DFalse probe_init))
     = [RowsFound 7, Columns ''day | views'', RowLine ''2024-04-17 | 10'', RowLine ''2024-04-18 | 20'',
        RowLine ''2024-04-19 | 30'', RowLine ''2024-04-20 | 40'', RowLine ''2024-04-21 | 50'', MoreRows 2] @ ds"
proof -
  let ?rep = "\<lparr>column_headers = [Some ''day'', Some ''views''],
                 report_rows = [[STRING ''2024-04-17'', NUMBER 10], [STRING ''2024-04-18'', NUMBER 20],
                   [STRING ''2024-04-19'', NUMBER 30], [STRING ''2024-04-20'', NUMBER 40],
                   [STRING ''2024-04-21'', NUMBER 50], [STRING ''2024-04-22'', NUMBER 60],
                   [STRING ''2024-04-23'', NUMBER 70]]\<rparr>"
  let ?A = "demo_api [] (\<lambda>c. []) (Inr ?rep)"
  have daily: "reports_query ?A (daily_query (channel_param DFalse) \<lparr>year = 2024, month = 4, day = 17\<rparr>
          \<lparr>year = 2024, month = 4, day = 24\<rparr>) = Inr ?rep"
    by (simp add: demo_api_def)
  have names: "header_names (column_headers ?rep) = Inr [''day'', ''views'']"
    by (simp add: header_names_def)
  obtain ds where
    "diags (snd (test_youtube_analytics_api ?A DFalse probe_init))
       = diags probe_init @ daily_table [''day'', ''views''] (report_rows ?rep) @ ds"
    using analytics_rows_printed [OF demo_window daily names, of probe_init] by blast
  moreover have "daily_table [''day'', ''views''] (report_rows ?rep) =
       [RowsFound 7, Columns ''day | views'', RowLine ''2024-04-17 | 10'', RowLine ''2024-04-18 | 20'',
        RowLine ''2024-04-19 | 30'', RowLine ''2024-04-20 | 40'', RowLine ''2024-04-21 | 50'', MoreRows 2]"
    using demo_rows7 by (simp add: daily_table_def)
  ultimately show ?thesis by (simp add: probe_init_def)
qed

end
