(* ===== verification/YtAuthMain.thy ===== *)
theory YtAuthMain
  imports Probe
begin

text \<open>
  The display part of \<open>src/yt_auth.py\<close>: \<open>test_youtube_data_api\<close> lists the
  caller's own channel (\<open>mine=True\<close>) and prints each item's title and
  statistics, \<open>test_youtube_analytics_api\<close> queries the daily report of
  \<open>channel==MINE\<close> over the trailing window and prints it as a table, and
  \<open>main\<close> runs \<open>get_credentials\<close> and then both. Nothing is caught here:
  any exception ends the script, which the result \<open>Inl\<close> records. The
  requests are the same literals as in \<open>src/test_api.py\<close> (\<open>mine_req\<close>,
  \<open>daily_query\<close>). The state extends the probe state with what the script
  prints, one \<open>yt_line\<close> per \<open>print\<close> call. The messages of
  \<open>get_credentials\<close> are read off the events it logs, one message per
  event, in the order of the log.
\<close>

subsection \<open>Console output\<close>

text \<open>One constructor per \<open>print\<close> call of the script: the fixed labels are
  the constructors, the printed values their arguments. A statistic the
  channel does not publish is printed by \<open>stats.get\<close> as \<open>None\<close>.\<close>

datatype yt_line =
    Refreshing                      \<comment> \<open>line 32\<close>
  | LoginPrompt                     \<comment> \<open>line 35\<close>
  | TokenSaved string               \<comment> \<open>line 45, with \<open>TOKEN_FILE\<close>\<close>
  | DataBanner                      \<comment> \<open>line 96\<close>
  | ChannelName string              \<comment> \<open>line 63\<close>
  | Subscribers "string option"     \<comment> \<open>line 64\<close>
  | TotalViews "string option"      \<comment> \<open>line 65\<close>
  | VideoCount "string option"      \<comment> \<open>line 66\<close>
  | Rule string                     \<comment> \<open>line 67, \<open>"-" * 40\<close>\<close>
  | AnalyticsBanner                 \<comment> \<open>line 99\<close>
  | WeeklyTitle                     \<comment> \<open>line 86\<close>
  | TableLine string                \<comment> \<open>lines 88 and 90\<close>

record yt_state = probe_state +
  stdout :: "yt_line list"

definition yt_print :: "yt_line list \<Rightarrow> yt_state \<Rightarrow> yt_state" where
  "yt_print ls s = s\<lparr>stdout := stdout s @ ls\<rparr>"

definition yt_init :: yt_state where
  "yt_init = \<lparr>issued = [], diags = [], stdout = []\<rparr>"

subsection \<open>The messages of \<open>get_credentials\<close>\<close>

text \<open>Lines 32, 35 and 45: the message printed with each event of
  \<open>get_credentials\<close>, the refresh and the login announced before the
  exchange (so also when it raises), the save confirmed after the write.\<close>

fun cm_line :: "cm_event \<Rightarrow> yt_line" where
  "cm_line RefreshCall = Refreshing"
| "cm_line LoginFlow = LoginPrompt"
| "cm_line TokenWritten = TokenSaved TOKEN_FILE"

text \<open>What a run of \<open>get_credentials\<close> from \<open>st\<close> to \<open>st'\<close> printed: the
  messages of the events it appended to the log.\<close>

definition cred_lines :: "cm_state \<Rightarrow> cm_state \<Rightarrow> yt_line list" where
  "cred_lines st st' = map cm_line (drop (length (cm_log st)) (cm_log st'))"

subsection \<open>The data check\<close>

text \<open>Lines 63--67: what one item prints.\<close>

definition item_lines :: "string \<Rightarrow> (string \<times> string) list \<Rightarrow> yt_line list" where
  "item_lines title stats =
     [ChannelName title, Subscribers (map_of stats ''subscriberCount''),
      TotalViews (map_of stats ''viewCount''), VideoCount (map_of stats ''videoCount''),
      Rule (replicate 40 CHR ''-'')]"

text \<open>Lines 60--67: the loop over \<open>response.get("items", [])\<close>.
  \<open>item["snippet"]["title"]\<close> and \<open>item["statistics"]\<close> raise
  \<open>KeyError\<close> for an item without them, after the earlier items were
  printed.\<close>

fun data_loop :: "channel_item list \<Rightarrow> yt_state \<Rightarrow> (exc + unit) \<times> yt_state" where
  "data_loop [] s = (Inr (), s)"
| "data_loop (it # its) s =
     (case ch_title it of
        None \<Rightarrow> (Inl KeyError, s)
      | Some title \<Rightarrow>
          (case ch_statistics it of
             None \<Rightarrow> (Inl KeyError, s)
           | Some stats \<Rightarrow> data_loop its (yt_print (item_lines title stats) s)))"

text \<open>Lines 50--67.\<close>

definition yt_data_test :: "api \<Rightarrow> yt_state \<Rightarrow> (exc + unit) \<times> yt_state" where
  "yt_data_test A s = bind_exc (call_channels A mine_req s) (\<lambda>items s1. data_loop items s1)"

subsection \<open>The analytics check\<close>

text \<open>Lines 89--90: \<open>for row in response.get("rows", [])\<close>, one line per
  row.\<close>

fun print_rows :: "cell list list \<Rightarrow> yt_state \<Rightarrow> yt_state" where
  "print_rows [] s = s"
| "print_rows (row # rows) s = print_rows rows (yt_print [TableLine (row_line row)] s)"

text \<open>Lines 70--90: the window of lines 74--75 (as in \<open>src/test_api.py\<close>,
  an \<open>OverflowError\<close> propagates), the query of line 77 for the daily
  report of \<open>channel==MINE\<close>, then the title; the column names are read
  after it (line 87, \<open>KeyError\<close> for a header without a name), then
  printed joined by \<open>" | "\<close>, then the rows.\<close>

definition yt_analytics_test :: "api \<Rightarrow> yt_state \<Rightarrow> (exc + unit) \<times> yt_state" where
  "yt_analytics_test A s =
     (case analytics_window A of
        Inl e \<Rightarrow> (Inl e, s)
      | Inr (start_date, end_date) \<Rightarrow>
          (case call_reports A (daily_query ''channel==MINE'' start_date end_date) s of
             (Inl e, s1) \<Rightarrow> (Inl e, s1)
           | (Inr r, s1) \<Rightarrow>
               (case header_names (column_headers r) of
                  Inl e \<Rightarrow> (Inl e, yt_print [WeeklyTitle] s1)
                | Inr names \<Rightarrow>
                    (Inr (), print_rows (report_rows r)
                               (yt_print [WeeklyTitle, TableLine (py_join '' | '' names)] s1)))))"

subsection \<open>main\<close>

text \<open>Lines 93--100: what \<open>get_credentials\<close> printed, then the banners of
  lines 96 and 99 before each check; an exception of \<open>get_credentials\<close> or
  of the data check ends the script.\<close>

definition yt_auth_main ::
  "auth_env \<Rightarrow> (credentials \<Rightarrow> api) \<Rightarrow> cm_state \<Rightarrow> (exc + unit) \<times> cm_state \<times> yt_state" where
  "yt_auth_main E api_for st =
     (case get_credentials E st of
        (Inl e, st') \<Rightarrow> (Inl e, st', yt_print (cred_lines st st') yt_init)
      | (Inr creds, st') \<Rightarrow>
          (case yt_data_test (api_for creds) (yt_print (cred_lines st st' @ [DataBanner]) yt_init) of
             (Inl e, s1) \<Rightarrow> (Inl e, st', s1)
           | (Inr _, s1) \<Rightarrow>
               (case yt_analytics_test (api_for creds) (yt_print [AnalyticsBanner] s1) of
                  (r, s2) \<Rightarrow> (r, st', s2))))"

text \<open>What an item the loop prints without raising prints.\<close>

definition item_out :: "channel_item \<Rightarrow> yt_line list" where
  "item_out it = item_lines (the (ch_title it)) (the (ch_statistics it))"

subsection \<open>Facts\<close>

lemma yt_print_simps [simp]:
  "issued (yt_print ls s) = issued s"
  "diags (yt_print ls s) = diags s"
  "stdout (yt_print ls s) = stdout s @ ls"
  "yt_print [] s = s"
  "yt_print ls (yt_print ms s) = yt_print (ms @ ls) s"
  by (simp_all add: yt_print_def)

lemma yt_print_issued_update [simp]:
  "yt_print ls (s\<lparr>issued := q\<rparr>) = (yt_print ls s)\<lparr>issued := q\<rparr>"
  by (simp add: yt_print_def)

lemma data_loop_ok:
  "list_all item_ok items \<Longrightarrow> data_loop items s = (Inr (), yt_print (concat (map item_out items)) s)"
  by (induction items arbitrary: s) (auto simp: item_ok_def item_out_def)

lemma data_loop_bad:
  "list_all item_ok pre \<Longrightarrow> \<not> item_ok it \<Longrightarrow>
   data_loop (pre @ it # post) s = (Inl KeyError, yt_print (concat (map item_out pre)) s)"
  by (induction pre arbitrary: s) (auto simp: item_ok_def item_out_def split: option.splits)

lemma data_loop_issued: "issued (snd (data_loop items s)) = issued s"
  by (induction items arbitrary: s) (auto split: option.splits)

lemma data_loop_result: "fst (data_loop items s) = Inr () \<longleftrightarrow> list_all item_ok items"
  by (induction items arbitrary: s) (auto simp: item_ok_def split: option.splits)

lemma print_rows_eq: "print_rows rows s = yt_print (map (\<lambda>r. TableLine (row_line r)) rows) s"
  by (induction rows arbitrary: s) simp_all

lemma yt_data_test_cases:
  "yt_data_test A s =
     (case channels_list A mine_req of
        Inl e \<Rightarrow> (Inl e, s\<lparr>issued := issued s @ [Channels mine_req]\<rparr>)
      | Inr items \<Rightarrow> data_loop items (s\<lparr>issued := issued s @ [Channels mine_req]\<rparr>))"
  by (simp add: yt_data_test_def api_calls split: sum.splits)

lemma yt_analytics_test_cases:
  "yt_analytics_test A s =
     (case analytics_window A of
        Inl e \<Rightarrow> (Inl e, s)
      | Inr (sd, ed) \<Rightarrow>
          (case reports_query A (daily_query ''channel==MINE'' sd ed) of
             Inl e \<Rightarrow> (Inl e, s\<lparr>issued := issued s @ [Reports (daily_query ''channel==MINE'' sd ed)]\<rparr>)
           | Inr rep \<Rightarrow>
               (case header_names (column_headers rep) of
                  Inl e \<Rightarrow> (Inl e, yt_print [WeeklyTitle]
                                (s\<lparr>issued := issued s @ [Reports (daily_query ''channel==MINE'' sd ed)]\<rparr>))
                | Inr names \<Rightarrow> (Inr (),
                    yt_print (WeeklyTitle # TableLine (py_join '' | '' names)
                              # map (\<lambda>row. TableLine (row_line row)) (report_rows rep))
                      (s\<lparr>issued := issued s @ [Reports (daily_query ''channel==MINE'' sd ed)]\<rparr>)))))"
  by (simp add: yt_analytics_test_def api_calls print_rows_eq split: sum.splits prod.splits)

lemma yt_data_test_issued: "issued (snd (yt_data_test A s)) = issued s @ [Channels mine_req]"
  by (simp add: yt_data_test_cases data_loop_issued split: sum.splits)

lemma yt_data_test_result:
  "fst (yt_data_test A s) = Inr () \<longleftrightarrow> (\<exists>items. channels_list A mine_req = Inr items \<and> list_all item_ok items)"
  by (simp add: yt_data_test_cases data_loop_result split: sum.splits)

lemma data_loop_state: "snd (data_loop items s) = yt_print (concat (map item_out (takeWhile item_ok items))) s"
  by (induction items arbitrary: s) (auto simp: item_ok_def item_out_def split: option.splits)

lemma data_loop_eq:
  "data_loop items s = (r, s') \<Longrightarrow>
     s' = yt_print (concat (map item_out (takeWhile item_ok items))) s \<and> (r = Inr () \<longleftrightarrow> list_all item_ok items)
     \<and> (r = Inr () \<longrightarrow> s' = yt_print (concat (map item_out items)) s)"
  using data_loop_state [of items s] data_loop_result [of items s]
  by (auto simp: list_all_iff takeWhile_eq_all_conv [THEN iffD2])

lemma yt_analytics_test_issued:
  "issued (snd (yt_analytics_test A s)) = issued s \<and> isl (fst (yt_analytics_test A s))
   \<or> (\<exists>sd ed. analytics_window A = Inr (sd, ed)
        \<and> issued (snd (yt_analytics_test A s)) = issued s @ [Reports (daily_query ''channel==MINE'' sd ed)])"
  by (auto simp: yt_analytics_test_cases split: sum.splits)

text \<open>The messages of a run of \<open>get_credentials\<close>: none when the cache
  served or the load raised, the refresh or login message when the exchange
  raised, and that message and the save message when it succeeded.\<close>

lemma get_credentials_lines:
  assumes "get_credentials E st = (r, st')"
  shows "st' = st \<and> cred_lines st st' = []
       \<or> isl r \<and> cred_lines st st' \<in> {[Refreshing], [LoginPrompt]}
       \<or> \<not> isl r \<and> cred_lines st st' \<in> {[Refreshing, TokenSaved TOKEN_FILE], [LoginPrompt, TokenSaved TOKEN_FILE]}"
proof -
  consider "st' = st" | co where "renew_credentials E co st = (r, st')"
    using assms by (auto simp: get_credentials_def split: if_splits sum.splits)
  then show ?thesis
  proof cases
    case 1
    then show ?thesis by (simp add: cred_lines_def)
  next
    case (2 co)
    from renew_credentials_log [OF this] show ?thesis by (auto simp: cred_lines_def)
  qed
qed

subsection \<open>The data check\<close>

text \<open>C23: When the own-channel listing answers items of which one lacks its title or its statistics, test_youtube_data_api raises KeyError after printing the title, counters and rule of exactly the items before it, and prints nothing for that item or the items after it.\<close>

theorem yt_data_test_keyerror:
  assumes "channels_list A mine_req = Inr (pre @ it # post)" "list_all item_ok pre" "\<not> item_ok it"
  shows "yt_data_test A s =
    (Inl KeyError, yt_print (concat (map item_out pre)) (s\<lparr>issued := issued s @ [Channels mine_req]\<rparr>))"
  using assms by (simp add: yt_data_test_cases data_loop_bad)

subsection \<open>The analytics check\<close>

text \<open>C22: When the window is computed and the daily report is answered, test_youtube_analytics_api prints the title and then, when every column header has a name, the column names joined by " | " and each row exactly once, in order, and returns normally; a header without a name raises KeyError right after the title.\<close>

theorem yt_analytics_test_table:
  assumes "analytics_window A = Inr (sd, ed)"
    and "reports_query A (daily_query ''channel==MINE'' sd ed) = Inr rep"
  shows "stdout (snd (yt_analytics_test A s)) = stdout s @ WeeklyTitle #
           (case header_names (column_headers rep) of
              Inl _ \<Rightarrow> []
            | Inr names \<Rightarrow> TableLine (py_join '' | '' names) # map (\<lambda>row. TableLine (row_line row)) (report_rows rep))
     \<and> fst (yt_analytics_test A s) = (if None \<in> set (column_headers rep) then Inl KeyError else Inr ())"
  using assms by (simp add: yt_analytics_test_cases header_names_def)

subsection \<open>Outcome, requests and output of main\<close>

text \<open>C19: yt_auth.main completes without an exception exactly when get_credentials returns a credential, the mine=True channel listing is answered with items that all have a title and statistics, the date window is computed, and the daily channel==MINE report for it is answered with a name for every column header.\<close>

theorem yt_auth_main_ok_iff:
  "fst (yt_auth_main E api_for st) = Inr () \<longleftrightarrow>
     (\<exists>c items rep. fst (get_credentials E st) = Inr c
        \<and> channels_list (api_for c) mine_req = Inr items
        \<and> list_all item_ok items
        \<and> (\<exists>sd ed. analytics_window (api_for c) = Inr (sd, ed)
             \<and> reports_query (api_for c) (daily_query ''channel==MINE'' sd ed) = Inr rep)
        \<and> None \<notin> set (column_headers rep))"
  by (auto simp: yt_auth_main_def yt_data_test_cases yt_analytics_test_cases data_loop_ok header_names_def
      dest: data_loop_eq
      split: prod.splits sum.splits)

text \<open>C20: Without a credential, yt_auth.main issues no API request and prints only what get_credentials printed: nothing, or the refresh or login message of the exchange that failed, never the save message. With one, it keeps the token state get_credentials left, issues the mine=True channel listing and, only when that check succeeded, the daily channel==MINE report for the window.\<close>

theorem yt_auth_main_requests:
  assumes "yt_auth_main E api_for st = (r, st', s')"
  shows "st' = snd (get_credentials E st)
     \<and> ((\<exists>e. fst (get_credentials E st) = Inl e \<and> r = Inl e \<and> issued s' = []
             \<and> stdout s' = cred_lines st st' \<and> stdout s' \<in> {[], [Refreshing], [LoginPrompt]})
        \<or> (\<exists>c. fst (get_credentials E st) = Inr c
             \<and> (issued s' = [Channels mine_req] \<and> isl r
                \<or> (\<exists>sd ed. analytics_window (api_for c) = Inr (sd, ed)
                     \<and> issued s' = [Channels mine_req, Reports (daily_query ''channel==MINE'' sd ed)])
                  \<and> fst (yt_data_test (api_for c) yt_init) = Inr ())))"
proof -
  obtain g st1 where gc: "get_credentials E st = (g, st1)" by fastforce
  show ?thesis
  proof (cases g)
    case (Inl e)
    with gc assms have "r = Inl e \<and> st' = st1 \<and> s' = yt_print (cred_lines st st1) yt_init"
      by (auto simp: yt_auth_main_def)
    with get_credentials_lines [OF gc] Inl gc show ?thesis by (auto simp: yt_init_def)
  next
    case (Inr c)
    let ?s0 = "yt_print (cred_lines st st1 @ [DataBanner]) yt_init"
    obtain d s1 where dt: "yt_data_test (api_for c) ?s0 = (d, s1)" by fastforce
    have iss1: "issued s1 = [Channels mine_req]"
      using yt_data_test_issued [of "api_for c" ?s0] dt by (simp add: yt_init_def)
    have dres: "d = Inr () \<longleftrightarrow> fst (yt_data_test (api_for c) yt_init) = Inr ()"
      using yt_data_test_result [of "api_for c" ?s0] yt_data_test_result [of "api_for c" yt_init] dt by simp
    show ?thesis
    proof (cases d)
      case (Inl e)
      have "r = Inl e \<and> st' = st1 \<and> s' = s1"
        using Inl gc \<open>g = Inr c\<close> assms dt by (auto simp: yt_auth_main_def)
      with iss1 gc \<open>g = Inr c\<close> show ?thesis by auto
    next
      case (Inr u)
      with gc \<open>g = Inr c\<close> assms dt have run: "yt_analytics_test (api_for c) (yt_print [AnalyticsBanner] s1) = (r, s')"
        and st': "st' = st1"
        by (simp_all add: yt_auth_main_def split: prod.splits)
      from Inr dres have ok: "fst (yt_data_test (api_for c) yt_init) = Inr ()" by simp
      from yt_analytics_test_issued [of "api_for c" "yt_print [AnalyticsBanner] s1"] run iss1 ok st' gc \<open>g = Inr c\<close>
      show ?thesis by auto
    qed
  qed
qed

text \<open>C21: When yt_auth.main completes, it has printed the messages of get_credentials (none when the cached token was valid, else the refresh or login message and the save message naming token.json), then the data banner, the lines of every listed channel in order, the analytics banner, the table title, the joined column names and one line per row of the daily report, and nothing else.\<close>

theorem yt_auth_main_stdout:
  assumes "yt_auth_main E api_for st = (Inr (), st', s')"
  shows "\<exists>c items sd ed rep names. fst (get_credentials E st) = Inr c
     \<and> channels_list (api_for c) mine_req = Inr items
     \<and> analytics_window (api_for c) = Inr (sd, ed)
     \<and> reports_query (api_for c) (daily_query ''channel==MINE'' sd ed) = Inr rep
     \<and> header_names (column_headers rep) = Inr names
     \<and> stdout s' = cred_lines st st' @ DataBanner # concat (map item_out items)
          @ AnalyticsBanner # WeeklyTitle # TableLine (py_join '' | '' names)
          # map (\<lambda>row. TableLine (row_line row)) (report_rows rep)
     \<and> cred_lines st st' \<in> {[], [Refreshing, TokenSaved TOKEN_FILE], [LoginPrompt, TokenSaved TOKEN_FILE]}"
  using assms
  by (auto simp: yt_auth_main_def yt_data_test_cases yt_analytics_test_cases yt_init_def data_loop_ok
      dest: data_loop_eq get_credentials_lines split: prod.splits sum.splits)

subsection \<open>Witnesses\<close>

theorem yt_data_test_keyerror_witness:
  "yt_data_test ((demo_api [] (\<lambda>c. []) (Inl OtherError))\<lparr>channels_list := \<lambda>_. Inr
       [demo_item ''UCa'' ''@a'', (demo_item ''UCb'' ''@b'')\<lparr>ch_title := None\<rparr>, demo_item ''UCc'' ''@c'']\<rparr>) yt_init
   = (Inl KeyError, \<lparr>issued = [Channels mine_req], diags = [],
       stdout = [ChannelName ''Some channel'', Subscribers (Some ''1200''), TotalViews (Some ''34000''),
                 VideoCount (Some ''56''), Rule (replicate 40 CHR ''-'')]\<rparr>)"
proof -
  let ?A = "(demo_api [] (\<lambda>c. []) (Inl OtherError))\<lparr>channels_list := \<lambda>_. Inr
       [demo_item ''UCa'' ''@a'', (demo_item ''UCb'' ''@b'')\<lparr>ch_title := None\<rparr>, demo_item ''UCc'' ''@c'']\<rparr>"
  have "yt_data_test ?A yt_init = (Inl KeyError, yt_print (concat (map item_out [demo_item ''UCa'' ''@a'']))
          (yt_init\<lparr>issued := issued yt_init @ [Channels mine_req]\<rparr>))"
    by (rule yt_data_test_keyerror [where pre = "[demo_item ''UCa'' ''@a'']"
          and it = "(demo_item ''UCb'' ''@b'')\<lparr>ch_title := None\<rparr>" and post = "[demo_item ''UCc'' ''@c'']"])
       (simp_all add: item_ok_def demo_item_def)
  then show ?thesis by (simp add: item_out_def item_lines_def demo_item_def yt_init_def yt_print_def)
qed

text \<open>A daily report of two days, the day first, as the service answers it.\<close>

lemma demo_rows:
  "row_line [STRING ''2024-04-17'', NUMBER 120] = ''2024-04-17 | 120''"
  "row_line [STRING ''2024-04-18'', NUMBER 95] = ''2024-04-18 | 95''"
  "py_join '' | '' [''day'', ''views''] = ''day | views''"
  by code_simp+

theorem yt_analytics_test_table_witness:
  "stdout (snd (yt_analytics_test (demo_api [] (\<lambda>c. [])
          (Inr \<lparr>column_headers = [Some ''day'', Some ''views''],
                 report_rows = [[STRING ''2024-04-17'', NUMBER 120], [STRING ''2024-04-18'', NUMBER 95]]\<rparr>))
          yt_init))
     = [WeeklyTitle, TableLine ''day | views'', TableLine ''2024-04-17 | 120'', TableLine ''2024-04-18 | 95'']"
proof -
  let ?rep = "\<lparr>column_headers = [Some ''day'', Some ''views''],
                 report_rows = [[STRING ''2024-04-17'', NUMBER 120], [STRING ''2024-04-18'', NUMBER 95]]\<rparr>"
  let ?A = "demo_api [] (\<lambda>c. []) (Inr ?rep)"
  have "reports_query ?A (daily_query ''channel==MINE'' \<lparr>year = 2024, month = 4, day = 17\<rparr>
          \<lparr>year = 2024, month = 4, day = 24\<rparr>) = Inr ?rep"
    by (simp add: demo_api_def)
  from yt_analytics_test_table [OF demo_window this, of yt_init] show ?thesis
    by (simp add: header_names_def demo_rows yt_init_def)
qed

text \<open>A first run with no token file whose browser login fails.\<close>

theorem yt_auth_main_requests_witness:
  "issued (snd (snd (yt_auth_main (demo_env (Inl RefreshError) (Inl FlowError))
                       (\<lambda>_. demo_api [] (\<lambda>c. []) (Inl OtherError)) \<lparr>token_file = Absent, cm_log = []\<rparr>))) = []
   \<and> stdout (snd (snd (yt_auth_main (demo_env (Inl RefreshError) (Inl FlowError))
                       (\<lambda>_. demo_api [] (\<lambda>c. []) (Inl OtherError)) \<lparr>token_file = Absent, cm_log = []\<rparr>)))
       = [LoginPrompt]"
proof -
  let ?E = "demo_env (Inl RefreshError) (Inl FlowError)"
  let ?st = "\<lparr>token_file = Absent, cm_log = []\<rparr>"
  let ?api = "\<lambda>_. demo_api [] (\<lambda>c. []) (Inl OtherError)"
  obtain r st' s' where run: "yt_auth_main ?E ?api ?st = (r, st', s')" by (cases "yt_auth_main ?E ?api ?st") auto
  have g: "get_credentials ?E ?st = (Inl FlowError, \<lparr>token_file = Absent, cm_log = [LoginFlow]\<rparr>)"
    by (simp add: get_credentials_def cm_defs demo_env_def)
  from yt_auth_main_requests [OF run] g
  have "issued s' = [] \<and> stdout s' = cred_lines ?st \<lparr>token_file = Absent, cm_log = [LoginFlow]\<rparr>" by auto
  then show ?thesis using run by (simp add: cred_lines_def)
qed

text \<open>A run on an expired token that the token endpoint refreshes.\<close>

theorem yt_auth_main_stdout_witness:
  "\<exists>st' s'. yt_auth_main (demo_env (Inr demo_grant) (Inl FlowError))
        (\<lambda>_. demo_api [] (\<lambda>c. []) (Inr \<lparr>column_headers = [Some ''day'', Some ''views''],
                                           report_rows = [[STRING ''2024-04-17'', NUMBER 120]]\<rparr>))
        \<lparr>token_file = Stored (demo_record 1100), cm_log = []\<rparr> = (Inr (), st', s')
     \<and> stdout s' = [Refreshing, TokenSaved ''token.json'', DataBanner, ChannelName ''Some channel'',
          Subscribers (Some ''1200''), TotalViews (Some ''34000''), VideoCount (Some ''56''),
          Rule (replicate 40 CHR ''-''), AnalyticsBanner, WeeklyTitle, TableLine ''day | views'',
          TableLine ''2024-04-17 | 120'']"
proof -
  let ?E = "demo_env (Inr demo_grant) (Inl FlowError)"
  let ?rep = "\<lparr>column_headers = [Some ''day'', Some ''views''],
                report_rows = [[STRING ''2024-04-17'', NUMBER 120]]\<rparr>"
  let ?A = "demo_api [] (\<lambda>c. []) (Inr ?rep)"
  let ?st = "\<lparr>token_file = Stored (demo_record 1100), cm_log = []\<rparr>"
  let ?st' = "\<lparr>token_file = Stored (to_json (demo_cred ''ya29.new'' 4599)), cm_log = [RefreshCall, TokenWritten]\<rparr>"
  have g: "get_credentials ?E ?st = (Inr (demo_cred ''ya29.new'' 4599), ?st')"
    by (simp add: get_credentials_def cm_defs demo_simps)
  have "fst (yt_auth_main ?E (\<lambda>_. ?A) ?st) = Inr ()"
    by (simp add: yt_auth_main_def g yt_data_test_cases yt_analytics_test_cases demo_window,
        simp add: demo_api_def window_2024_04_24 mine_req_def item_ok_def demo_item_def data_loop_ok
          yt_analytics_test_cases header_names_def)
  then obtain st' s' where run: "yt_auth_main ?E (\<lambda>_. ?A) ?st = (Inr (), st', s')"
    by (cases "yt_auth_main ?E (\<lambda>_. ?A) ?st") auto
  then have st': "st' = ?st'" by (simp add: yt_auth_main_def g split: prod.splits sum.splits)
  from yt_auth_main_stdout [OF run] obtain c items sd ed rep names where
    "channels_list ?A mine_req = Inr items"
    "analytics_window ?A = Inr (sd, ed)" "reports_query ?A (daily_query ''channel==MINE'' sd ed) = Inr rep"
    "header_names (column_headers rep) = Inr names"
    "stdout s' = cred_lines ?st st' @ DataBanner # concat (map item_out items)
          @ AnalyticsBanner # WeeklyTitle # TableLine (py_join '' | '' names)
          # map (\<lambda>row. TableLine (row_line row)) (report_rows rep)"
    by blast
  then have "stdout s' = [Refreshing, TokenSaved ''token.json'', DataBanner, ChannelName ''Some channel'',
          Subscribers (Some ''1200''), TotalViews (Some ''34000''), VideoCount (Some ''56''),
          Rule (replicate 40 CHR ''-''), AnalyticsBanner, WeeklyTitle, TableLine ''day | views'',
          TableLine ''2024-04-17 | 120'']"
    by (clarsimp simp: st' demo_api_def mine_req_def item_out_def item_lines_def demo_item_def demo_rows
        header_names_def cred_lines_def TOKEN_FILE_def)
  with run show ?thesis by blast
qed

end
