(* ===== verification/Requests.thy ===== *)
theory Requests
  imports YtAuthMain
begin

text \<open>
  The requests both scripts send, against the parameter rules of the
  services: a \<open>part\<close> is a comma-separated list of the resource parts the
  code asks for, a search names a query or a channel and asks for at most 50
  results of type \<open>channel\<close> or \<open>video\<close>, a report names one channel as
  \<open>channel==X\<close> and a range of two valid dates in order. The rules are a
  well-formedness predicate on \<open>request\<close>; each operation that calls a
  service keeps the invariant that every issued request satisfies it, so
  every run of \<open>test_api.main\<close> and of \<open>yt_auth.main\<close> sends only
  well-formed requests, provided the clock gives a valid date.
\<close>

named_theorems wf_intros "preservation of the well-formedness of the issued requests"

definition valid_part :: "string \<Rightarrow> bool" where
  "valid_part p \<longleftrightarrow> list_all (\<lambda>x. x \<in> {''id'', ''snippet'', ''statistics''}) (py_split '','' p)"

definition wf_request :: "request \<Rightarrow> bool" where
  "wf_request rq =
     (case rq of
        Search q \<Rightarrow> valid_part (sr_part q) \<and> sr_type q \<in> {''channel'', ''video''}
                    \<and> 0 < sr_max_results q \<and> sr_max_results q \<le> 50
                    \<and> (sr_q q \<noteq> None \<or> sr_channel_id q \<noteq> None)
      | Channels q \<Rightarrow> valid_part (cr_part q)
      | Reports q \<Rightarrow> take 9 (q_ids q) = ''channel=='' \<and> 9 < length (q_ids q)
                    \<and> valid_date (q_start q) \<and> valid_date (q_end q)
                    \<and> ymd2ord (q_start q) \<le> ymd2ord (q_end q) \<and> q_metrics q \<noteq> [])"

definition wf_issued :: "'a probe_state_scheme \<Rightarrow> bool" where
  "wf_issued s \<longleftrightarrow> list_all wf_request (issued s)"

subsection \<open>The requests of the code\<close>

lemma valid_parts:
  "valid_part ''snippet''" "valid_part ''id,snippet''" "valid_part ''snippet,statistics''"
  by code_simp+

lemma wf_constant_requests:
  "wf_request (Search (channel_search_req hc))" "wf_request (Channels (by_id_req c))"
  "wf_request (Channels (username_req hc))" "wf_request (Channels mine_req)"
  "wf_request (Channels (stats_req c))" "wf_request (Search (videos_req c))"
  by (simp_all add: wf_request_def valid_parts channel_search_req_def by_id_req_def username_req_def
      mine_req_def stats_req_def videos_req_def)

lemma window_dates:
  assumes "valid_date (today A)" "analytics_window A = Inr (sd, ed)"
  shows "valid_date sd \<and> valid_date ed \<and> ymd2ord sd \<le> ymd2ord ed"
proof -
  have t: "8 \<le> ymd2ord (today A)" "sd = ord2ymd (ymd2ord (today A) - 7)" "ed = today A"
    using assms(2) analytics_window_valid [OF assms(1)] by (cases "8 \<le> ymd2ord (today A)"; auto)+
  have r: "1 \<le> ymd2ord (today A) - 7" "ymd2ord (today A) - 7 \<le> MAXORDINAL"
    using t(1) valid_ord_range(2) [OF assms(1)] by simp_all
  show ?thesis
    using ord2ymd_valid [OF r] ymd2ord_ord2ymd [OF r(1)] t(2,3) assms(1) by simp
qed

lemma channel_param_form: "take 9 (channel_param r) = ''channel=='' \<and> 9 < length (channel_param r)"
  by (simp add: channel_param_def py_truthy_def split: data_result.splits)

lemma wf_report_queries:
  assumes "valid_date (today A)" "analytics_window A = Inr (sd, ed)"
  shows "wf_request (Reports (daily_query (channel_param r) sd ed))"
    "wf_request (Reports (overall_query (channel_param r) sd ed))"
    "wf_request (Reports (daily_query ''channel==MINE'' sd ed))"
  using window_dates [OF assms] channel_param_form [of r]
  by (simp_all add: wf_request_def daily_query_def overall_query_def)

subsection \<open>Preservation\<close>

lemma wf_calls [wf_intros]:
  "wf_request (Search rq) \<Longrightarrow> wf_issued s \<Longrightarrow> wf_issued (snd (call_search A rq s))"
  "wf_request (Channels cq) \<Longrightarrow> wf_issued s \<Longrightarrow> wf_issued (snd (call_channels A cq s))"
  "wf_request (Reports q) \<Longrightarrow> wf_issued s \<Longrightarrow> wf_issued (snd (call_reports A q s))"
  by (simp_all add: wf_issued_def api_calls)

lemma wf_bind [wf_intros]:
  "wf_issued (snd m) \<Longrightarrow> (\<And>a s. wf_issued s \<Longrightarrow> wf_issued (snd (f a s))) \<Longrightarrow> wf_issued (snd (bind_exc m f))"
  by (auto simp: bind_exc_def split: prod.splits sum.splits)

lemma wf_add_diag [wf_intros]: "wf_issued s \<Longrightarrow> wf_issued (add_diag d s)"
  by (simp add: wf_issued_def)

lemma wf_add_diags [wf_intros]: "wf_issued s \<Longrightarrow> wf_issued (add_diags ds s)"
  by (simp add: wf_issued_def)

lemma wf_yt_print [wf_intros]: "wf_issued s \<Longrightarrow> wf_issued (yt_print ls s)"
  by (simp add: wf_issued_def)

lemma wf_match_loop [wf_intros]: "wf_issued s \<Longrightarrow> wf_issued (snd (match_loop A hc items s))"
  by (induction items arbitrary: s)
     (auto intro!: wf_intros simp: wf_constant_requests split: list.splits)

lemma wf_resolve_steps [wf_intros]:
  "wf_issued s \<Longrightarrow> wf_issued (snd (first_result_fallback A items s))"
  "wf_issued s \<Longrightarrow> wf_issued (snd (for_username_lookup A hc s))"
  by (auto simp: first_result_fallback_def for_username_lookup_def wf_constant_requests
      intro!: wf_intros split: list.splits)

lemma wf_resolve_body [wf_intros]: "wf_issued s \<Longrightarrow> wf_issued (snd (resolve_body A hc s))"
  unfolding resolve_body_def
  by (auto simp: wf_constant_requests intro!: wf_intros split: option.splits)

lemma wf_get_channel_id [wf_intros]: "wf_issued s \<Longrightarrow> wf_issued (snd (get_channel_id_from_handle A h s))"
  using wf_resolve_body [of s A "handle_clean h"]
  by (auto simp: get_channel_id_from_handle_def intro!: wf_intros split: prod.splits sum.splits)

lemma wf_stats_loop [wf_intros]: "wf_issued s \<Longrightarrow> wf_issued (snd (stats_loop items s))"
  by (simp add: stats_loop_state wf_add_diags)

lemma wf_data_api [wf_intros]: "wf_issued s \<Longrightarrow> wf_issued (snd (test_youtube_data_api A c s))"
proof -
  assume s: "wf_issued s"
  have ch: "wf_issued (snd (data_channel A c s))"
    using s wf_get_channel_id [OF s, of A CHANNEL_HANDLE]
    by (auto simp: data_channel_def wf_constant_requests intro!: wf_intros split: prod.splits list.splits)
  have "wf_issued (snd (data_check_channel A cid s1))" if "wf_issued s1" for cid s1
    using that by (auto simp: data_check_channel_def wf_constant_requests intro!: wf_intros)
  then have "wf_issued (snd (data_api_body A c s))"
    using ch by (auto simp: data_api_body_def intro!: wf_intros split: option.splits)
  then show ?thesis
    by (auto simp: test_youtube_data_api_def intro!: wf_intros split: prod.splits sum.splits)
qed

lemma wf_overall_lines [wf_intros]: "wf_issued s \<Longrightarrow> wf_issued (snd (overall_lines row s))"
  by (cases "overall_lines row s") (auto dest: overall_lines_prints intro: wf_add_diags)

lemma wf_analytics_api [wf_intros]:
  "valid_date (today A) \<Longrightarrow> wf_issued s \<Longrightarrow> wf_issued (snd (test_youtube_analytics_api A r s))"
proof -
  assume t: "valid_date (today A)" and s: "wf_issued s"
  have "wf_issued (snd (analytics_body A r s))"
  proof (cases "analytics_window A")
    case (Inl e)
    then show ?thesis using s by (simp add: analytics_body_def)
  next
    case (Inr w)
    then obtain sd ed where w: "analytics_window A = Inr (sd, ed)" by (cases w) auto
    note q = wf_report_queries [OF t w]
    show ?thesis using s w q
      by (auto simp: analytics_body_def Let_def intro!: wf_intros split: list.splits sum.splits)
  qed
  then show ?thesis
    by (auto simp: test_youtube_analytics_api_def intro!: wf_intros split: prod.splits sum.splits)
qed

lemma wf_data_loop [wf_intros]: "wf_issued s \<Longrightarrow> wf_issued (snd (data_loop items s))"
  by (simp add: data_loop_state wf_yt_print)

lemma wf_yt_data_test [wf_intros]: "wf_issued s \<Longrightarrow> wf_issued (snd (yt_data_test A s))"
  by (auto simp: yt_data_test_def wf_constant_requests intro!: wf_intros)

lemma wf_yt_analytics_test:
  assumes t: "valid_date (today A)" and s: "wf_issued s"
  shows "wf_issued (snd (yt_analytics_test A s))"
proof (cases "analytics_window A")
  case (Inl e)
  then show ?thesis using s by (simp add: yt_analytics_test_cases)
next
  case (Inr w)
  then obtain sd ed where w: "analytics_window A = Inr (sd, ed)" by (cases w) auto
  note q = wf_report_queries(3) [OF t w]
  show ?thesis using s w q by (auto simp: yt_analytics_test_cases wf_issued_def split: sum.splits)
qed

subsection \<open>Both scripts\<close>

text \<open>C24: Every request test_api.main or yt_auth.main sends is well-formed for the service it goes to: the parts it asks for exist, a search asks for 1 to 50 results of type channel or video and names a query or a channel, and a report names a channel as channel==X with a non-empty X and two valid dates in order; this holds for every token state, login and service behaviour, provided the clock reads a valid date.\<close>

theorem requests_well_formed:
  assumes "\<forall>c. valid_date (today (api_for c))"
  shows "list_all wf_request (issued (snd (snd (test_api_main E api_for st))))
     \<and> list_all wf_request (issued (snd (snd (yt_auth_main E api_for st))))"
proof
  have i: "wf_issued probe_init" "wf_issued yt_init" by (simp_all add: wf_issued_def probe_init_def yt_init_def)
  have "issued (snd (snd (test_api_main E api_for st))) =
     (case load_credentials E st of
        (Inl _, _) \<Rightarrow> []
      | (Inr c, _) \<Rightarrow> issued (snd (test_youtube_analytics_api (api_for c)
                         (fst (test_youtube_data_api (api_for c) None probe_init))
                         (add_diags (channel_note (fst (test_youtube_data_api (api_for c) None probe_init)))
                           (snd (test_youtube_data_api (api_for c) None probe_init))))))"
    by (simp add: test_api_main_def probe_init_def Let_def split: prod.splits sum.splits)
  moreover have "wf_issued (snd (test_youtube_analytics_api (api_for c)
                         (fst (test_youtube_data_api (api_for c) None probe_init))
                         (add_diags (channel_note (fst (test_youtube_data_api (api_for c) None probe_init)))
                           (snd (test_youtube_data_api (api_for c) None probe_init)))))" for c
    using assms by (intro wf_analytics_api wf_add_diags wf_data_api i(1)) simp
  ultimately show "list_all wf_request (issued (snd (snd (test_api_main E api_for st))))"
    unfolding wf_issued_def by (simp split: prod.splits sum.splits)
  show "list_all wf_request (issued (snd (snd (yt_auth_main E api_for st))))"
  proof -
    obtain r0 st1 where g: "get_credentials E st = (r0, st1)" by fastforce
    show ?thesis
    proof (cases r0)
      case (Inl e)
      then show ?thesis using g by (simp add: yt_auth_main_def yt_init_def)
    next
      case (Inr c)
      let ?s0 = "yt_print (cred_lines st st1 @ [DataBanner]) yt_init"
      obtain r1 s1 where d: "yt_data_test (api_for c) ?s0 = (r1, s1)" by fastforce
      have ws1: "wf_issued s1"
        using wf_yt_data_test [OF wf_yt_print [OF i(2)], of "api_for c" "cred_lines st st1 @ [DataBanner]"] d by simp
      show ?thesis
      proof (cases r1)
        case (Inl e)
        then show ?thesis using g d ws1 Inr by (simp add: yt_auth_main_def wf_issued_def)
      next
        case r1: (Inr u)
        have "wf_issued (snd (yt_analytics_test (api_for c) (yt_print [AnalyticsBanner] s1)))"
          using wf_yt_analytics_test [OF _ wf_yt_print [OF ws1]] assms by simp
        then show ?thesis using g d Inr r1
          by (cases "yt_analytics_test (api_for c) (yt_print [AnalyticsBanner] s1)")
            (simp add: yt_auth_main_def wf_issued_def)
      qed
    qed
  qed
qed

theorem requests_well_formed_witness:
  "list_all wf_request (issued (snd (snd (test_api_main (demo_env (Inl RefreshError) (Inl FlowError))
      (\<lambda>_. demo_api [''UCfoo''] (\<lambda>c. [demo_item c ''@daepa_ai'']) (Inr \<lparr>column_headers = [], report_rows = []\<rparr>))
      \<lparr>token_file = Stored (demo_record 5000), cm_log = []\<rparr>))))
   \<and> list_all wf_request (issued (snd (snd (yt_auth_main (demo_env (Inl RefreshError) (Inl FlowError))
      (\<lambda>_. demo_api [''UCfoo''] (\<lambda>c. [demo_item c ''@daepa_ai'']) (Inr \<lparr>column_headers = [], report_rows = []\<rparr>))
      \<lparr>token_file = Stored (demo_record 5000), cm_log = []\<rparr>))))"
proof -
  let ?A = "demo_api [''UCfoo''] (\<lambda>c. [demo_item c ''@daepa_ai'']) (Inr \<lparr>column_headers = [], report_rows = []\<rparr>)"
  have t: "\<forall>c. valid_date (today ((\<lambda>_. ?A) c))" using date_2024_04_24 by (simp add: demo_api_today)
  show ?thesis by (rule requests_well_formed [OF t])
qed

end
