(* ===== verification/AcquireSpec.thy ===== *)
theory AcquireSpec
  imports CredManager
begin

text \<open>
  The contract of the credential manager in section 4.1 of the design,
  \<open>acquire(scopes) -> Credential\<close>, as a relation between a state and the
  outcomes the design allows, over the same state, environment and library
  model as \<open>CredManager\<close>. Its rules are the steps of the design's algorithm:
  a valid stored credential is returned unchanged; an invalid one with a
  refresh token is refreshed and saved, and when that refresh fails the
  interactive flow runs; without a file, or without a refresh token, the
  interactive flow runs, and its result is saved.
\<close>

definition stored_cred :: "auth_env \<Rightarrow> cm_state \<Rightarrow> exc + credentials" where
  "stored_cred E st = from_authorized_user_file (now E) (token_file st) (Some SCOPES)"

definition interactive :: "auth_env \<Rightarrow> cm_state \<Rightarrow> (exc + credentials) \<times> cm_state" where
  "interactive E st =
     (case login_flow E of
        Inl e \<Rightarrow> (Inl e, log_event LoginFlow st)
      | Inr c \<Rightarrow> (Inr c, save_token c (log_event LoginFlow st)))"

inductive acquire :: "auth_env \<Rightarrow> cm_state \<Rightarrow> (exc + credentials) \<times> cm_state \<Rightarrow> bool" where
  acq_cached:
    "stored_cred E st = Inr c \<Longrightarrow> valid (now E) c \<Longrightarrow> acquire E st (Inr c, st)"
| acq_refreshed:
    "stored_cred E st = Inr c \<Longrightarrow> \<not> valid (now E) c \<Longrightarrow> has_refresh_token c \<Longrightarrow>
     refresh (now E) (token_endpoint E) c = Inr c' \<Longrightarrow>
     acquire E st (Inr c', save_token c' (log_event RefreshCall st))"
| acq_refresh_failed:
    "stored_cred E st = Inr c \<Longrightarrow> \<not> valid (now E) c \<Longrightarrow> has_refresh_token c \<Longrightarrow>
     refresh (now E) (token_endpoint E) c = Inl e \<Longrightarrow>
     acquire E st (interactive E (log_event RefreshCall st))"
| acq_no_file:
    "token_file st = Absent \<Longrightarrow> acquire E st (interactive E st)"
| acq_no_refresh_token:
    "stored_cred E st = Inr c \<Longrightarrow> \<not> valid (now E) c \<Longrightarrow> \<not> has_refresh_token c \<Longrightarrow>
     acquire E st (interactive E st)"

inductive_cases acquire_cases: "acquire E st res"

lemma stored_cred_Absent [simp]: "token_file st = Absent \<Longrightarrow> stored_cred E st = Inl FileNotFoundError"
  by (simp add: stored_cred_def from_authorized_user_file_def)

lemma not_expired_invalid: "\<not> expired t c \<Longrightarrow> \<not> valid t c \<Longrightarrow> token c = None"
  by (simp add: valid_def)

text \<open>C4: get_credentials refines the credential manager contract of design section 4.1: when the stored token, if any, deserialises, and every invalid stored credential with a refresh token is expired and refreshes successfully, the outcome and final state of get_credentials (returned credential or exception, token file, exchange log) are among those the contract allows.\<close>

theorem get_credentials_refines_acquire:
  assumes load: "token_file st \<noteq> Absent \<Longrightarrow> \<not> isl (stored_cred E st)"
    and renew: "\<And>c. stored_cred E st = Inr c \<Longrightarrow> \<not> valid (now E) c \<Longrightarrow> has_refresh_token c \<Longrightarrow>
                  expired (now E) c \<and> \<not> isl (refresh (now E) (token_endpoint E) c)"
  shows "acquire E st (get_credentials E st)"
proof (cases "token_file st = Absent")
  case True
  then have "get_credentials E st = interactive E st"
    by (simp add: get_credentials_def renew_credentials_login interactive_def)
  then show ?thesis using acq_no_file [OF True] by simp
next
  case False
  then obtain c where c: "stored_cred E st = Inr c"
    using load by (cases "stored_cred E st") auto
  note run = get_credentials_stored [OF c [unfolded stored_cred_def]]
  show ?thesis
  proof (cases "valid (now E) c")
    case True
    then show ?thesis using c by (simp add: run acq_cached)
  next
    case inv: False
    show ?thesis
    proof (cases "has_refresh_token c")
      case True
      with renew [OF c inv] obtain c' where "expired (now E) c"
          "refresh (now E) (token_endpoint E) c = Inr c'"
        by (cases "refresh (now E) (token_endpoint E) c") auto
      then show ?thesis using c inv True
        by (simp add: run renew_credentials_refresh acq_refreshed)
    next
      case False
      then have "get_credentials E st = interactive E st" using inv
        by (simp add: run renew_credentials_stored_login renew_credentials_login interactive_def)
      then show ?thesis using acq_no_refresh_token [OF c inv False] by simp
    qed
  qed
qed

text \<open>C5: When the refresh of an expired stored credential fails and the interactive login would succeed, get_credentials's outcome is not one the design contract allows: the design falls through to the interactive flow, the code raises the refresh's exception.\<close>

theorem refresh_failure_diverges:
  assumes "stored_cred E st = Inr c" "expired (now E) c" "has_refresh_token c"
    and "refresh (now E) (token_endpoint E) c = Inl e" "login_flow E = Inr c'"
  shows "\<not> acquire E st (get_credentials E st)"
proof
  have inv: "\<not> valid (now E) c" using assms(2) by (simp add: valid_def)
  have run: "get_credentials E st = (Inl e, log_event RefreshCall st)"
    using assms inv by (simp add: get_credentials_stored [OF assms(1) [unfolded stored_cred_def]]
        renew_credentials_refresh)
  assume "acquire E st (get_credentials E st)"
  then show False unfolding run
    by (rule acquire_cases) (use assms inv in \<open>auto simp: interactive_def\<close>)
qed

text \<open>C32: A stored credential with a refresh token but no access token and an expiry in the future makes get_credentials run the interactive login, which the design contract does not allow: it prescribes the refresh exchange for every invalid credential with a refresh token.\<close>

theorem tokenless_login_diverges:
  assumes "stored_cred E st = Inr c" "token c = None" "\<not> expired (now E) c" "has_refresh_token c"
  shows "\<not> acquire E st (get_credentials E st)"
proof
  have inv: "\<not> valid (now E) c" using assms(2) by (simp add: valid_def)
  have run: "get_credentials E st = interactive E st"
    using assms inv by (simp add: get_credentials_stored [OF assms(1) [unfolded stored_cred_def]]
        renew_credentials_stored_login renew_credentials_login interactive_def)
  assume "acquire E st (get_credentials E st)"
  then show False unfolding run
    by (rule acquire_cases)
       (use assms inv in \<open>auto simp: interactive_def save_token_def log_event_def split: sum.splits
         dest: arg_cong [where f = cm_log]\<close>)
qed

theorem get_credentials_refines_acquire_witness:
  "acquire (demo_env (Inr demo_grant) (Inl FlowError))
     \<lparr>token_file = Stored (demo_record 1100), cm_log = []\<rparr>
     (get_credentials (demo_env (Inr demo_grant) (Inl FlowError))
        \<lparr>token_file = Stored (demo_record 1100), cm_log = []\<rparr>)"
proof (rule get_credentials_refines_acquire)
  have sc: "stored_cred (demo_env (Inr demo_grant) (Inl FlowError))
              \<lparr>token_file = Stored (demo_record 1100), cm_log = []\<rparr> = Inr (demo_cred ''ya29.old'' 1100)"
    by (simp add: stored_cred_def demo_simps)
  then show "\<not> isl (stored_cred (demo_env (Inr demo_grant) (Inl FlowError))
              \<lparr>token_file = Stored (demo_record 1100), cm_log = []\<rparr>)" by simp
  fix c
  assume "stored_cred (demo_env (Inr demo_grant) (Inl FlowError))
            \<lparr>token_file = Stored (demo_record 1100), cm_log = []\<rparr> = Inr c"
  then have "c = demo_cred ''ya29.old'' 1100" using sc by simp
  then show "expired (now (demo_env (Inr demo_grant) (Inl FlowError))) c \<and>
      \<not> isl (refresh (now (demo_env (Inr demo_grant) (Inl FlowError)))
              (token_endpoint (demo_env (Inr demo_grant) (Inl FlowError))) c)"
    by (simp add: demo_simps)
qed

theorem refresh_failure_diverges_witness:
  "\<not> acquire (demo_env (Inl RefreshError) (Inr (demo_cred ''ya29.login'' 9999)))
     \<lparr>token_file = Stored (demo_record 1100), cm_log = []\<rparr>
     (get_credentials (demo_env (Inl RefreshError) (Inr (demo_cred ''ya29.login'' 9999)))
        \<lparr>token_file = Stored (demo_record 1100), cm_log = []\<rparr>)"
  by (rule refresh_failure_diverges [where c = "demo_cred ''ya29.old'' 1100" and e = RefreshError
        and c' = "demo_cred ''ya29.login'' 9999"])
     (simp_all add: stored_cred_def demo_simps)

theorem tokenless_login_diverges_witness:
  "\<not> acquire (demo_env (Inr demo_grant) (Inr (demo_cred ''ya29.login'' 9999)))
     \<lparr>token_file = Stored (demo_record 5000\<lparr>rec_token := None\<rparr>), cm_log = []\<rparr>
     (get_credentials (demo_env (Inr demo_grant) (Inr (demo_cred ''ya29.login'' 9999)))
        \<lparr>token_file = Stored (demo_record 5000\<lparr>rec_token := None\<rparr>), cm_log = []\<rparr>)"
  by (rule tokenless_login_diverges [where c = "(demo_cred ''ya29.old'' 5000)\<lparr>token := None\<rparr>"])
     (simp_all add: stored_cred_def demo_simps)

end
