(* ===== verification/TokenLifecycle.thy ===== *)
theory TokenLifecycle
  imports CredManager
begin

text \<open>
  The two scripts share \<open>token.json\<close> across runs: \<open>yt_auth.py\<close> creates
  and renews it through \<open>get_credentials\<close>, \<open>test_api.py\<close> reads it and
  may rewrite it after a refresh through \<open>load_credentials\<close>. A state is
  reachable when it arises from the empty state (no token file, nothing
  logged) by any sequence of such runs, each in its own environment (clock,
  token endpoint, login result). The one assumption on the environment is
  that a completed browser login hands back a credential with a refresh
  token and a client, as the installed-app flow does on first consent.
  Under it every reachable token file loads, the only exceptions left to
  \<open>get_credentials\<close> are those of the login and the token endpoint, and
  \<open>load_credentials\<close> never fails to read the file.
\<close>

definition complete_cred :: "credentials \<Rightarrow> bool" where
  "complete_cred c \<longleftrightarrow> refresh_token c \<noteq> None \<and> client_id c \<noteq> None \<and> client_secret c \<noteq> None"

definition login_complete :: "auth_env \<Rightarrow> bool" where
  "login_complete E \<longleftrightarrow> (case login_flow E of Inl _ \<Rightarrow> True | Inr c \<Rightarrow> complete_cred c)"

definition record_loadable :: "token_file \<Rightarrow> bool" where
  "record_loadable f \<longleftrightarrow>
     (case f of
        Absent \<Rightarrow> True
      | Unparsable \<Rightarrow> False
      | Stored r \<Rightarrow> rec_refresh_token r \<noteq> None \<and> rec_client_id r \<noteq> None \<and> rec_client_secret r \<noteq> None)"

inductive token_reachable :: "cm_state \<Rightarrow> bool" where
  fresh: "token_reachable \<lparr>token_file = Absent, cm_log = []\<rparr>"
| yt_auth_run: "token_reachable st \<Longrightarrow> login_complete E \<Longrightarrow> token_reachable (snd (get_credentials E st))"
| test_api_run: "token_reachable st \<Longrightarrow> token_reachable (snd (load_credentials E st))"

subsection \<open>One run keeps the token file loadable\<close>

lemma save_token_loadable: "complete_cred c \<Longrightarrow> record_loadable (token_file (save_token c st))"
  by (simp add: save_token_def to_json_def record_loadable_def complete_cred_def)

lemma log_event_file [simp]: "token_file (log_event ev st) = token_file st"
  by (simp add: log_event_def)

lemma refresh_complete: "refresh t ep c = Inr c' \<Longrightarrow> complete_cred c' = complete_cred c"
  by (auto simp: complete_cred_def refresh_def split: option.splits if_splits sum.splits)

lemma loadable_stored:
  assumes "record_loadable (token_file st)" "token_file st \<noteq> Absent"
  obtains c where "from_authorized_user_file t (token_file st) sc = Inr c" "complete_cred c"
proof (cases "token_file st")
  case (Stored r)
  then have "from_authorized_user_info t r sc \<noteq> Inl e" for e
    using assms(1) by (simp add: from_info_Inl record_loadable_def)
  then obtain c where c: "from_authorized_user_info t r sc = Inr c"
    by (cases "from_authorized_user_info t r sc") auto
  then have "complete_cred c" by (auto simp: complete_cred_def dest: from_info_Inr_fields)
  with c Stored show thesis by (intro that) (simp_all add: from_authorized_user_file_def)
qed (use assms in \<open>simp_all add: record_loadable_def\<close>)

lemma renew_credentials_loadable:
  assumes "login_complete E" "record_loadable (token_file st)"
    and "\<forall>c. co = Some c \<longrightarrow> complete_cred c"
  shows "record_loadable (token_file (snd (renew_credentials E co st)))"
proof -
  obtain r0 ev where ex: "renew_exchange E co = (r0, ev)" by fastforce
  have "complete_cred c'" if "r0 = Inr c'" for c'
    using ex that assms(1,3)
    by (auto simp: renew_exchange_def login_complete_def refresh_complete
        split: option.splits if_splits)
  then show ?thesis using ex assms(2)
    by (auto simp: renew_credentials_def save_token_loadable split: sum.splits)
qed

lemma get_credentials_loadable:
  assumes "login_complete E" "record_loadable (token_file st)"
  shows "record_loadable (token_file (snd (get_credentials E st)))"
proof (cases "token_file st = Absent")
  case True
  then show ?thesis using renew_credentials_loadable [OF assms, of None]
    by (simp add: get_credentials_def)
next
  case False
  obtain c where c: "from_authorized_user_file (now E) (token_file st) (Some SCOPES) = Inr c"
    "complete_cred c" using loadable_stored [OF assms(2) False] by blast
  show ?thesis using renew_credentials_loadable [OF assms, of "Some c"] c assms(2)
    by (simp add: get_credentials_stored)
qed

lemma load_credentials_loadable:
  assumes "record_loadable (token_file st)"
  shows "record_loadable (token_file (snd (load_credentials E st)))"
proof (cases "token_file st = Absent")
  case False
  obtain c where c: "from_authorized_user_file (now E) (token_file st) (Some SCOPES) = Inr c"
    "complete_cred c" using loadable_stored [OF assms False] by blast
  obtain r st1 where step: "load_refresh_step E c st = (r, st1)" by fastforce
  have "record_loadable (token_file st1)"
    using step assms c(2)
    by (auto simp: load_refresh_step_def save_token_loadable split: if_splits sum.splits
        dest: refresh_complete)
  then show ?thesis using False c step
    by (auto simp: load_credentials_def split: prod.splits sum.splits)
qed (use assms in \<open>simp add: load_credentials_def\<close>)

lemma reachable_loadable: "token_reachable st \<Longrightarrow> record_loadable (token_file st)"
proof (induction rule: token_reachable.induct)
  case fresh
  then show ?case by (simp add: record_loadable_def)
next
  case (yt_auth_run st E)
  then show ?case by (simp add: get_credentials_loadable)
next
  case (test_api_run st E)
  then show ?case by (simp add: load_credentials_loadable)
qed

subsection \<open>Errors left in a loadable state\<close>

lemma loadable_get_credentials_errors:
  assumes "record_loadable (token_file st)" "fst (get_credentials E st) = Inl e"
  shows "login_flow E = Inl e \<or> (\<exists>c. token_endpoint E c = Inl e)"
proof (cases "token_file st = Absent")
  case True
  then show ?thesis using assms(2)
    by (simp add: get_credentials_def renew_credentials_login split: sum.splits)
next
  case False
  obtain c where c: "from_authorized_user_file (now E) (token_file st) (Some SCOPES) = Inr c"
    "complete_cred c" using loadable_stored [OF assms(1) False] by blast
  show ?thesis
  proof (cases "expired (now E) c \<and> has_refresh_token c")
    case True
    then show ?thesis using assms(2) c
      by (auto simp: get_credentials_stored renew_credentials_refresh refresh_def complete_cred_def
          split: if_splits sum.splits option.splits)
  next
    case False
    then show ?thesis using assms(2) c
      by (auto simp: get_credentials_stored renew_credentials_stored_login renew_credentials_login
          split: if_splits sum.splits)
  qed
qed

subsection \<open>Properties of the reachable states\<close>

text \<open>C13: In every state of token.json that runs of yt_auth.py and test_api.py can reach from no file (logins returning a refresh token and client), get_credentials fails only with the exception of the browser login or of the token endpoint: never ValueError, JSONDecodeError or RefreshError for a missing field.\<close>

theorem reachable_get_credentials_errors:
  assumes "token_reachable st" "fst (get_credentials E st) = Inl e"
  shows "login_flow E = Inl e \<or> (\<exists>c. token_endpoint E c = Inl e)"
  by (rule loadable_get_credentials_errors [OF reachable_loadable [OF assms(1)] assms(2)])

text \<open>C14: In every reachable state, test_api.load_credentials never exits through its outer exception handler (LoadFailed): the token file it finds, if any, always deserialises.\<close>

theorem reachable_load_never_fails_to_load:
  assumes "token_reachable st"
  shows "fst (load_credentials E st) \<noteq> Inl (LoadFailed e)"
proof (cases "token_file st = Absent")
  case False
  obtain c where "from_authorized_user_file (now E) (token_file st) (Some SCOPES) = Inr c"
    using loadable_stored [OF reachable_loadable [OF assms] False] by blast
  then show ?thesis using False
    by (auto simp: load_credentials_def load_refresh_step_def split: prod.splits sum.splits if_splits)
qed (simp add: load_credentials_def)

subsection \<open>Witnesses\<close>

text \<open>The state after a first \<open>yt_auth.py\<close> run whose login succeeds, and
  after a \<open>test_api.py\<close> run on it at a time when the token has expired and
  the endpoint refuses the refresh.\<close>

lemma demo_reachable:
  "token_reachable (snd (get_credentials (demo_env (Inl RefreshError) (Inr (demo_cred ''ya29.login'' 9999)))
      \<lparr>token_file = Absent, cm_log = []\<rparr>))"
  by (rule yt_auth_run [OF fresh]) (simp add: login_complete_def complete_cred_def demo_cred_def demo_env_def)

lemma demo_state:
  "snd (get_credentials (demo_env (Inl RefreshError) (Inr (demo_cred ''ya29.login'' 9999)))
      \<lparr>token_file = Absent, cm_log = []\<rparr>)
   = \<lparr>token_file = Stored (to_json (demo_cred ''ya29.login'' 9999)), cm_log = [LoginFlow, TokenWritten]\<rparr>"
  by (simp add: get_credentials_def renew_credentials_login demo_env_def save_token_def log_event_def)

theorem reachable_get_credentials_errors_witness:
  "login_flow ((demo_env (Inl RefreshError) (Inl FlowError))\<lparr>now := 20000\<rparr>) = Inl RefreshError
   \<or> (\<exists>c. token_endpoint ((demo_env (Inl RefreshError) (Inl FlowError))\<lparr>now := 20000\<rparr>) c
          = Inl RefreshError)"
proof (rule reachable_get_credentials_errors [OF demo_reachable])
  show "fst (get_credentials ((demo_env (Inl RefreshError) (Inl FlowError))\<lparr>now := 20000\<rparr>)
          (snd (get_credentials (demo_env (Inl RefreshError) (Inr (demo_cred ''ya29.login'' 9999)))
             \<lparr>token_file = Absent, cm_log = []\<rparr>))) = Inl RefreshError"
    by (simp add: demo_state get_credentials_def cm_defs demo_simps)
qed

theorem reachable_load_never_fails_to_load_witness:
  "fst (load_credentials (demo_env (Inl RefreshError) (Inl FlowError))
     (snd (get_credentials (demo_env (Inl RefreshError) (Inr (demo_cred ''ya29.login'' 9999)))
        \<lparr>token_file = Absent, cm_log = []\<rparr>))) \<noteq> Inl (LoadFailed ValueError)"
  by (rule reachable_load_never_fails_to_load [OF demo_reachable])

end
