(* ===== verification/Spec2Isabelle.thy ===== *)
theory Spec2Isabelle
  imports Requests AcquireSpec TokenLifecycle
begin

text \<open>
  \<^bold>\<open>A verification library for \<open>jsong1230/youtube_outh\<close>.\<close>

  \<^bold>\<open>The program.\<close> Two Python scripts. \<open>src/yt_auth.py\<close> obtains an
  OAuth2 credential for the YouTube Data and Analytics APIs
  (\<open>get_credentials\<close>: load \<open>token.json\<close>, refresh an expired token, or
  run the browser login, then save) and prints channel statistics and a 7-day
  report. \<open>src/test_api.py\<close> is a smoke test: \<open>load_credentials\<close> (load,
  refresh if expired, exit 1 on any failure), \<open>get_channel_id_from_handle\<close>
  (resolve the handle \<open>Daepa_ai\<close> through channel search, per-result lookups,
  a first-result fallback and \<open>forUsername\<close>), \<open>test_youtube_data_api\<close>,
  \<open>test_youtube_analytics_api\<close> and \<open>main\<close>, whose exit code reports the
  two checks. The credential manager hands a credential to the probe; the
  probe's data check hands the channel id (or \<open>False\<close>/\<open>None\<close>) to the
  analytics check. All I/O is with external collaborators: the token file,
  the Google token endpoint, the browser login, and the two REST APIs.

  \<^bold>\<open>Theories.\<close>
  \<^item> \<open>Prelude\<close>: the exceptions (\<open>exc\<close>), exception propagation through a
    state (\<open>bind_exc\<close>), and the Python string builtins the code applies to a
    handle (\<open>py_strip\<close>, \<open>py_lower\<close>, \<open>py_replace_char\<close>, \<open>py_in\<close>),
    on ASCII characters.
  \<^item> \<open>PyFormat\<close>: Python's integer-to-text conversions, \<open>%d\<close>/\<open>%0Nd\<close>
    (\<open>dec_digits\<close>, \<open>fmt_0d\<close>, \<open>str(v)\<close> as \<open>py_str_int\<close>) and
    \<open>sep.join\<close> (\<open>py_join\<close>), with the readers a consumer of the printed
    text applies, \<open>int(s)\<close> (\<open>py_int\<close>) and \<open>s.split(sep)\<close>
    (\<open>py_split\<close>, a \<open>function\<close> with its termination proof). Lemmas:
    \<open>int(str(v)) = v\<close>; a zero-padded field reads back as its value;
    splitting \<open>" | ".join(xs)\<close> at \<open>" | "\<close> gives back \<open>xs\<close> when no
    piece contains \<open>|\<close>.
  \<^item> \<open>Dates\<close>: the part of Python's \<open>datetime\<close> the analytics checks
    use (not part of the repository; translated from the module's pure-Python
    implementation): \<open>date\<close>, \<open>toordinal\<close>/\<open>fromordinal\<close>
    (\<open>ymd2ord\<close>, \<open>ord2ymd\<close>, with the 400/100/4-year cycles of
    \<open>_ord2ymd\<close>), \<open>date - timedelta(days=k)\<close> with its
    \<open>OverflowError\<close>, and \<open>isoformat\<close> through the \<open>%0Nd\<close> conversion.
    Lemmas: \<open>fromordinal\<close> yields a valid date in years 1..9999 that
    \<open>toordinal\<close> maps back (the month table is checked on all 365 days of
    both kinds of year, the year arithmetic in closed form), and conversely
    every valid date is \<open>fromordinal\<close> of its ordinal, which lies in
    \<open>1..MAXORDINAL\<close> (\<open>ord2ymd_ymd2ord\<close>, through the monotonicity of
    \<open>days_before_year\<close> and the month tables); an ISO string reads back
    (\<open>parse_iso_date\<close>) as the date it was printed from.
  \<^item> \<open>GoogleCreds\<close>: the library's \<open>Credentials\<close> (not part of the repository,
    modelled from its documented behaviour): the record \<open>credentials\<close>, the
    JSON \<open>token_record\<close>, \<open>expired\<close>/\<open>valid\<close> with the 225-second
    refresh threshold, \<open>from_authorized_user_info\<close>/\<open>_file\<close>, \<open>to_json\<close>
    and \<open>refresh\<close> against a token endpoint given as a function. Lemmas: expiry
    is monotone in time; \<open>to_json\<close> round-trips when the refresh token,
    client and expiry are present, and does not otherwise (a credential without a
    refresh token reloads as \<open>ValueError\<close>, one without expiry reloads
    expired); a successful refresh keeps scopes and client and yields a valid
    credential when the grant lives longer than the threshold.
  \<^item> \<open>CredManager\<close>: state \<open>cm_state\<close> = the token file and a log of
    refreshes, logins and writes; environment \<open>auth_env\<close> = clock, token
    endpoint, login result. \<open>get_credentials\<close> = \<open>yt_auth.get_credentials\<close>
    (split as \<open>renew_exchange\<close>, the choice of refresh or login, and
    \<open>renew_credentials\<close>, which saves); \<open>load_credentials\<close> =
    \<open>test_api.load_credentials\<close> (with \<open>load_refresh_step\<close>), its four
    \<open>sys.exit(1)\<close> paths as \<open>load_error\<close>. Lemmas: the three test
    scenarios of the spec (valid cache: no I/O; expired with refresh token:
    exactly one refresh then one write, scopes kept; no file and no login: error,
    no file created); the divergences (a failed refresh propagates instead of
    falling back to the login; a record without \<open>refresh_token\<close> crashes);
    the shape of the event log of each function (at most one exchange, a write
    only after a successful one, \<open>load_credentials\<close> never logs in); and
    persistence across runs: a credential saved without a refresh token locks
    every later run out with
    \<open>ValueError\<close>, one saved without expiry is refreshed on the next run,
    and a cache hit at some time is a cache hit at every earlier time.
  \<^item> \<open>AcquireSpec\<close>: the contract \<open>acquire(scopes)\<close> of spec section 4.1
    as an \<open>inductive\<close> relation \<open>acquire\<close> from a state to the outcomes
    and final states the design allows (one rule per step of its algorithm,
    the interactive flow as \<open>interactive\<close>). \<open>get_credentials\<close> refines
    it wherever the stored record deserialises and no refresh is skipped or
    fails; the two places where it does not are proved as divergences (a failed
    refresh raises instead of falling through to the login; a credential with a
    refresh token, no access token and a future expiry goes to the login
    instead of the refresh).
  \<^item> \<open>YouTubeApi\<close>: the requests with the source's literal parameters, the
    response fields the code reads, the services as the record \<open>api\<close> of
    functions, \<open>probe_state\<close> = requests issued and diagnostics printed,
    \<open>classify\<close> for the \<open>except\<close> handlers, \<open>report_params\<close> for the keyword
    arguments of a report query (the dates as \<open>isoformat\<close> strings). A
    channel item carries its \<open>statistics\<close> part as an association list;
    the service calls are typed over \<open>'a probe_state_scheme\<close>, so that the
    state of \<open>yt_auth.py\<close> can extend the probe's. A report is its
    column headers by their \<open>name\<close> key (\<open>header_names\<close> raises
    \<open>KeyError\<close> for one without) and its rows of JSON cells
    (\<open>cell\<close>: \<open>STRING\<close> for the \<open>day\<close> dimension, \<open>NUMBER\<close> for a
    metric), printed by both scripts as \<open>row_line\<close> with \<open>str\<close> per cell.
  \<^item> \<open>ChannelResolve\<close>: \<open>get_channel_id_from_handle\<close> as \<open>handle_clean\<close>,
    \<open>match_loop\<close> (a \<open>fun\<close>, structural on the result list),
    \<open>first_result_fallback\<close>, \<open>for_username_lookup\<close> and
    \<open>resolve_body\<close>. Lemmas: the spec's handle example (a first result whose
    custom URL contains the handle is returned after exactly two requests); an
    empty search falls back to \<open>forUsername\<close> without raising; a returned id
    is one the API produced (\<open>resolve_sound\<close>); the loop returns the first
    matching result; at most \<open>length results + 2\<close> requests follow the search.
  \<^item> \<open>Probe\<close>: \<open>test_youtube_data_api\<close> (\<open>data_channel\<close>,
    \<open>data_check_channel\<close> with its item loop \<open>stats_loop\<close>,
    \<open>data_api_body\<close>), \<open>test_youtube_analytics_api\<close>
    (\<open>analytics_window\<close> for \<open>end_date\<close> and \<open>start_date\<close>,
    \<open>daily_query\<close>, \<open>overall_query\<close>, \<open>analytics_body\<close>, the printed
    \<open>daily_table\<close> and \<open>overall_lines\<close>) and \<open>test_api_main\<close> with its
    closing summary. What the probe prints is the list \<open>diags\<close> of the
    probe state: the classified failures and warnings of spec section 7 and
    every line that carries data (the resolved id, each channel's title and
    counters with \<open>N/A\<close> for a hidden one, the video count, the daily table
    with at most five rows, the aggregate figures, the two verdicts and the
    closing line). The column names are read before the rows, so a header
    without a name raises \<open>KeyError\<close> before the table; the figures of the
    first aggregate row raise \<open>IndexError\<close>, \<open>ValueError\<close> or
    \<open>TypeError\<close> on an empty row or a string where a number is formatted
    or divided (\<open>overall_lines\<close>, with its outcome \<open>overall_result\<close>).
    Lemmas: the analytics result is exactly "window computed, both reports
    answered, every daily column named, and the first aggregate row, if any,
    starts with a number not followed by a string" (no daily rows is only a
    warning); a nameless header fails the check after the daily request only; the dates sent are today and 7 days earlier as
    ISO strings, 8 days inclusive, for every valid date of today on or after
    0001-01-08; before it the window raises and the check fails without a
    request; the table prints exactly the first five rows and the number of
    the others; a returned channel id was looked up with items, printed, and
    its videos listed and counted; the summary agrees with the exit code.
  \<^item> \<open>YtAuthMain\<close>: the display functions and \<open>main\<close> of \<open>yt_auth.py\<close>,
    which catch nothing. The state \<open>yt_state\<close> extends \<open>probe_state\<close> by
    what the script prints, one \<open>yt_line\<close> per \<open>print\<close> call (the
    labels are constructors, the values arguments; a hidden counter prints
    \<open>None\<close>). The messages of \<open>get_credentials\<close> (lines 32, 35, 45) are
    read off the events it appends to the log (\<open>cm_line\<close>,
    \<open>cred_lines\<close>): the refresh and login messages precede the exchange and
    are printed even when it raises, the save message follows the write and
    names \<open>TOKEN_FILE\<close>. \<open>yt_data_test\<close> runs the item loop
    \<open>data_loop\<close> (a \<open>fun\<close>; \<open>KeyError\<close> on an item without title or
    statistics, after the earlier items were printed); \<open>yt_analytics_test\<close>
    prints the title, then reads the column names (\<open>KeyError\<close> for a
    nameless header), prints them joined and then the rows (\<open>print_rows\<close>,
    structural on the row list). Lemmas: \<open>main\<close> succeeds exactly when the
    credential is obtained, every listed own channel has a title and
    statistics, and the daily report is answered with named columns; without a
    credential it sends no request and prints only the refresh or login message
    of the failed exchange, if any; it sends the report only after a
    successful listing; a completed run prints exactly the messages of
    \<open>get_credentials\<close> (none on a cache hit, else the exchange's and the
    save message), the banners, the channels' lines and the table.
  \<^item> \<open>Requests\<close>: the services' parameter rules as \<open>wf_request\<close> (existing
    parts, 1 to 50 search results of type \<open>channel\<close> or \<open>video\<close>, a report
    for \<open>channel==X\<close> over two valid dates in order), the invariant
    \<open>wf_issued\<close> that every issued request satisfies them, and its
    preservation by every operation that calls a service (collected in
    \<open>wf_intros\<close>). Hence every request of either script is well-formed,
    whatever the token file, login and services do, when the clock reads a
    valid date.
  \<^item> \<open>TokenLifecycle\<close>: \<open>token.json\<close> across any sequence of runs of both
    scripts, as the \<open>inductive\<close> set \<open>token_reachable\<close> of states reached
    from no file by \<open>get_credentials\<close> and \<open>load_credentials\<close> runs, each
    in its own environment, logins returning a refresh token and a client
    (\<open>login_complete\<close>). By rule induction: every reachable file loads
    (\<open>record_loadable\<close>). Hence \<open>get_credentials\<close> fails only with the
    login's or the endpoint's exception, and \<open>load_credentials\<close> never
    exits through \<open>LoadFailed\<close>.
  \<^item> This theory: properties of \<open>test_api.main\<close> across components, and the
    hand-off between the scripts through \<open>token.json\<close>: a credential that
    \<open>yt_auth.get_credentials\<close> returns, from the cache or just written, is
    loaded unchanged by \<open>test_api.load_credentials\<close> while valid.

  \<^bold>\<open>Main result.\<close> \<open>main_false_reported_ok\<close>: when the channel lookup of
  the data check returns no items, \<open>test_youtube_data_api\<close> prints a failure
  and returns \<open>False\<close>, but \<open>main\<close> computes
  \<open>data_api_result = channel_id is not None\<close>, which holds for \<open>False\<close>;
  so the process exits 0 and reports the Data API as working, and the
  analytics check queries \<open>channel==MINE\<close> instead. A code bug, proved on a
  concrete run by its witness.

  \<^bold>\<open>Bounds and fuel.\<close> No fuel is needed: every loop of the source is a
  loop over a finite list. \<open>match_loop\<close> and \<open>data_loop\<close> recurse on the
  list, and so does \<open>print_rows\<close>, the \<open>for\<close> loop over the report rows;
  \<open>py_split\<close> terminates by the length of the remaining text.
  The calendar functions are closed forms (no loop in \<open>_ord2ymd\<close>);
  \<open>dec_digits\<close> recurses on \<open>n div 10\<close> under the guard \<open>10 \<le> n\<close>. Time
  is one clock value per run; the analytics date is \<open>today\<close> of the service
  record, the \<open>date\<close> that \<open>datetime.utcnow().date()\<close> returns.

  \<^bold>\<open>Not modelled.\<close> The fixed banners and step titles of
  \<open>test_api.py\<close>, which carry no data, and the text of the exception printed
  by its handlers (the classification is kept); the exact text of the fixed
  labels of both scripts (Korean and emoji, outside ASCII; they are the
  constructors of \<open>yt_line\<close> and \<open>diag\<close>); the hours of watch time, a
  float formatted with \<open>:.2f\<close>, of which the minutes are kept; the imports of lines 1--8, \<open>build()\<close> of the discovery client (assumed to succeed), failures
  of writing \<open>token.json\<close>, the \<open>token_uri\<close>, \<open>account\<close> and
  \<open>universe_domain\<close> fields of the token record, sub-second expiry, Unicode
  beyond ASCII in \<open>lower\<close>/\<open>strip\<close>, the clock itself (\<open>utcnow\<close>
  and the credential manager's \<open>now\<close> are inputs), the OAuth protocol
  inside the login flow and the endpoint; report cells other than integers
  and strings (a float metric), and column header fields other than
  \<open>name\<close>.
\<close>

section \<open>Properties of \<open>test_api.main\<close>\<close>

text \<open>C1: When the credential loads, the data check returns False because its channel lookup found no items (a failure it prints), and the analytics check succeeds, test_api.main exits 0 and closes its output with the summary that both APIs work and the all-passed line, after the printed failure, and the analytics reports were queried for channel==MINE: a Data API failure is reported as success.\<close>

theorem main_false_reported_ok:
  assumes "load_credentials E st = (Inr c, st')"
    and "test_youtube_data_api (api_for c) None probe_init = (DFalse, s1)"
    and "test_youtube_analytics_api (api_for c) DFalse s1 = (True, s2)"
  shows "test_api_main E api_for st = (0, st', add_diags [Summary True True, AllOk] s2) \<and> NoChannel \<in> set (diags s2)
       \<and> (\<forall>sd ed. q_ids (daily_query (channel_param DFalse) sd ed) = ''channel==MINE'')"
proof -
  have "NoChannel \<in> set (diags s1)" by (rule data_result_false [OF assms(2)])
  moreover obtain ds where "diags s2 = diags s1 @ ds" using analytics_diags_extend [OF assms(3)] by blast
  ultimately have "NoChannel \<in> set (diags s2)" by simp
  moreover have "test_api_main E api_for st = (0, st', add_diags [Summary True True, AllOk] s2)"
    using assms by (simp add: test_api_main_def)
  ultimately show ?thesis by (simp add: daily_query_def channel_param_def)
qed

theorem main_false_reported_ok_witness:
  "fst (test_api_main (demo_env (Inl RefreshError) (Inl FlowError))
          (\<lambda>_. demo_api [] (\<lambda>c. []) (Inr \<lparr>column_headers = [], report_rows = []\<rparr>))
          \<lparr>token_file = Stored (demo_record 5000), cm_log = []\<rparr>) = 0
   \<and> NoChannel \<in> set (diags (snd (snd (test_api_main (demo_env (Inl RefreshError) (Inl FlowError))
          (\<lambda>_. demo_api [] (\<lambda>c. []) (Inr \<lparr>column_headers = [], report_rows = []\<rparr>))
          \<lparr>token_file = Stored (demo_record 5000), cm_log = []\<rparr>))))"
proof -
  let ?E = "demo_env (Inl RefreshError) (Inl FlowError)"
  let ?A = "demo_api [] (\<lambda>c. []) (Inr \<lparr>column_headers = [], report_rows = []\<rparr>)"
  let ?st = "\<lparr>token_file = Stored (demo_record 5000), cm_log = []\<rparr>"
  have hc: "handle_clean CHANNEL_HANDLE = CHANNEL_HANDLE"
    by (simp add: handle_clean_def CHANNEL_HANDLE_def py_simps)
  have l: "load_credentials ?E ?st = (Inr (demo_cred ''ya29.old'' 5000), ?st)"
    by (simp add: load_credentials_def load_refresh_step_def demo_simps)
  have "fst (test_youtube_data_api ?A None probe_init) = DFalse"
    by (simp add: test_youtube_data_api_def data_api_body_def data_channel_def
        get_channel_id_from_handle_def hc resolve_body_def for_username_lookup_def
        data_check_channel_def api_calls opt_truthy_def demo_api_def window_2024_04_24 channel_search_req_def
        username_req_def mine_req_def stats_req_def)
  then have d: "test_youtube_data_api ?A None probe_init
                  = (DFalse, snd (test_youtube_data_api ?A None probe_init))"
    by (metis prod.collapse)
  have "fst (analytics_body ?A DFalse (snd (test_youtube_data_api ?A None probe_init))) = Inr True"
    by (simp add: analytics_body_result demo_api_def window_2024_04_24 header_names_def)
  then have "fst (test_youtube_analytics_api ?A DFalse (snd (test_youtube_data_api ?A None probe_init)))"
    by (simp add: test_youtube_analytics_api_fst)
  then have a: "test_youtube_analytics_api ?A DFalse (snd (test_youtube_data_api ?A None probe_init))
      = (True, snd (test_youtube_analytics_api ?A DFalse (snd (test_youtube_data_api ?A None probe_init))))"
    by (metis prod.collapse)
  from main_false_reported_ok [OF l d a] show ?thesis by simp
qed

text \<open>C2: Exit code 0 of test_api.main implies that the credential was loaded, is valid at the time of the run, and that the data check did not end in an exception.\<close>

theorem main_success_valid_credential:
  assumes "test_api_main E api_for st = (0, st', s')"
  shows "\<exists>c. load_credentials E st = (Inr c, st') \<and> valid (now E) c
           \<and> fst (test_youtube_data_api (api_for c) None probe_init) \<noteq> DNone"
proof -
  obtain r st1 where l: "load_credentials E st = (r, st1)" by fastforce
  with assms obtain c where rc: "r = Inr c" and "st1 = st'"
    and "fst (test_youtube_data_api (api_for c) None probe_init) \<noteq> DNone"
    by (auto simp: test_api_main_def Let_def split: sum.splits prod.splits if_splits)
  moreover from l rc have "valid (now E) c" by (auto intro: load_credentials_valid)
  ultimately show ?thesis using l by blast
qed

theorem main_success_valid_credential_witness:
  "\<exists>c. load_credentials (demo_env (Inl RefreshError) (Inl FlowError))
          \<lparr>token_file = Stored (demo_record 5000), cm_log = []\<rparr>
        = (Inr c, \<lparr>token_file = Stored (demo_record 5000), cm_log = []\<rparr>)
      \<and> valid 1000 c
      \<and> fst (test_youtube_data_api (demo_api [] (\<lambda>c. []) (Inr \<lparr>column_headers = [], report_rows = []\<rparr>))
               None probe_init) \<noteq> DNone"
proof -
  let ?E = "demo_env (Inl RefreshError) (Inl FlowError)"
  let ?A = "demo_api [] (\<lambda>c. []) (Inr \<lparr>column_headers = [], report_rows = []\<rparr>)"
  let ?st = "\<lparr>token_file = Stored (demo_record 5000), cm_log = []\<rparr>"
  have hc: "handle_clean CHANNEL_HANDLE = CHANNEL_HANDLE"
    by (simp add: handle_clean_def CHANNEL_HANDLE_def py_simps)
  have l: "load_credentials ?E ?st = (Inr (demo_cred ''ya29.old'' 5000), ?st)"
    by (simp add: load_credentials_def load_refresh_step_def demo_simps)
  have "fst (test_youtube_data_api ?A None probe_init) = DFalse"
    by (simp add: test_youtube_data_api_def data_api_body_def data_channel_def
        get_channel_id_from_handle_def hc resolve_body_def for_username_lookup_def
        data_check_channel_def api_calls opt_truthy_def demo_api_def window_2024_04_24 channel_search_req_def
        username_req_def mine_req_def stats_req_def)
  then obtain s1 where d: "test_youtube_data_api ?A None probe_init = (DFalse, s1)"
    by (metis prod.collapse)
  have "fst (analytics_body ?A DFalse s1) = Inr True"
    by (simp add: analytics_body_result demo_api_def window_2024_04_24 header_names_def)
  then have "fst (test_youtube_analytics_api ?A DFalse s1)"
    by (simp add: test_youtube_analytics_api_fst)
  then obtain s2 where a: "test_youtube_analytics_api ?A DFalse s1 = (True, s2)"
    by (metis prod.collapse)
  have "test_api_main ?E (\<lambda>_. ?A) ?st = (0, ?st, add_diags [Summary True True, AllOk] s2)"
    by (simp add: test_api_main_def l d a)
  from main_success_valid_credential [OF this] l show ?thesis by (auto simp: demo_env_def)
qed

text \<open>C3: Whenever the credential loads, test_api.main ends its output with the two verdicts and a closing line that agree with its exit code: it exits 0 and prints the all-passed line exactly when both verdicts are positive, and the Data API verdict is positive exactly when the data check did not end in an exception.\<close>

theorem main_summary_agrees:
  assumes "load_credentials E st = (Inr c, st1)" and "test_api_main E api_for st = (code, st', s')"
  shows "\<exists>d a pre. diags s' = pre @ [Summary d a, if code = 0 then AllOk else SomeFailed]
           \<and> (code = 0 \<longleftrightarrow> d \<and> a) \<and> (code = 0 \<or> code = 1)
           \<and> (d \<longleftrightarrow> fst (test_youtube_data_api (api_for c) None probe_init) \<noteq> DNone)"
  using assms by (auto simp: test_api_main_def Let_def split: prod.splits if_splits)

theorem main_summary_agrees_witness:
  "\<exists>d a pre. diags (snd (snd (test_api_main (demo_env (Inl RefreshError) (Inl FlowError))
          (\<lambda>_. demo_api [] (\<lambda>c. []) (Inl OtherError))
          \<lparr>token_file = Stored (demo_record 5000), cm_log = []\<rparr>)))
        = pre @ [Summary d a, SomeFailed] \<and> \<not> (d \<and> a)"
proof -
  let ?E = "demo_env (Inl RefreshError) (Inl FlowError)"
  let ?A = "demo_api [] (\<lambda>c. []) (Inl OtherError)"
  let ?st = "\<lparr>token_file = Stored (demo_record 5000), cm_log = []\<rparr>"
  have l: "load_credentials ?E ?st = (Inr (demo_cred ''ya29.old'' 5000), ?st)"
    by (simp add: load_credentials_def load_refresh_step_def demo_simps)
  obtain D s1 where d: "test_youtube_data_api ?A None probe_init = (D, s1)" by fastforce
  have "fst (analytics_body ?A D (add_diags (channel_note D) s1)) = Inl OtherError"
    by (simp add: analytics_body_result demo_api_def window_2024_04_24 header_names_def)
  then have "\<not> fst (test_youtube_analytics_api ?A D (add_diags (channel_note D) s1))"
    by (simp add: test_youtube_analytics_api_fst)
  then obtain s2 where a: "test_youtube_analytics_api ?A D (add_diags (channel_note D) s1) = (False, s2)"
    by (metis prod.collapse)
  have "fst (test_api_main ?E (\<lambda>_. ?A) ?st) = 1"
    by (simp add: test_api_main_def l d a Let_def)
  moreover obtain code st' s' where run: "test_api_main ?E (\<lambda>_. ?A) ?st = (code, st', s')"
    by (metis prod.collapse)
  ultimately show ?thesis using main_summary_agrees [OF l run] by auto
qed

text \<open>C37: When load_credentials fails, test_api.main exits 1 without issuing any API request.\<close>

theorem main_load_failure:
  assumes "load_credentials E st = (Inl err, st')"
  shows "test_api_main E api_for st = (1, st', probe_init)"
  using assms by (simp add: test_api_main_def)

theorem main_load_failure_witness:
  "test_api_main (demo_env (Inl RefreshError) (Inl FlowError)) (\<lambda>_. demo_api [] (\<lambda>c. []) (Inl OtherError))
     \<lparr>token_file = Absent, cm_log = []\<rparr> = (1, \<lparr>token_file = Absent, cm_log = []\<rparr>, probe_init)"
  by (rule main_load_failure [where err = NoTokenFile]) (simp add: load_credentials_def)

section \<open>The token file shared by the two scripts\<close>

text \<open>C12: A credential that yt_auth.get_credentials returns, with refresh token, client id, client secret, expiry and the requested scopes, is what token.json then holds: test_api.load_credentials, at any later time while the credential is valid, loads it unchanged with no exchange and no write, whether get_credentials took it from the cache or has just refreshed or logged in and written it.\<close>

theorem token_handoff:
  assumes run: "get_credentials E st = (Inr c, st')"
    and "refresh_token c \<noteq> None" "client_id c \<noteq> None" "client_secret c \<noteq> None"
    and "expiry c \<noteq> None" "scopes c = Some SCOPES" and "valid (now E') c"
  shows "load_credentials E' st' = (Inr c, st')"
proof -
  have ld: "from_authorized_user_file (now E') (token_file st') (Some SCOPES) = Inr c"
    using get_credentials_Inr_file [OF run]
  proof
    assume "st' = st \<and> (\<exists>r. token_file st = Stored r \<and> rec_expiry r \<noteq> None
                        \<and> from_authorized_user_info (now E) r (Some SCOPES) = Inr c)"
    then obtain r where "token_file st' = Stored r" "rec_expiry r \<noteq> None"
      "from_authorized_user_info (now E) r (Some SCOPES) = Inr c" by auto
    then show ?thesis
      using from_info_expiry_time [of r "now E'" "Some SCOPES" "now E"]
      by (simp add: from_authorized_user_file_def)
  next
    assume "token_file st' = Stored (to_json c)"
    then show ?thesis
      using to_json_roundtrip [OF assms(2-5), of "now E'" "Some SCOPES"] assms(6)
      by (simp add: from_authorized_user_file_def)
  qed
  then have "token_file st' \<noteq> Absent" by (auto simp: from_authorized_user_file_def)
  with ld assms(7) show ?thesis
    by (simp add: load_credentials_def load_refresh_step_def valid_def)
qed

theorem token_handoff_witness:
  "load_credentials (demo_env (Inl RefreshError) (Inl FlowError))
     \<lparr>token_file = Stored (to_json (demo_cred ''ya29.new'' 4599)), cm_log = [RefreshCall, TokenWritten]\<rparr>
   = (Inr (demo_cred ''ya29.new'' 4599),
      \<lparr>token_file = Stored (to_json (demo_cred ''ya29.new'' 4599)), cm_log = [RefreshCall, TokenWritten]\<rparr>)"
proof -
  have run: "get_credentials (demo_env (Inr demo_grant) (Inl FlowError))
     \<lparr>token_file = Stored (demo_record 1100), cm_log = []\<rparr>
   = (Inr (demo_cred ''ya29.new'' 4599),
      \<lparr>token_file = Stored (to_json (demo_cred ''ya29.new'' 4599)), cm_log = [RefreshCall, TokenWritten]\<rparr>)"
    by (simp add: get_credentials_def cm_defs demo_simps)
  show ?thesis
    by (rule token_handoff [OF run]) (simp_all add: demo_simps)
qed

end
